theory Spec2Isabelle
  imports Complex_Main "HOL-Library.Signed_Division" "HOL-Library.Word"
begin

unbundle bit_operations_syntax

section \<open>Numbers and vectors\<close>

text \<open>
  A TypeScript \<open>number\<close> is modelled as a real: IEEE rounding, the infinities and NaN are
  outside the model, except where the code produces \<open>undefined\<close> or NaN by a property
  read (see the scanline below); a division by zero, which yields an infinity or NaN in the
  source, has the value \<open>0\<close> here, and no property below rests on one.
  A \<open>bigint\<close> is an \<open>int\<close>.
\<close>

datatype vector2 = Vector2 (vx: real) (vy: real)

definition Vector2_add :: "vector2 \<Rightarrow> vector2 \<Rightarrow> vector2" where
  "Vector2_add a b = Vector2 (vx a + vx b) (vy a + vy b)"

definition Vector2_subtract :: "vector2 \<Rightarrow> vector2 \<Rightarrow> vector2" where
  "Vector2_subtract a b = Vector2 (vx a - vx b) (vy a - vy b)"

definition Vector2_scale :: "vector2 \<Rightarrow> real \<Rightarrow> vector2" where
  "Vector2_scale a v = Vector2 (vx a * v) (vy a * v)"

definition Vector2_length :: "vector2 \<Rightarrow> real" where
  "Vector2_length a = sqrt (vx a * vx a + vy a * vy a)"

definition Vector2_normalize :: "vector2 \<Rightarrow> bool \<Rightarrow> vector2" where
  "Vector2_normalize a allowZero =
     (let len = Vector2_length a in
      if len \<noteq> 0 then Vector2 (vx a / len) (vy a / len)
      else Vector2 0 (if allowZero then 0 else 1))"

definition Vector2_getOrthonormal :: "vector2 \<Rightarrow> bool \<Rightarrow> bool \<Rightarrow> vector2" where
  "Vector2_getOrthonormal a polarity allowZero =
     (let len = Vector2_length a in
      if len \<noteq> 0 then
        (if polarity then Vector2 (- vy a / len) (vx a / len)
         else Vector2 (vy a / len) (- vx a / len))
      else
        (let sign = (if allowZero then 0 else 1) in
         if polarity then Vector2 0 sign else Vector2 0 (- sign)))"

definition Vector2_equals :: "vector2 \<Rightarrow> vector2 \<Rightarrow> bool" where
  "Vector2_equals a b \<longleftrightarrow> vx a = vx b \<and> vy a = vy b"

definition dotProduct :: "vector2 \<Rightarrow> vector2 \<Rightarrow> real" where
  "dotProduct a b = vx a * vx b + vy a * vy b"

definition crossProduct :: "vector2 \<Rightarrow> vector2 \<Rightarrow> real" where
  "crossProduct a b = vx a * vy b - vy a * vx b"

text \<open>\<open>mix\<close> is overloaded in the source: on numbers and on vectors.\<close>

definition mix :: "real \<Rightarrow> real \<Rightarrow> real \<Rightarrow> real" where
  "mix a b t = a + t * (b - a)"

definition mixv :: "vector2 \<Rightarrow> vector2 \<Rightarrow> real \<Rightarrow> vector2" where
  "mixv a b t = Vector2 (vx a + t * (vx b - vx a)) (vy a + t * (vy b - vy a))"

definition nonZeroSign :: "real \<Rightarrow> real" where
  "nonZeroSign n = 2 * (if n > 0 then 1 else 0) - 1"

section \<open>Equation solver\<close>

definition solveQuadratic :: "real \<Rightarrow> real \<Rightarrow> real \<Rightarrow> real list" where
  "solveQuadratic a b c =
     (if a = 0 \<or> \<bar>b\<bar> > 1000000000000 * \<bar>a\<bar> then
        (if b = 0 then [] else [- c / b])
      else
        (let discriminant = b * b - 4 * a * c in
         if discriminant > 0 then
           (let sqrtD = sqrt discriminant in
            [(- b + sqrtD) / (2 * a), (- b - sqrtD) / (2 * a)])
         else if discriminant = 0 then [- b / (2 * a)]
         else []))"

definition solveCubicNormed :: "real \<Rightarrow> real \<Rightarrow> real \<Rightarrow> real list" where
  "solveCubicNormed a b c =
     (let a2 = a * a;
          q = (1 / 9) * (a2 - 3 * b);
          r = (1 / 54) * (a * (2 * a2 - 9 * b) + 27 * c);
          r2 = r * r;
          q3 = q * q * q;
          aThird = a * (1 / 3)
      in if r2 < q3 then
           (let t0 = r / sqrt q3;
                t1 = (if t0 < - 1 then - 1 else t0);
                t2 = (if t1 > 1 then 1 else t1);
                t = arccos t2;
                qMult = - 2 * sqrt q
            in [qMult * cos ((1 / 3) * t) - aThird,
                qMult * cos ((1 / 3) * (t + 2 * pi)) - aThird,
                qMult * cos ((1 / 3) * (t - 2 * pi)) - aThird])
         else
           (let u = (if r < 0 then 1 else - 1) * (\<bar>r\<bar> + sqrt (r2 - q3)) powr (1 / 3);
                v = (if u = 0 then 0 else q / u);
                root1 = u + v - aThird
            in if u = v \<or> \<bar>u - v\<bar> < (1 / 1000000000000) * \<bar>u + v\<bar> then
                 (let root2 = - (1 / 2) * (u + v) - aThird in [root1, root2])
               else [root1]))"

definition solveCubic :: "real \<Rightarrow> real \<Rightarrow> real \<Rightarrow> real \<Rightarrow> real list" where
  "solveCubic a b c d =
     (if a \<noteq> 0 \<and> \<bar>b / a\<bar> < 1000000 then solveCubicNormed (b / a) (c / a) (d / a)
      else solveQuadratic b c d)"

section \<open>Double precision numbers\<close>

text \<open>
  Where a claim depends on rounding, on an infinity or on NaN, the numbers are IEEE 754
  doubles: a finite value, the negative zero, the two infinities, or NaN. \<open>roundTo p emin emax\<close>
  rounds a real to the nearest number with a significand of \<open>p\<close> bits, ties to even, with
  gradual underflow below \<open>2 ^ emin\<close> and overflow from \<open>2 ^ emax\<close> on; binary64 is
  \<open>roundTo 53 (-1022) 1024\<close> and binary32 is \<open>roundTo 24 (-126) 128\<close>.
\<close>

datatype jsnum = Fin real | NegZero | PosInf | NegInf | NaN

definition roundEven :: "real \<Rightarrow> int" where
  "roundEven x =
     (let f = \<lfloor>x\<rfloor>; d = x - of_int f
      in if d < 1 / 2 then f else if d > 1 / 2 then f + 1 else if even f then f else f + 1)"

definition roundTo :: "int \<Rightarrow> int \<Rightarrow> int \<Rightarrow> real \<Rightarrow> jsnum" where
  "roundTo p emin emax r =
     (let e = max \<lfloor>log 2 \<bar>r\<bar>\<rfloor> emin;
          q = (2::real) powr of_int (e - p + 1);
          y = q * of_int (roundEven (r / q))
      in if r = 0 then Fin 0
         else if y \<ge> (2::real) powr of_int emax then PosInf
         else if y \<le> - ((2::real) powr of_int emax) then NegInf
         else if y = 0 then (if r < 0 then NegZero else Fin 0)
         else Fin y)"

definition round64 :: "real \<Rightarrow> jsnum" where
  "round64 = roundTo 53 (- 1022) 1024"

definition round32 :: "real \<Rightarrow> jsnum" where
  "round32 = roundTo 24 (- 126) 128"

text \<open>
  The operations of IEEE 754, rounding to nearest, ties to even. \<open>Fin 0\<close> is the positive
  zero and \<open>NegZero\<close> the negative one.
\<close>

fun num_val :: "jsnum \<Rightarrow> real" where
  "num_val (Fin x) = x"
| "num_val a = 0"

fun num_isInf :: "jsnum \<Rightarrow> bool" where
  "num_isInf PosInf \<longleftrightarrow> True"
| "num_isInf NegInf \<longleftrightarrow> True"
| "num_isInf a \<longleftrightarrow> False"

fun num_isZero :: "jsnum \<Rightarrow> bool" where
  "num_isZero (Fin x) \<longleftrightarrow> x = 0"
| "num_isZero NegZero \<longleftrightarrow> True"
| "num_isZero a \<longleftrightarrow> False"

fun num_negative :: "jsnum \<Rightarrow> bool" where
  "num_negative (Fin x) \<longleftrightarrow> x < 0"
| "num_negative NegZero \<longleftrightarrow> True"
| "num_negative NegInf \<longleftrightarrow> True"
| "num_negative a \<longleftrightarrow> False"

definition signedZero :: "bool \<Rightarrow> jsnum" where
  "signedZero negative = (if negative then NegZero else Fin 0)"

definition signedInf :: "bool \<Rightarrow> jsnum" where
  "signedInf negative = (if negative then NegInf else PosInf)"

fun num_neg :: "jsnum \<Rightarrow> jsnum" where
  "num_neg (Fin x) = (if x = 0 then NegZero else Fin (- x))"
| "num_neg NegZero = Fin 0"
| "num_neg PosInf = NegInf"
| "num_neg NegInf = PosInf"
| "num_neg NaN = NaN"

fun num_abs :: "jsnum \<Rightarrow> jsnum" where
  "num_abs (Fin x) = Fin \<bar>x\<bar>"
| "num_abs NegZero = Fin 0"
| "num_abs PosInf = PosInf"
| "num_abs NegInf = PosInf"
| "num_abs NaN = NaN"

definition num_add :: "jsnum \<Rightarrow> jsnum \<Rightarrow> jsnum" where
  "num_add a b =
     (if a = NaN \<or> b = NaN then NaN
      else if num_isInf a \<and> num_isInf b then (if a = b then a else NaN)
      else if num_isInf a then a
      else if num_isInf b then b
      else if a = NegZero \<and> b = NegZero then NegZero
      else (let r = num_val a + num_val b in if r = 0 then Fin 0 else round64 r))"

definition num_sub :: "jsnum \<Rightarrow> jsnum \<Rightarrow> jsnum" where
  "num_sub a b = num_add a (num_neg b)"

definition num_mul :: "jsnum \<Rightarrow> jsnum \<Rightarrow> jsnum" where
  "num_mul a b =
     (let negative = (num_negative a \<noteq> num_negative b)
      in if a = NaN \<or> b = NaN then NaN
         else if (num_isInf a \<and> num_isZero b) \<or> (num_isZero a \<and> num_isInf b) then NaN
         else if num_isInf a \<or> num_isInf b then signedInf negative
         else if num_isZero a \<or> num_isZero b then signedZero negative
         else round64 (num_val a * num_val b))"

definition num_div :: "jsnum \<Rightarrow> jsnum \<Rightarrow> jsnum" where
  "num_div a b =
     (let negative = (num_negative a \<noteq> num_negative b)
      in if a = NaN \<or> b = NaN then NaN
         else if (num_isInf a \<and> num_isInf b) \<or> (num_isZero a \<and> num_isZero b) then NaN
         else if num_isInf a \<or> num_isZero b then signedInf negative
         else if num_isInf b \<or> num_isZero a then signedZero negative
         else round64 (num_val a / num_val b))"

definition num_sqrt :: "jsnum \<Rightarrow> jsnum" where
  "num_sqrt a =
     (if a = NaN then NaN
      else if num_isZero a then a
      else if num_negative a then NaN
      else if a = PosInf then PosInf
      else round64 (sqrt (num_val a)))"

text \<open>The comparisons: every comparison with \<open>NaN\<close> is false, and the two zeros are equal.\<close>

definition num_less :: "jsnum \<Rightarrow> jsnum \<Rightarrow> bool" where
  "num_less a b \<longleftrightarrow>
     a \<noteq> NaN \<and> b \<noteq> NaN \<and> a \<noteq> PosInf \<and> b \<noteq> NegInf
       \<and> (a = NegInf \<or> b = PosInf \<or> num_val a < num_val b)"

definition num_equal :: "jsnum \<Rightarrow> jsnum \<Rightarrow> bool" where
  "num_equal a b \<longleftrightarrow>
     a \<noteq> NaN \<and> b \<noteq> NaN
       \<and> (if num_isInf a \<or> num_isInf b then a = b else num_val a = num_val b)"

text \<open>
  \<open>Math.fround\<close>, which is also what a store into a \<open>Float32Array\<close> does: the nearest
  single precision number.
\<close>

fun fround :: "jsnum \<Rightarrow> jsnum" where
  "fround (Fin x) = round32 x"
| "fround a = a"

section \<open>Range and distance mapping\<close>

datatype Range = Range (lower: jsnum) (upper: jsnum)

text \<open>The constructor with one argument, a width, makes the range symmetrical.\<close>

definition Range_ofWidth :: "jsnum \<Rightarrow> Range" where
  "Range_ofWidth width =
     (let halfWidth = num_mul width (Fin (1 / 2)) in Range (num_neg halfWidth) halfWidth)"

datatype distance_mapping = DistanceMapping (dm_scale: jsnum) (dm_translate: jsnum)

definition DistanceMapping_ofRange :: "Range \<Rightarrow> distance_mapping" where
  "DistanceMapping_ofRange r =
     (let rangeWidth = num_sub (upper r) (lower r)
      in DistanceMapping (num_div (Fin 1) rangeWidth) (num_neg (lower r)))"

text \<open>The constructor without a range gives the identity mapping.\<close>

definition DistanceMapping_identity :: distance_mapping where
  "DistanceMapping_identity = DistanceMapping (Fin 1) (Fin 0)"

definition DistanceMapping_map :: "distance_mapping \<Rightarrow> jsnum \<Rightarrow> jsnum" where
  "DistanceMapping_map m distance = num_mul (dm_scale m) (num_add distance (dm_translate m))"

definition DistanceMapping_mapDelta :: "distance_mapping \<Rightarrow> jsnum \<Rightarrow> jsnum" where
  "DistanceMapping_mapDelta m delta = num_mul (dm_scale m) delta"

definition DistanceMapping_getInverse :: "distance_mapping \<Rightarrow> distance_mapping" where
  "DistanceMapping_getInverse m =
     DistanceMapping (num_div (Fin 1) (dm_scale m)) (num_mul (num_neg (dm_scale m)) (dm_translate m))"

section \<open>The quadratic solver on doubles\<close>

text \<open>
  \<open>solveQuadratic\<close> as the code computes it, on doubles: every operation rounds, and the
  branches test the rounded discriminant. The geometry above uses the solver over the reals.
\<close>

definition solveQuadratic_fallback :: "jsnum \<Rightarrow> jsnum \<Rightarrow> bool" where
  "solveQuadratic_fallback a b \<longleftrightarrow>
     num_equal a (Fin 0) \<or> num_less (num_mul (Fin 1000000000000) (num_abs a)) (num_abs b)"

definition solveQuadratic_discriminant :: "jsnum \<Rightarrow> jsnum \<Rightarrow> jsnum \<Rightarrow> jsnum" where
  "solveQuadratic_discriminant a b c = num_sub (num_mul b b) (num_mul (num_mul (Fin 4) a) c)"

definition solveQuadratic_double :: "jsnum \<Rightarrow> jsnum \<Rightarrow> jsnum \<Rightarrow> jsnum list" where
  "solveQuadratic_double a b c =
     (if solveQuadratic_fallback a b then
        (if num_equal b (Fin 0) then [] else [num_div (num_neg c) b])
      else
        (let discriminant = solveQuadratic_discriminant a b c in
         if num_less (Fin 0) discriminant then
           (let sqrtD = num_sqrt discriminant in
            [num_div (num_add (num_neg b) sqrtD) (num_mul (Fin 2) a),
             num_div (num_sub (num_neg b) sqrtD) (num_mul (Fin 2) a)])
         else if num_equal discriminant (Fin 0) then [num_div (num_neg b) (num_mul (Fin 2) a)]
         else []))"

section \<open>Edge colors\<close>

text \<open>The enum \<open>EdgeColor\<close> is a 3-bit set of channels.\<close>

definition BLACK :: nat where [simp]: "BLACK = 0"
definition RED :: nat where [simp]: "RED = 1"
definition GREEN :: nat where [simp]: "GREEN = 2"
definition YELLOW :: nat where [simp]: "YELLOW = 3"
definition BLUE :: nat where [simp]: "BLUE = 4"
definition MAGENTA :: nat where [simp]: "MAGENTA = 5"
definition CYAN :: nat where [simp]: "CYAN = 6"
definition WHITE :: nat where [simp]: "WHITE = 7"

definition numChannels :: "nat \<Rightarrow> nat" where
  "numChannels c =
     (if c AND RED \<noteq> 0 then 1 else 0) + (if c AND GREEN \<noteq> 0 then 1 else 0)
       + (if c AND BLUE \<noteq> 0 then 1 else 0)"

section \<open>Signed distances\<close>

definition MAX_VALUE :: real where
  "MAX_VALUE = 2 ^ 1024 - 2 ^ 971"

datatype signed_distance = SignedDistance (sd_distance: real) (sd_dot: real)

definition SignedDistance_lessThan :: "signed_distance \<Rightarrow> signed_distance \<Rightarrow> bool" where
  "SignedDistance_lessThan this other =
     (let absA = \<bar>sd_distance this\<bar>; absB = \<bar>sd_distance other\<bar>
      in absA < absB \<or> (absA = absB \<and> sd_dot this < sd_dot other))"

section \<open>Edge segments\<close>

text \<open>
  The three subclasses of \<open>EdgeSegment\<close>, each with its control points and its color. The
  methods are functions by cases on the class.
\<close>

datatype edge_segment =
    LinearSegment vector2 vector2 nat
  | QuadraticSegment vector2 vector2 vector2 nat
  | CubicSegment vector2 vector2 vector2 vector2 nat

fun EdgeSegment_color :: "edge_segment \<Rightarrow> nat" where
  "EdgeSegment_color (LinearSegment p0 p1 c) = c"
| "EdgeSegment_color (QuadraticSegment p0 p1 p2 c) = c"
| "EdgeSegment_color (CubicSegment p0 p1 p2 p3 c) = c"

fun EdgeSegment_setColor :: "edge_segment \<Rightarrow> nat \<Rightarrow> edge_segment" where
  "EdgeSegment_setColor (LinearSegment p0 p1 c) c' = LinearSegment p0 p1 c'"
| "EdgeSegment_setColor (QuadraticSegment p0 p1 p2 c) c' = QuadraticSegment p0 p1 p2 c'"
| "EdgeSegment_setColor (CubicSegment p0 p1 p2 p3 c) c' = CubicSegment p0 p1 p2 p3 c'"

fun EdgeSegment_point :: "edge_segment \<Rightarrow> real \<Rightarrow> vector2" where
  "EdgeSegment_point (LinearSegment p0 p1 c) t = mixv p0 p1 t"
| "EdgeSegment_point (QuadraticSegment p0 p1 p2 c) t = mixv (mixv p0 p1 t) (mixv p1 p2 t) t"
| "EdgeSegment_point (CubicSegment p0 p1 p2 p3 c) t =
     (let p12 = mixv p1 p2 t
      in mixv (mixv (mixv p0 p1 t) p12 t) (mixv p12 (mixv p2 p3 t) t) t)"

fun EdgeSegment_direction :: "edge_segment \<Rightarrow> real \<Rightarrow> vector2" where
  "EdgeSegment_direction (LinearSegment p0 p1 c) t = Vector2_subtract p1 p0"
| "EdgeSegment_direction (QuadraticSegment p0 p1 p2 c) t =
     (let tangent = mixv (Vector2_subtract p1 p0) (Vector2_subtract p2 p1) t
      in if vx tangent = 0 \<and> vy tangent = 0 then Vector2_subtract p2 p0 else tangent)"
| "EdgeSegment_direction (CubicSegment p0 p1 p2 p3 c) t =
     (let tangent = mixv (mixv (Vector2_subtract p1 p0) (Vector2_subtract p2 p1) t)
                         (mixv (Vector2_subtract p2 p1) (Vector2_subtract p3 p2) t) t
      in if vx tangent = 0 \<and> vy tangent = 0 then
           (if t = 0 then Vector2_subtract p2 p0
            else if t = 1 then Vector2_subtract p3 p1
            else tangent)
         else tangent)"

text \<open>\<open>EdgeSegment_reverse\<close> mutates the segment in place; here it returns the reversed segment.\<close>

fun EdgeSegment_reverse :: "edge_segment \<Rightarrow> edge_segment" where
  "EdgeSegment_reverse (LinearSegment p0 p1 c) = LinearSegment p1 p0 c"
| "EdgeSegment_reverse (QuadraticSegment p0 p1 p2 c) = QuadraticSegment p2 p1 p0 c"
| "EdgeSegment_reverse (CubicSegment p0 p1 p2 p3 c) = CubicSegment p3 p2 p1 p0 c"

definition LinearSegment_splitInThirds ::
  "vector2 \<Rightarrow> vector2 \<Rightarrow> nat \<Rightarrow> edge_segment \<times> edge_segment \<times> edge_segment" where
  "LinearSegment_splitInThirds q0 q1 c =
     (let p0 = q0;
          p1 = EdgeSegment_point (LinearSegment q0 q1 c) (1 / 3);
          p2 = EdgeSegment_point (LinearSegment q0 q1 c) (2 / 3);
          p3 = q1
      in (LinearSegment p0 p1 c, LinearSegment p1 p2 c, LinearSegment p2 p3 c))"

definition QuadraticSegment_splitInThirds ::
  "vector2 \<Rightarrow> vector2 \<Rightarrow> vector2 \<Rightarrow> nat \<Rightarrow> edge_segment \<times> edge_segment \<times> edge_segment" where
  "QuadraticSegment_splitInThirds q0 q1 q2 c =
     (let p0 = q0;
          p1 = mixv q0 q1 (1 / 3);
          p2 = EdgeSegment_point (QuadraticSegment q0 q1 q2 c) (1 / 3);
          p3 = mixv (mixv q0 q1 (5 / 9)) (mixv q1 q2 (4 / 9)) (1 / 2);
          p4 = EdgeSegment_point (QuadraticSegment q0 q1 q2 c) (2 / 3);
          p5 = mixv q1 q2 (2 / 3);
          p6 = q2
      in (QuadraticSegment p0 p1 p2 c, QuadraticSegment p2 p3 p4 c, QuadraticSegment p4 p5 p6 c))"

definition CubicSegment_splitInThirds ::
  "vector2 \<Rightarrow> vector2 \<Rightarrow> vector2 \<Rightarrow> vector2 \<Rightarrow> nat
     \<Rightarrow> edge_segment \<times> edge_segment \<times> edge_segment" where
  "CubicSegment_splitInThirds q0 q1 q2 q3 c =
     (let t1 = 1 / 3;
          p01_1 = mixv q0 q1 t1;
          p12_1 = mixv q1 q2 t1;
          p23_1 = mixv q2 q3 t1;
          p012_1 = mixv p01_1 p12_1 t1;
          p123_1 = mixv p12_1 p23_1 t1;
          p0123_1 = mixv p012_1 p123_1 t1;
          tAdjusted = 1 / 2;
          p01_2 = mixv p0123_1 p123_1 tAdjusted;
          p12_2 = mixv p123_1 p23_1 tAdjusted;
          p23_2 = mixv p23_1 q3 tAdjusted;
          p012_2 = mixv p01_2 p12_2 tAdjusted;
          p123_2 = mixv p12_2 p23_2 tAdjusted;
          p0123_2 = mixv p012_2 p123_2 tAdjusted
      in (CubicSegment q0 p01_1 p012_1 p0123_1 c,
          CubicSegment p0123_1 p01_2 p012_2 p0123_2 c,
          CubicSegment p0123_2 p123_2 p23_2 q3 c))"

fun EdgeSegment_splitInThirds :: "edge_segment \<Rightarrow> edge_segment \<times> edge_segment \<times> edge_segment" where
  "EdgeSegment_splitInThirds (LinearSegment p0 p1 c) = LinearSegment_splitInThirds p0 p1 c"
| "EdgeSegment_splitInThirds (QuadraticSegment p0 p1 p2 c) = QuadraticSegment_splitInThirds p0 p1 p2 c"
| "EdgeSegment_splitInThirds (CubicSegment p0 p1 p2 p3 c) = CubicSegment_splitInThirds p0 p1 p2 p3 c"

subsection \<open>Signed distance to a segment\<close>

text \<open>The result object \<open>{ distance, param }\<close> is a pair.\<close>

type_synonym signed_distance_result = "signed_distance \<times> real"

definition LinearSegment_signedDistance :: "vector2 \<Rightarrow> vector2 \<Rightarrow> vector2 \<Rightarrow> signed_distance_result" where
  "LinearSegment_signedDistance p0 p1 origin =
     (let aq = Vector2_subtract origin p0;
          ab = Vector2_subtract p1 p0;
          param = dotProduct aq ab / dotProduct ab ab;
          eq = Vector2_subtract (if param > 1 / 2 then p1 else p0) origin;
          endpointDistance = Vector2_length eq
      in if param > 0 \<and> param < 1
            \<and> \<bar>dotProduct (Vector2_getOrthonormal ab False False) aq\<bar> < endpointDistance
         then (SignedDistance (dotProduct (Vector2_getOrthonormal ab False False) aq) 0, param)
         else (SignedDistance (nonZeroSign (crossProduct aq ab) * endpointDistance)
                 \<bar>dotProduct (Vector2_normalize ab False) (Vector2_normalize eq False)\<bar>,
               param))"

text \<open>
  The closing part shared by the quadratic and the cubic segment: the alignment \<open>dot\<close> is
  zero when the parameter lies in \<open>[0, 1]\<close>, and measured at the nearer end otherwise.
\<close>

definition endpoint_result ::
  "edge_segment \<Rightarrow> vector2 \<Rightarrow> vector2 \<Rightarrow> vector2 \<Rightarrow> real \<Rightarrow> real \<Rightarrow> signed_distance_result" where
  "endpoint_result e qa plast origin minDistance param =
     (if param \<ge> 0 \<and> param \<le> 1 then (SignedDistance minDistance 0, param)
      else if param < 1 / 2 then
        (SignedDistance minDistance
           \<bar>dotProduct (Vector2_normalize (EdgeSegment_direction e 0) False) (Vector2_normalize qa False)\<bar>, param)
      else
        (SignedDistance minDistance
           \<bar>dotProduct (Vector2_normalize (EdgeSegment_direction e 1) False)
              (Vector2_normalize (Vector2_subtract plast origin) False)\<bar>, param))"

fun quadratic_candidates ::
  "vector2 \<Rightarrow> vector2 \<Rightarrow> vector2 \<Rightarrow> real list \<Rightarrow> real \<times> real \<Rightarrow> real \<times> real" where
  "quadratic_candidates qa ab br [] (minDistance, param) = (minDistance, param)"
| "quadratic_candidates qa ab br (t # ts) (minDistance, param) =
     (if t > 0 \<and> t < 1 then
        (let qe = Vector2_add (Vector2_add qa (Vector2_scale ab (2 * t))) (Vector2_scale br (t * t));
             distance = Vector2_length qe
         in if distance \<le> \<bar>minDistance\<bar> then
              quadratic_candidates qa ab br ts
                (nonZeroSign (crossProduct (Vector2_add ab (Vector2_scale br t)) qe) * distance, t)
            else quadratic_candidates qa ab br ts (minDistance, param))
      else quadratic_candidates qa ab br ts (minDistance, param))"

definition QuadraticSegment_signedDistance ::
  "vector2 \<Rightarrow> vector2 \<Rightarrow> vector2 \<Rightarrow> nat \<Rightarrow> vector2 \<Rightarrow> signed_distance_result" where
  "QuadraticSegment_signedDistance p0 p1 p2 c origin =
     (let this = QuadraticSegment p0 p1 p2 c;
          qa = Vector2_subtract p0 origin;
          ab = Vector2_subtract p1 p0;
          br = Vector2_subtract (Vector2_subtract p2 p1) ab;
          a = dotProduct br br;
          b = 3 * dotProduct ab br;
          c' = 2 * dotProduct ab ab + dotProduct qa br;
          d = dotProduct qa ab;
          solutions = solveCubic a b c' d;
          epDir = EdgeSegment_direction this 0;
          minDistance = nonZeroSign (crossProduct epDir qa) * Vector2_length qa;
          param = - dotProduct qa epDir / dotProduct epDir epDir;
          distance = Vector2_length (Vector2_subtract p2 origin);
          (minDistance, param) =
            (if distance < \<bar>minDistance\<bar> then
               (let epDir = EdgeSegment_direction this 1
                in (nonZeroSign (crossProduct epDir (Vector2_subtract p2 origin)) * distance,
                    dotProduct (Vector2_subtract origin p1) epDir / dotProduct epDir epDir))
             else (minDistance, param));
          (minDistance, param) = quadratic_candidates qa ab br solutions (minDistance, param)
      in endpoint_result this qa p2 origin minDistance param)"

text \<open>
  The cubic search: from each of the five starts one Newton step; when it stays inside
  \<open>(0, 1)\<close>, up to \<open>CUBIC_SEARCH_STEPS\<close> positions are refined (the \<open>do \<dots> while\<close> loop).
\<close>

definition cubic_qe :: "vector2 \<Rightarrow> vector2 \<Rightarrow> vector2 \<Rightarrow> vector2 \<Rightarrow> real \<Rightarrow> vector2" where
  "cubic_qe qa ab br as t =
     Vector2_add (Vector2_add (Vector2_add qa (Vector2_scale ab (3 * t))) (Vector2_scale br (3 * t * t)))
       (Vector2_scale as (t * t * t))"

definition cubic_d1 :: "vector2 \<Rightarrow> vector2 \<Rightarrow> vector2 \<Rightarrow> real \<Rightarrow> vector2" where
  "cubic_d1 ab br as t =
     Vector2_add (Vector2_add (Vector2_scale ab 3) (Vector2_scale br (6 * t))) (Vector2_scale as (3 * t * t))"

definition cubic_d2 :: "vector2 \<Rightarrow> vector2 \<Rightarrow> real \<Rightarrow> vector2" where
  "cubic_d2 br as t = Vector2_add (Vector2_scale br 6) (Vector2_scale as (6 * t))"

definition cubic_improvedT :: "vector2 \<Rightarrow> vector2 \<Rightarrow> vector2 \<Rightarrow> vector2 \<Rightarrow> real \<Rightarrow> real" where
  "cubic_improvedT qa ab br as t =
     (let qe = cubic_qe qa ab br as t; d1 = cubic_d1 ab br as t; d2 = cubic_d2 br as t
      in t - dotProduct qe d1 / (dotProduct d1 d1 + dotProduct qe d2))"

fun cubic_refine ::
  "vector2 \<Rightarrow> vector2 \<Rightarrow> vector2 \<Rightarrow> vector2 \<Rightarrow> nat \<Rightarrow> real \<Rightarrow> real \<times> vector2 \<times> vector2" where
  "cubic_refine qa ab br as 0 improvedT =
     (improvedT, cubic_qe qa ab br as improvedT, cubic_d1 ab br as improvedT)"
| "cubic_refine qa ab br as (Suc remainingSteps) improvedT =
     (let t = improvedT;
          qe = cubic_qe qa ab br as t;
          d1 = cubic_d1 ab br as t
      in if remainingSteps = 0 then (t, qe, d1)
         else (let improvedT' = cubic_improvedT qa ab br as t
               in if improvedT' > 0 \<and> improvedT' < 1
                  then cubic_refine qa ab br as remainingSteps improvedT'
                  else (t, qe, d1)))"

fun cubic_search ::
  "vector2 \<Rightarrow> vector2 \<Rightarrow> vector2 \<Rightarrow> vector2 \<Rightarrow> nat list \<Rightarrow> real \<times> real \<Rightarrow> real \<times> real" where
  "cubic_search qa ab br as [] (minDistance, param) = (minDistance, param)"
| "cubic_search qa ab br as (i # is) (minDistance, param) =
     (let t = (1 / 4) * real i;
          improvedT = cubic_improvedT qa ab br as t
      in if improvedT > 0 \<and> improvedT < 1 then
           (case cubic_refine qa ab br as 4 improvedT of (t, qe, d1) \<Rightarrow>
              (let distance = Vector2_length qe
               in if distance < \<bar>minDistance\<bar>
                  then cubic_search qa ab br as is (nonZeroSign (crossProduct d1 qe) * distance, t)
                  else cubic_search qa ab br as is (minDistance, param)))
         else cubic_search qa ab br as is (minDistance, param))"

definition CubicSegment_signedDistance ::
  "vector2 \<Rightarrow> vector2 \<Rightarrow> vector2 \<Rightarrow> vector2 \<Rightarrow> nat \<Rightarrow> vector2 \<Rightarrow> signed_distance_result" where
  "CubicSegment_signedDistance p0 p1 p2 p3 c origin =
     (let this = CubicSegment p0 p1 p2 p3 c;
          qa = Vector2_subtract p0 origin;
          ab = Vector2_subtract p1 p0;
          br = Vector2_subtract (Vector2_subtract p2 p1) ab;
          as = Vector2_subtract (Vector2_subtract (Vector2_subtract p3 p2) (Vector2_subtract p2 p1)) br;
          epDir = EdgeSegment_direction this 0;
          minDistance = nonZeroSign (crossProduct epDir qa) * Vector2_length qa;
          param = - dotProduct qa epDir / dotProduct epDir epDir;
          distance = Vector2_length (Vector2_subtract p3 origin);
          (minDistance, param) =
            (if distance < \<bar>minDistance\<bar> then
               (let epDir = EdgeSegment_direction this 1
                in (nonZeroSign (crossProduct epDir (Vector2_subtract p3 origin)) * distance,
                    dotProduct (Vector2_subtract epDir (Vector2_subtract p3 origin)) epDir
                      / dotProduct epDir epDir))
             else (minDistance, param));
          (minDistance, param) = cubic_search qa ab br as [0, 1, 2, 3, 4] (minDistance, param)
      in endpoint_result this qa p3 origin minDistance param)"

fun EdgeSegment_signedDistance :: "edge_segment \<Rightarrow> vector2 \<Rightarrow> signed_distance_result" where
  "EdgeSegment_signedDistance (LinearSegment p0 p1 c) origin = LinearSegment_signedDistance p0 p1 origin"
| "EdgeSegment_signedDistance (QuadraticSegment p0 p1 p2 c) origin = QuadraticSegment_signedDistance p0 p1 p2 c origin"
| "EdgeSegment_signedDistance (CubicSegment p0 p1 p2 p3 c) origin = CubicSegment_signedDistance p0 p1 p2 p3 c origin"

definition EdgeSegment_distanceToPerpendicularDistance ::
  "edge_segment \<Rightarrow> signed_distance \<Rightarrow> vector2 \<Rightarrow> real \<Rightarrow> signed_distance" where
  "EdgeSegment_distanceToPerpendicularDistance e distance origin param =
     (if param < 1 / 10000 \<or> param > 9999 / 10000 then
        (let dir = (if param < 1 / 2 then EdgeSegment_direction e 0 else EdgeSegment_direction e 1);
             dirNorm = Vector2_normalize dir True;
             aq = Vector2_subtract origin (EdgeSegment_point e param);
             ts = dotProduct aq dirNorm;
             pseudoDistance = crossProduct aq dirNorm
         in if \<bar>pseudoDistance\<bar> < \<bar>sd_distance distance\<bar>
            then SignedDistance pseudoDistance ts else distance)
      else distance)"

subsection \<open>Scanline intersections of a segment\<close>

text \<open>
  The object an edge pushes for a scanline crossing has the two properties \<open>x\<close> and
  \<open>dy\<close> (interface \<open>ScanlineIntersection\<close> of EdgeSegment.ts).
\<close>

datatype edge_hit = EdgeHit (hit_x: real) (hit_dy: real)

definition LinearSegment_scanlineIntersections :: "vector2 \<Rightarrow> vector2 \<Rightarrow> real \<Rightarrow> edge_hit list" where
  "LinearSegment_scanlineIntersections p0 p1 y =
     (if (y \<ge> vy p0 \<and> y < vy p1) \<or> (y \<ge> vy p1 \<and> y < vy p0) then
        (let param = (y - vy p0) / (vy p1 - vy p0);
             x = mix (vx p0) (vx p1) param;
             dy = sgn (vy p1 - vy p0)
         in [EdgeHit x dy])
      else [])"

definition QuadraticSegment_scanlineIntersections ::
  "vector2 \<Rightarrow> vector2 \<Rightarrow> vector2 \<Rightarrow> real \<Rightarrow> edge_hit list" where
  "QuadraticSegment_scanlineIntersections p0 p1 p2 y =
     (let a = vy p0 - 2 * vy p1 + vy p2;
          b = 2 * (vy p1 - vy p0);
          c = vy p0 - y;
          solutions = solveQuadratic a b c
      in map (\<lambda>t. EdgeHit (mix (mix (vx p0) (vx p1) t) (mix (vx p1) (vx p2) t) t)
                       (sgn (mix (vy p1 - vy p0) (vy p2 - vy p1) t)))
           (filter (\<lambda>t. t \<ge> 0 \<and> t \<le> 1) solutions))"

definition CubicSegment_scanlineIntersections ::
  "vector2 \<Rightarrow> vector2 \<Rightarrow> vector2 \<Rightarrow> vector2 \<Rightarrow> real \<Rightarrow> edge_hit list" where
  "CubicSegment_scanlineIntersections p0 p1 p2 p3 y =
     (let a = - vy p0 + 3 * vy p1 - 3 * vy p2 + vy p3;
          b = 3 * vy p0 - 6 * vy p1 + 3 * vy p2;
          c = - 3 * vy p0 + 3 * vy p1;
          d = vy p0 - y;
          solutions = solveCubic a b c d
      in map (\<lambda>t. let p12 = mixv p1 p2 t
                  in EdgeHit (mix (mix (mix (vx p0) (vx p1) t) (vx p12) t)
                                  (mix (vx p12) (mix (vx p2) (vx p3) t) t) t)
                             (sgn (mix (mix (vy p1 - vy p0) (vy p2 - vy p1) t)
                                       (mix (vy p2 - vy p1) (vy p3 - vy p2) t) t)))
           (filter (\<lambda>t. t \<ge> 0 \<and> t \<le> 1) solutions))"

fun EdgeSegment_scanlineIntersections :: "edge_segment \<Rightarrow> real \<Rightarrow> edge_hit list" where
  "EdgeSegment_scanlineIntersections (LinearSegment p0 p1 c) y = LinearSegment_scanlineIntersections p0 p1 y"
| "EdgeSegment_scanlineIntersections (QuadraticSegment p0 p1 p2 c) y = QuadraticSegment_scanlineIntersections p0 p1 p2 y"
| "EdgeSegment_scanlineIntersections (CubicSegment p0 p1 p2 p3 c) y = CubicSegment_scanlineIntersections p0 p1 p2 p3 y"

section \<open>Contours and shapes\<close>

text \<open>
  An \<open>EdgeHolder\<close> holds a segment or \<open>null\<close>; a contour is its array of holders. The
  shape's contours and their edges are modelled by value: every holder belongs to one
  contour, as the constructors build them.
\<close>

text \<open>
  \<open>NoEdgeSegment\<close> is the exception of \<open>EdgeHolder.get()\<close> on an empty holder.
  \<open>UndefinedColor\<close> is no exception: it marks a run of \<open>edgeColoringByDistance\<close> that stores
  \<open>undefined\<close> as the color of an edge, a value the colors of this model do not have.
\<close>

datatype error = NoEdgeSegment | UndefinedColor

type_synonym edge_holder = "edge_segment option"

type_synonym contour = "edge_holder list"

record shape =
  contours :: "contour list"
  inverseYAxis :: bool

definition EdgeHolder_get :: "edge_holder \<Rightarrow> error + edge_segment" where
  "EdgeHolder_get h = (case h of None \<Rightarrow> Inl NoEdgeSegment | Some e \<Rightarrow> Inr e)"

section \<open>JavaScript values\<close>

text \<open>
  The values that occur where the code reads a property that an object may lack or
  compares values of different types: \<open>undefined\<close>, NaN, a number, a string.
\<close>

datatype jsval = Undefined | NaN | Number real | JString string

text \<open>The numeric \<open>+\<close> on operands that are numbers or \<open>undefined\<close> (which converts to NaN).\<close>

fun js_add :: "jsval \<Rightarrow> jsval \<Rightarrow> jsval" where
  "js_add (Number a) (Number b) = Number (a + b)"
| "js_add a b = NaN"

text \<open>Reading the property \<open>k\<close> of an object pushed by \<open>EdgeSegment_scanlineIntersections\<close>.\<close>

definition edge_hit_property :: "edge_hit \<Rightarrow> string \<Rightarrow> jsval" where
  "edge_hit_property h k =
     (if k = ''x'' then Number (hit_x h)
      else if k = ''dy'' then Number (hit_dy h)
      else Undefined)"

section \<open>Scanline\<close>

datatype scanline_intersection = ScanlineIntersection (si_x: real) (si_direction: jsval)

record scanline =
  intersections :: "scanline_intersection list"
  lastIndex :: nat

definition Scanline_new :: scanline where
  "Scanline_new = \<lparr>intersections = [], lastIndex = 0\<rparr>"

definition Scanline_addIntersection :: "scanline \<Rightarrow> real \<Rightarrow> jsval \<Rightarrow> scanline" where
  "Scanline_addIntersection s x direction =
     (if direction = Number 0 then s
      else s\<lparr>intersections := intersections s @ [ScanlineIntersection x direction]\<rparr>)"

text \<open>\<open>Array.prototype.sort\<close> is stable; so is insertion by key.\<close>

definition Scanline_sort :: "scanline \<Rightarrow> scanline" where
  "Scanline_sort s = s\<lparr>intersections := sort_key si_x (intersections s), lastIndex := 0\<rparr>"

fun countWinding_loop :: "scanline_intersection list \<Rightarrow> real \<Rightarrow> jsval \<Rightarrow> jsval" where
  "countWinding_loop [] x winding = winding"
| "countWinding_loop (intersection # rest) x winding =
     (if si_x intersection < x
      then countWinding_loop rest x (js_add winding (si_direction intersection))
      else winding)"

definition Scanline_countWinding :: "scanline \<Rightarrow> real \<Rightarrow> jsval" where
  "Scanline_countWinding s x = countWinding_loop (intersections s) x (Number 0)"

definition Scanline_filled :: "scanline \<Rightarrow> real \<Rightarrow> bool" where
  "Scanline_filled s x \<longleftrightarrow> Scanline_countWinding s x \<noteq> Number 0"

definition Scanline_reset :: "scanline \<Rightarrow> scanline" where
  "Scanline_reset s = s\<lparr>intersections := [], lastIndex := 0\<rparr>"

section \<open>Edge selectors\<close>

text \<open>
  The four selector classes with their accumulators. The per-edge cache they also fill is
  never read by \<open>distance\<close> and is left out.
\<close>

datatype selector =
    TrueDistanceSelector signed_distance
  | PerpendicularDistanceSelector signed_distance
  | MultiDistanceSelector signed_distance signed_distance signed_distance
  | MultiAndTrueDistanceSelector signed_distance signed_distance signed_distance signed_distance

text \<open>The value a selector's \<open>distance()\<close> returns: an object of one of three classes.\<close>

datatype distance_value =
    DSigned signed_distance
  | DMulti real real real
  | DMultiAndTrue real real real real

fun Selector_reset :: "selector \<Rightarrow> vector2 \<Rightarrow> selector" where
  "Selector_reset (TrueDistanceSelector m) p = TrueDistanceSelector (SignedDistance (- MAX_VALUE) 0)"
| "Selector_reset (PerpendicularDistanceSelector m) p =
     PerpendicularDistanceSelector (SignedDistance (- MAX_VALUE) 0)"
| "Selector_reset (MultiDistanceSelector r g b) p =
     MultiDistanceSelector (SignedDistance (- MAX_VALUE) 0) (SignedDistance (- MAX_VALUE) 0)
       (SignedDistance (- MAX_VALUE) 0)"
| "Selector_reset (MultiAndTrueDistanceSelector r g b a) p =
     MultiAndTrueDistanceSelector (SignedDistance (- MAX_VALUE) 0) (SignedDistance (- MAX_VALUE) 0)
       (SignedDistance (- MAX_VALUE) 0) (SignedDistance (- MAX_VALUE) 0)"

definition select_min :: "bool \<Rightarrow> signed_distance \<Rightarrow> signed_distance \<Rightarrow> signed_distance" where
  "select_min member distance cur =
     (if member then (if SignedDistance_lessThan distance cur then distance else cur) else cur)"

fun Selector_addEdge ::
  "selector \<Rightarrow> signed_distance \<Rightarrow> edge_segment \<Rightarrow> vector2 \<Rightarrow> real \<Rightarrow> selector" where
  "Selector_addEdge (TrueDistanceSelector m) distance edge origin param =
     TrueDistanceSelector (select_min True distance m)"
| "Selector_addEdge (PerpendicularDistanceSelector m) distance edge origin param =
     (let perpDistance = EdgeSegment_distanceToPerpendicularDistance edge distance origin param;
          finalDistance = perpDistance
      in PerpendicularDistanceSelector (select_min True finalDistance m))"
| "Selector_addEdge (MultiDistanceSelector r g b) distance edge origin param =
     MultiDistanceSelector
       (select_min (EdgeSegment_color edge AND RED \<noteq> 0) distance r)
       (select_min (EdgeSegment_color edge AND GREEN \<noteq> 0) distance g)
       (select_min (EdgeSegment_color edge AND BLUE \<noteq> 0) distance b)"
| "Selector_addEdge (MultiAndTrueDistanceSelector r g b a) distance edge origin param =
     MultiAndTrueDistanceSelector
       (select_min (EdgeSegment_color edge AND RED \<noteq> 0) distance r)
       (select_min (EdgeSegment_color edge AND GREEN \<noteq> 0) distance g)
       (select_min (EdgeSegment_color edge AND BLUE \<noteq> 0) distance b)
       (select_min True distance a)"

fun Selector_distance :: "selector \<Rightarrow> distance_value" where
  "Selector_distance (TrueDistanceSelector m) = DSigned m"
| "Selector_distance (PerpendicularDistanceSelector m) = DSigned m"
| "Selector_distance (MultiDistanceSelector r g b) = DMulti (sd_distance r) (sd_distance g) (sd_distance b)"
| "Selector_distance (MultiAndTrueDistanceSelector r g b a) =
     DMultiAndTrue (sd_distance r) (sd_distance g) (sd_distance b) (sd_distance a)"

text \<open>The median of a multi-channel distance, its representative value.\<close>

definition median :: "real \<Rightarrow> real \<Rightarrow> real \<Rightarrow> real" where
  "median r g b = max (min r g) (min (max r g) b)"

section \<open>Contour combiners\<close>

text \<open>The loop over every edge of every contour that both combiners run.\<close>

fun addEdges :: "selector \<Rightarrow> vector2 \<Rightarrow> contour \<Rightarrow> selector" where
  "addEdges sel origin [] = sel"
| "addEdges sel origin (edgeHolder # rest) =
     (case edgeHolder of
        None \<Rightarrow> addEdges sel origin rest
      | Some edge \<Rightarrow>
          (let result = EdgeSegment_signedDistance edge origin
           in addEdges (Selector_addEdge sel (fst result) edge origin (snd result)) origin rest))"

fun addContours :: "selector \<Rightarrow> vector2 \<Rightarrow> contour list \<Rightarrow> selector" where
  "addContours sel origin [] = sel"
| "addContours sel origin (contour # rest) =
     (if length contour = 0 then addContours sel origin rest
      else addContours (addEdges sel origin contour) origin rest)"

definition SimpleContourCombiner_distance ::
  "selector \<Rightarrow> vector2 \<Rightarrow> contour list \<Rightarrow> selector \<times> distance_value" where
  "SimpleContourCombiner_distance sel origin cs =
     (let sel1 = Selector_reset sel origin;
          sel2 = addContours sel1 origin cs
      in (sel2, Selector_distance sel2))"

text \<open>
  The overlapping combiner: its selector, its scanline and the cached \<open>lastY\<close>, which is
  NaN (\<open>None\<close>) until the first query and after \<open>reset\<close>; NaN differs from every number.
\<close>

record overlapping_combiner =
  oc_selector :: selector
  oc_scanline :: scanline
  oc_lastY :: "real option"

definition OverlappingContourCombiner_new :: "selector \<Rightarrow> overlapping_combiner" where
  "OverlappingContourCombiner_new sel =
     \<lparr>oc_selector = sel, oc_scanline = Scanline_new, oc_lastY = None\<rparr>"

fun addHits :: "scanline \<Rightarrow> edge_hit list \<Rightarrow> scanline" where
  "addHits s [] = s"
| "addHits s (intersection # rest) =
     addHits (Scanline_addIntersection s (hit_x intersection)
                (edge_hit_property intersection ''direction'')) rest"

fun scanEdges :: "scanline \<Rightarrow> real \<Rightarrow> contour \<Rightarrow> scanline" where
  "scanEdges s y [] = s"
| "scanEdges s y (edgeHolder # rest) =
     (case edgeHolder of
        None \<Rightarrow> scanEdges s y rest
      | Some edge \<Rightarrow> scanEdges (addHits s (EdgeSegment_scanlineIntersections edge y)) y rest)"

fun scanContours :: "scanline \<Rightarrow> real \<Rightarrow> contour list \<Rightarrow> scanline" where
  "scanContours s y [] = s"
| "scanContours s y (contour # rest) =
     (if length contour = 0 then scanContours s y rest
      else scanContours (scanEdges s y contour) y rest)"

definition updateScanline :: "scanline \<Rightarrow> real \<Rightarrow> contour list \<Rightarrow> scanline" where
  "updateScanline s y cs = Scanline_sort (scanContours (Scanline_reset s) y cs)"

text \<open>
  Properties of the object returned by \<open>distance()\<close>: the \<open>in\<close> test, a read, and the
  assignment \<open>dist.k = -dist.k\<close> to a field the object has.
\<close>

fun has_property :: "distance_value \<Rightarrow> string \<Rightarrow> bool" where
  "has_property (DSigned d) k \<longleftrightarrow> k \<in> set [''distance'', ''dot'']"
| "has_property (DMulti r g b) k \<longleftrightarrow> k \<in> set [''r'', ''g'', ''b'']"
| "has_property (DMultiAndTrue r g b a) k \<longleftrightarrow> k \<in> set [''r'', ''g'', ''b'', ''a'']"

fun get_property :: "distance_value \<Rightarrow> string \<Rightarrow> jsval" where
  "get_property (DSigned d) k =
     (if k = ''distance'' then Number (sd_distance d)
      else if k = ''dot'' then Number (sd_dot d) else Undefined)"
| "get_property (DMulti r g b) k =
     (if k = ''r'' then Number r else if k = ''g'' then Number g
      else if k = ''b'' then Number b else Undefined)"
| "get_property (DMultiAndTrue r g b a) k =
     (if k = ''r'' then Number r else if k = ''g'' then Number g
      else if k = ''b'' then Number b else if k = ''a'' then Number a else Undefined)"

fun negate_property :: "distance_value \<Rightarrow> string \<Rightarrow> distance_value" where
  "negate_property (DSigned d) k =
     (if k = ''distance'' then DSigned (SignedDistance (- sd_distance d) (sd_dot d))
      else if k = ''dot'' then DSigned (SignedDistance (sd_distance d) (- sd_dot d))
      else DSigned d)"
| "negate_property (DMulti r g b) k =
     (if k = ''r'' then DMulti (- r) g b else if k = ''g'' then DMulti r (- g) b
      else if k = ''b'' then DMulti r g (- b) else DMulti r g b)"
| "negate_property (DMultiAndTrue r g b a) k =
     (if k = ''r'' then DMultiAndTrue (- r) g b a else if k = ''g'' then DMultiAndTrue r (- g) b a
      else if k = ''b'' then DMultiAndTrue r g (- b) a
      else if k = ''a'' then DMultiAndTrue r g b (- a) else DMultiAndTrue r g b a)"

text \<open>The comparison \<open>v < 0\<close>: false unless \<open>v\<close> is a negative number.\<close>

fun js_negative :: "jsval \<Rightarrow> bool" where
  "js_negative (Number v) \<longleftrightarrow> v < 0"
| "js_negative v \<longleftrightarrow> False"

definition flipSign :: "bool \<Rightarrow> distance_value \<Rightarrow> distance_value" where
  "flipSign filled d =
     (if has_property d ''distance'' then
        (let isInside = filled;
             distanceIsNegative = js_negative (get_property d ''distance'')
         in if isInside \<noteq> distanceIsNegative then
              (if has_property d ''r'' \<and> has_property d ''g'' \<and> has_property d ''b'' then
                 (let d1 = negate_property (negate_property (negate_property d ''r'') ''g'') ''b''
                  in if has_property d1 ''a'' then negate_property d1 ''a'' else d1)
               else negate_property d ''distance'')
            else d)
      else d)"

definition OverlappingContourCombiner_distance ::
  "overlapping_combiner \<Rightarrow> vector2 \<Rightarrow> contour list \<Rightarrow> overlapping_combiner \<times> distance_value" where
  "OverlappingContourCombiner_distance this origin cs =
     (let sel1 = Selector_reset (oc_selector this) origin;
          (scanline1, lastY1) =
             (if Some (vy origin) \<noteq> oc_lastY this
              then (updateScanline (oc_scanline this) (vy origin) cs, Some (vy origin))
              else (oc_scanline this, oc_lastY this));
          sel2 = addContours sel1 origin cs;
          distance = Selector_distance sel2;
          filled = Scanline_filled scanline1 (vx origin)
      in (\<lparr>oc_selector = sel2, oc_scanline = scanline1, oc_lastY = lastY1\<rparr>, flipSign filled distance))"

section \<open>Generator driver\<close>

datatype projection = Projection (pr_scale: vector2) (pr_translate: vector2)

definition Projection_unproject :: "projection \<Rightarrow> vector2 \<Rightarrow> vector2" where
  "Projection_unproject pr coord =
     Vector2_subtract (Vector2 (vx coord / vx (pr_scale pr)) (vy coord / vy (pr_scale pr)))
       (pr_translate pr)"

record sdf_transformation =
  projection :: projection
  distanceMapping :: distance_mapping

text \<open>
  The output bitmap: width, height, channel count and the row-major pixel array, a
  \<open>Float32Array\<close>. A store rounds the value to single precision; a write to a typed array
  outside its bounds is ignored.
\<close>

record bitmap =
  bm_width :: nat
  bm_height :: nat
  bm_channels :: nat
  bm_pixels :: "jsnum list"

definition store :: "jsnum list \<Rightarrow> int \<Rightarrow> jsnum \<Rightarrow> jsnum list" where
  "store pixels i v =
     (if 0 \<le> i \<and> i < int (length pixels) then pixels[nat i := fround v] else pixels)"

text \<open>
  The three converters. Each generator pairs a converter with the selector whose
  \<open>distance()\<close> has the fields it reads; on an object of another class the fields read
  would be \<open>undefined\<close>, a case that the pairing excludes and that leaves the pixels as
  they are here.
\<close>

fun SingleChannelConverter_convert ::
  "(real \<Rightarrow> jsnum) \<Rightarrow> jsnum list \<Rightarrow> int \<Rightarrow> distance_value \<Rightarrow> jsnum list" where
  "SingleChannelConverter_convert dmap pixels offset (DSigned d) =
     store pixels offset (dmap (sd_distance d))"
| "SingleChannelConverter_convert dmap pixels offset d = pixels"

fun MultiChannelConverter_convert ::
  "(real \<Rightarrow> jsnum) \<Rightarrow> jsnum list \<Rightarrow> int \<Rightarrow> distance_value \<Rightarrow> jsnum list" where
  "MultiChannelConverter_convert dmap pixels offset (DMulti r g b) =
     store (store (store pixels offset (dmap r)) (offset + 1) (dmap g)) (offset + 2) (dmap b)"
| "MultiChannelConverter_convert dmap pixels offset (DMultiAndTrue r g b a) =
     store (store (store pixels offset (dmap r)) (offset + 1) (dmap g)) (offset + 2) (dmap b)"
| "MultiChannelConverter_convert dmap pixels offset d = pixels"

fun MultiAndTrueChannelConverter_convert ::
  "(real \<Rightarrow> jsnum) \<Rightarrow> jsnum list \<Rightarrow> int \<Rightarrow> distance_value \<Rightarrow> jsnum list" where
  "MultiAndTrueChannelConverter_convert dmap pixels offset (DMultiAndTrue r g b a) =
     store (store (store (store pixels offset (dmap r)) (offset + 1) (dmap g)) (offset + 2) (dmap b))
       (offset + 3) (dmap a)"
| "MultiAndTrueChannelConverter_convert dmap pixels offset d = pixels"

text \<open>The combiner a generator creates, and the distance query of the finder that owns it.\<close>

datatype combiner =
    SimpleContourCombiner selector
  | OverlappingContourCombiner overlapping_combiner

fun Combiner_distance :: "combiner \<Rightarrow> vector2 \<Rightarrow> contour list \<Rightarrow> combiner \<times> distance_value" where
  "Combiner_distance (SimpleContourCombiner sel) origin cs =
     (case SimpleContourCombiner_distance sel origin cs of
        (sel', d) \<Rightarrow> (SimpleContourCombiner sel', d))"
| "Combiner_distance (OverlappingContourCombiner oc) origin cs =
     (case OverlappingContourCombiner_distance oc origin cs of
        (oc', d) \<Rightarrow> (OverlappingContourCombiner oc', d))"

text \<open>
  \<open>getYAxisOrientation\<close> returns a member of the numeric enum \<open>YAxisOrientation\<close>
  (\<open>TOP_UP = 1\<close>, \<open>TOP_DOWN = -1\<close>); the driver compares it with the string
  \<open>'Y_UPWARD'\<close> by strict equality.
\<close>

definition Shape_getYAxisOrientation :: "shape \<Rightarrow> jsval" where
  "Shape_getYAxisOrientation s = (if inverseYAxis s then Number (- 1) else Number 1)"

type_synonym converter = "jsnum list \<Rightarrow> int \<Rightarrow> distance_value \<Rightarrow> jsnum list"

definition col_step ::
  "shape \<Rightarrow> sdf_transformation \<Rightarrow> converter \<Rightarrow> int \<Rightarrow> int \<Rightarrow> int \<Rightarrow> int
     \<Rightarrow> nat \<Rightarrow> int \<times> combiner \<times> jsnum list \<Rightarrow> int \<times> combiner \<times> jsnum list" where
  "col_step shp transformation convertDistance width channelCount y xDirection col st =
     (case st of (x, distanceFinder, pixels) \<Rightarrow>
        (let p = Projection_unproject (projection transformation)
                   (Vector2 (real_of_int x + 1 / 2) (real_of_int y + 1 / 2));
             (distanceFinder', distance) = Combiner_distance distanceFinder p (contours shp);
             pixelOffset = (y * width + x) * channelCount;
             pixels' = convertDistance pixels pixelOffset distance
         in (x + xDirection, distanceFinder', pixels')))"

definition row_step ::
  "shape \<Rightarrow> sdf_transformation \<Rightarrow> converter \<Rightarrow> int \<Rightarrow> int \<Rightarrow> int \<Rightarrow> int
     \<Rightarrow> nat \<Rightarrow> int \<times> combiner \<times> jsnum list \<Rightarrow> int \<times> combiner \<times> jsnum list" where
  "row_step shp transformation convertDistance width channelCount yDirection yStart row st =
     (case st of (xDirection, distanceFinder, pixels) \<Rightarrow>
        (let y = (if yDirection < 0 then yStart - int row * yDirection
                  else yStart + int row * yDirection);
             x = (if xDirection < 0 then width - 1 else 0);
             (x', distanceFinder', pixels') =
                fold (col_step shp transformation convertDistance width channelCount y xDirection)
                  [0..<nat width] (x, distanceFinder, pixels)
         in (- xDirection, distanceFinder', pixels')))"

definition generateDistanceField ::
  "bitmap \<Rightarrow> shape \<Rightarrow> sdf_transformation \<Rightarrow> combiner \<Rightarrow> converter \<Rightarrow> bitmap" where
  "generateDistanceField output shp transformation createCombiner convertDistance =
     (let width = int (bm_width output);
          height = int (bm_height output);
          channelCount = int (bm_channels output);
          pixels = bm_pixels output;
          yDirection = (if Shape_getYAxisOrientation shp = JString ''Y_UPWARD'' then - 1 else 1);
          yStart = (if yDirection < 0 then height - 1 else 0);
          distanceFinder = createCombiner;
          (xDirection, distanceFinder', pixels') =
             fold (row_step shp transformation convertDistance width channelCount yDirection yStart)
               [0..<nat height] (1, distanceFinder, pixels)
      in output\<lparr>bm_pixels := pixels'\<rparr>)"

text \<open>
  The configuration: \<open>overlapSupport\<close> selects the combiner. The distances of the selectors
  are reals; the mapping and the store are computed on doubles.
\<close>

definition createCombiner :: "bool \<Rightarrow> selector \<Rightarrow> combiner" where
  "createCombiner overlapSupport sel =
     (if overlapSupport then OverlappingContourCombiner (OverlappingContourCombiner_new sel)
      else SimpleContourCombiner sel)"

definition generateSDF :: "bitmap \<Rightarrow> shape \<Rightarrow> sdf_transformation \<Rightarrow> bool \<Rightarrow> bitmap" where
  "generateSDF output shp transformation overlapSupport =
     generateDistanceField output shp transformation
       (createCombiner overlapSupport (TrueDistanceSelector (SignedDistance (- MAX_VALUE) 0)))
       (SingleChannelConverter_convert (\<lambda>distance. DistanceMapping_map (distanceMapping transformation) (Fin distance)))"

definition generatePSDF :: "bitmap \<Rightarrow> shape \<Rightarrow> sdf_transformation \<Rightarrow> bool \<Rightarrow> bitmap" where
  "generatePSDF output shp transformation overlapSupport =
     generateDistanceField output shp transformation
       (createCombiner overlapSupport (PerpendicularDistanceSelector (SignedDistance (- MAX_VALUE) 0)))
       (SingleChannelConverter_convert (\<lambda>distance. DistanceMapping_map (distanceMapping transformation) (Fin distance)))"

definition generateMSDF :: "bitmap \<Rightarrow> shape \<Rightarrow> sdf_transformation \<Rightarrow> bool \<Rightarrow> bitmap" where
  "generateMSDF output shp transformation overlapSupport =
     generateDistanceField output shp transformation
       (createCombiner overlapSupport
          (MultiDistanceSelector (SignedDistance (- MAX_VALUE) 0) (SignedDistance (- MAX_VALUE) 0)
             (SignedDistance (- MAX_VALUE) 0)))
       (MultiChannelConverter_convert (\<lambda>distance. DistanceMapping_map (distanceMapping transformation) (Fin distance)))"

definition generateMTSDF :: "bitmap \<Rightarrow> shape \<Rightarrow> sdf_transformation \<Rightarrow> bool \<Rightarrow> bitmap" where
  "generateMTSDF output shp transformation overlapSupport =
     generateDistanceField output shp transformation
       (createCombiner overlapSupport
          (MultiAndTrueDistanceSelector (SignedDistance (- MAX_VALUE) 0) (SignedDistance (- MAX_VALUE) 0)
             (SignedDistance (- MAX_VALUE) 0) (SignedDistance (- MAX_VALUE) 0)))
       (MultiAndTrueChannelConverter_convert (\<lambda>distance. DistanceMapping_map (distanceMapping transformation) (Fin distance)))"

subsection \<open>Notions used to state what a generator writes\<close>

text \<open>
  The distance every query returns on a shape without contours: the selector's reset value,
  passed through the sign correction of the overlapping combiner with an unfilled scanline.
\<close>

fun emptyShapeDistance :: "combiner \<Rightarrow> distance_value" where
  "emptyShapeDistance (SimpleContourCombiner sel) = Selector_distance (Selector_reset sel (Vector2 0 0))"
| "emptyShapeDistance (OverlappingContourCombiner oc) =
     flipSign False (Selector_distance (Selector_reset (oc_selector oc) (Vector2 0 0)))"

fun scanlineEmpty :: "combiner \<Rightarrow> bool" where
  "scanlineEmpty (SimpleContourCombiner sel) \<longleftrightarrow> True"
| "scanlineEmpty (OverlappingContourCombiner oc) \<longleftrightarrow> intersections (oc_scanline oc) = []"

text \<open>A converter that, for the distance \<open>d\<close>, stores the value \<open>K\<close> in each of the \<open>ch\<close> channels at the offset.\<close>

definition writesConstant :: "converter \<Rightarrow> distance_value \<Rightarrow> jsnum \<Rightarrow> nat \<Rightarrow> bool" where
  "writesConstant conv d K ch \<longleftrightarrow>
     (\<forall>p off. length (conv p off d) = length p
        \<and> (\<forall>j < length p. conv p off d ! j
               = (if off \<le> int j \<and> int j < off + int ch then K else p ! j)))"

section \<open>Winding and orientation of contours\<close>

definition shoelace :: "vector2 \<Rightarrow> vector2 \<Rightarrow> real" where
  "shoelace a b = (vx b - vx a) * (vy a + vy b)"

fun winding_loop :: "contour \<Rightarrow> vector2 \<Rightarrow> real \<Rightarrow> error + real" where
  "winding_loop [] prev total' = Inr total'"
| "winding_loop (edgeHolder # rest) prev total' =
     (case EdgeHolder_get edgeHolder of
        Inl err \<Rightarrow> Inl err
      | Inr edge \<Rightarrow>
          (let cur = EdgeSegment_point edge 0
           in winding_loop rest cur (total' + shoelace prev cur)))"

text \<open>\<open>Contour.winding\<close>; \<open>get()\<close> throws on an empty holder, which is the \<open>Inl\<close> result.\<close>

definition Contour_winding :: "contour \<Rightarrow> error + real" where
  "Contour_winding edges =
     (if length edges = 0 then Inr 0
      else if length edges = 1 then
        (case EdgeHolder_get (edges ! 0) of
           Inl err \<Rightarrow> Inl err
         | Inr edge \<Rightarrow>
             (let a = EdgeSegment_point edge 0;
                  b = EdgeSegment_point edge (1 / 3);
                  c = EdgeSegment_point edge (2 / 3)
              in Inr (sgn (0 + shoelace a b + shoelace b c + shoelace c a))))
      else if length edges = 2 then
        (case EdgeHolder_get (edges ! 0) of
           Inl err \<Rightarrow> Inl err
         | Inr edge0 \<Rightarrow>
             (case EdgeHolder_get (edges ! 1) of
                Inl err \<Rightarrow> Inl err
              | Inr edge1 \<Rightarrow>
                  (let a = EdgeSegment_point edge0 0;
                       b = EdgeSegment_point edge0 (1 / 2);
                       c = EdgeSegment_point edge1 0;
                       d = EdgeSegment_point edge1 (1 / 2)
                   in Inr (sgn (0 + shoelace a b + shoelace b c + shoelace c d + shoelace d a)))))
      else
        (case EdgeHolder_get (edges ! (length edges - 1)) of
           Inl err \<Rightarrow> Inl err
         | Inr lastEdge \<Rightarrow>
             (case winding_loop edges (EdgeSegment_point lastEdge 0) 0 of
                Inl err \<Rightarrow> Inl err
              | Inr total' \<Rightarrow> Inr (sgn total'))))"

text \<open>\<open>Contour.reverse\<close>: every held edge is reversed, then the array of holders.\<close>

definition Contour_reverse :: "contour \<Rightarrow> contour" where
  "Contour_reverse edges = rev (map (map_option EdgeSegment_reverse) edges)"

fun normalize_loop :: "contour list \<Rightarrow> error + contour list" where
  "normalize_loop [] = Inr []"
| "normalize_loop (contour # rest) =
     (case Contour_winding contour of
        Inl err \<Rightarrow> Inl err
      | Inr w \<Rightarrow>
          (case normalize_loop rest of
             Inl err \<Rightarrow> Inl err
           | Inr rest' \<Rightarrow> Inr ((if w < 0 then Contour_reverse contour else contour) # rest')))"

definition Shape_normalize :: "shape \<Rightarrow> error + shape" where
  "Shape_normalize s =
     (case normalize_loop (contours s) of
        Inl err \<Rightarrow> Inl err
      | Inr cs \<Rightarrow> Inr (s\<lparr>contours := cs\<rparr>))"

text \<open>
  A closed contour: no holder is empty, and the end point of every edge is the start point
  of the next one, cyclically.
\<close>

definition closedContour :: "contour \<Rightarrow> bool" where
  "closedContour c \<longleftrightarrow>
     (case those c of
        None \<Rightarrow> False
      | Some es \<Rightarrow> map (\<lambda>e. EdgeSegment_point e 1) es = rotate1 (map (\<lambda>e. EdgeSegment_point e 0) es))"

text \<open>The shoelace sum along an open chain of points.\<close>

fun chain :: "vector2 list \<Rightarrow> real" where
  "chain (x # y # rest) = shoelace x y + chain (y # rest)"
| "chain xs = 0"

section \<open>Edge coloring\<close>

definition symmetricalTrichotomy :: "int \<Rightarrow> int \<Rightarrow> int" where
  "symmetricalTrichotomy position n =
     \<lfloor>3 + 2.875 * real_of_int position / real_of_int (n - 1) - 1.4375 + 0.5\<rfloor> - 3"

definition isCorner :: "vector2 \<Rightarrow> vector2 \<Rightarrow> real \<Rightarrow> bool" where
  "isCorner aDir bDir crossThreshold \<longleftrightarrow>
     dotProduct aDir bDir \<le> 0 \<or> \<bar>crossProduct aDir bDir\<bar> > crossThreshold"

text \<open>
  The seed is a \<open>bigint\<close>: \<open>&\<close> and \<open>>>\<close> act on the two's complement, \<open>%\<close> and \<open>/\<close> truncate
  towards zero.
\<close>

definition seedExtract2 :: "int \<Rightarrow> nat \<times> int" where
  "seedExtract2 seed = (nat (seed AND 1), drop_bit 1 seed)"

definition seedExtract3 :: "int \<Rightarrow> int \<times> int" where
  "seedExtract3 seed = (seed smod 3, seed sdiv 3)"

text \<open>
  \<open>colors[v]\<close> is \<open>undefined\<close> (\<open>None\<close>) for an index outside the array, which a negative
  seed produces. As an operand of \<open>&\<close> and \<open><<\<close>, \<open>undefined\<close> converts to \<open>0\<close>.
\<close>

definition initColor :: "int \<Rightarrow> nat option \<times> int" where
  "initColor seed =
     (let colors = [CYAN, MAGENTA, YELLOW];
          (v, seed') = seedExtract3 seed
      in (if 0 \<le> v \<and> v < 3 then Some (colors ! nat v) else None, seed'))"

definition toInt32 :: "nat option \<Rightarrow> nat" where
  "toInt32 c = (case c of None \<Rightarrow> 0 | Some v \<Rightarrow> v)"

definition switchColor :: "int \<Rightarrow> nat option \<Rightarrow> nat option \<Rightarrow> nat \<times> int" where
  "switchColor seed currentColor banned =
     (let combined = (case banned of None \<Rightarrow> 0 | Some b \<Rightarrow> toInt32 currentColor AND b)
      in if banned \<noteq> None \<and> (combined = RED \<or> combined = GREEN \<or> combined = BLUE)
         then (combined XOR WHITE, seed)
         else (let (v, seed') = seedExtract2 seed;
                   shifted = push_bit (1 + v) (toInt32 currentColor)
               in ((shifted OR drop_bit 3 shifted) AND WHITE, seed')))"

text \<open>The corner indices of a contour's edges, in ascending order.\<close>

fun findCorners :: "edge_segment list \<Rightarrow> vector2 \<Rightarrow> nat \<Rightarrow> real \<Rightarrow> nat list" where
  "findCorners [] prevDirection index crossThreshold = []"
| "findCorners (edge # rest) prevDirection index crossThreshold =
     (if isCorner (Vector2_normalize prevDirection True)
           (Vector2_normalize (EdgeSegment_direction edge 0) True) crossThreshold
      then [index] else [])
     @ findCorners rest (EdgeSegment_direction edge 1) (Suc index) crossThreshold"

definition contourCorners :: "real \<Rightarrow> edge_segment list \<Rightarrow> nat list" where
  "contourCorners crossThreshold es =
     findCorners es (EdgeSegment_direction (last es) 1) 0 crossThreshold"

text \<open>
  The teardrop case. With three or more edges the three colors are spread by the
  trichotomy, starting at the corner.
\<close>

definition teardropSpread :: "edge_segment list \<Rightarrow> nat \<Rightarrow> nat list \<Rightarrow> edge_segment list" where
  "teardropSpread es corner colors =
     (let m = length es
      in fold (\<lambda>i es'. es'[(corner + i) mod m :=
                 EdgeSegment_setColor (es' ! ((corner + i) mod m))
                   (colors ! nat (1 + symmetricalTrichotomy (int i) (int m)))])
           [0..<m] es)"

text \<open>
  With one or two edges the edges are split in thirds into the array \<open>parts\<close> of seven slots,
  colored by slot, and the contour is rebuilt from the slots that are filled. The corner is
  an index into the edges, so it is \<open>0\<close>, or \<open>1\<close> when there are two edges.
\<close>

definition setPartColor :: "edge_segment option list \<Rightarrow> nat \<Rightarrow> nat \<Rightarrow> edge_segment option list" where
  "setPartColor parts i c = parts[i := map_option (\<lambda>e. EdgeSegment_setColor e c) (parts ! i)]"

definition splitParts :: "edge_segment list \<Rightarrow> nat \<Rightarrow> edge_segment option list" where
  "splitParts es corner =
     (let parts = replicate 7 None;
          (a0, a1, a2) = EdgeSegment_splitInThirds (es ! 0);
          parts = parts[0 + 3 * corner := Some a0, 1 + 3 * corner := Some a1, 2 + 3 * corner := Some a2]
      in if length es \<ge> 2 then
           (let (b0, b1, b2) = EdgeSegment_splitInThirds (es ! 1)
            in parts[3 - 3 * corner := Some b0, 4 - 3 * corner := Some b1, 5 - 3 * corner := Some b2])
         else parts)"

definition teardropSplit :: "edge_segment list \<Rightarrow> nat \<Rightarrow> nat list \<Rightarrow> edge_segment list" where
  "teardropSplit es corner colors =
     (let parts = splitParts es corner;
          parts =
            (if length es \<ge> 2 then
               setPartColor (setPartColor (setPartColor (setPartColor (setPartColor (setPartColor parts
                 1 (colors ! 0)) 0 (colors ! 0)) 3 (colors ! 1)) 2 (colors ! 1)) 5 (colors ! 2)) 4 (colors ! 2)
             else
               setPartColor (setPartColor (setPartColor parts 0 (colors ! 0)) 1 (colors ! 1)) 2 (colors ! 2))
      in concat (map (\<lambda>part. case part of None \<Rightarrow> [] | Some e \<Rightarrow> [e]) parts))"

text \<open>
  The case of several corners: the edges are visited from the first corner on, and the
  color is switched at each further corner; the last spline must avoid the initial color.
\<close>

definition multiStep ::
  "nat list \<Rightarrow> nat \<Rightarrow> nat \<Rightarrow> nat \<Rightarrow> nat
     \<Rightarrow> nat \<times> nat \<times> int \<times> edge_segment list \<Rightarrow> nat \<times> nat \<times> int \<times> edge_segment list" where
  "multiStep corners start m initialColor i st =
     (case st of (spline, c, seed, es) \<Rightarrow>
        (let idx = (start + i) mod m;
             cornerCount = length corners;
             (spline', c', seed') =
               (if spline + 1 < cornerCount \<and> corners ! (spline + 1) = idx then
                  (let spline1 = spline + 1;
                       bannedColor = (if spline1 = cornerCount - 1 then initialColor else BLACK);
                       (c1, seed1) = switchColor seed (Some c) (Some bannedColor)
                   in (spline1, c1, seed1))
                else (spline, c, seed))
         in (spline', c', seed', es[idx := EdgeSegment_setColor (es ! idx) c'])))"

text \<open>One contour of \<open>edgeColoringSimple\<close>; the state is the seed and the current color.\<close>

definition simpleContour ::
  "real \<Rightarrow> int \<times> nat option \<Rightarrow> edge_segment list \<Rightarrow> (int \<times> nat option) \<times> edge_segment list" where
  "simpleContour crossThreshold st es =
     (case st of (seed, c) \<Rightarrow>
        (let corners = contourCorners crossThreshold es
         in if length corners = 0 then
              (let (c1, seed1) = switchColor seed c None
               in ((seed1, Some c1), map (\<lambda>e. EdgeSegment_setColor e c1) es))
            else if length corners = 1 then
              (let (c0, seed1) = switchColor seed c None;
                   (c2, seed2) = switchColor seed1 (Some c0) None;
                   colors = [c0, WHITE, c2];
                   corner = corners ! 0
               in ((seed2, Some c2),
                   (if length es \<ge> 3 then teardropSpread es corner colors
                    else teardropSplit es corner colors)))
            else
              (let start = corners ! 0;
                   m = length es;
                   (c1, seed1) = switchColor seed c None;
                   initialColor = c1;
                   (spline, c', seed', es') =
                      fold (multiStep corners start m initialColor) [0..<m] (0, c1, seed1, es)
               in ((seed', Some c'), es'))))"

text \<open>
  The loop over the contours, shared by the coloring functions: empty contours are
  skipped, \<open>get()\<close> on an empty holder throws.
\<close>

fun coloringLoop ::
  "('s \<Rightarrow> edge_segment list \<Rightarrow> 's \<times> edge_segment list) \<Rightarrow> 's \<Rightarrow> contour list \<Rightarrow> error + contour list" where
  "coloringLoop f st [] = Inr []"
| "coloringLoop f st (contour # rest) =
     (if length contour = 0 then
        (case coloringLoop f st rest of Inl err \<Rightarrow> Inl err | Inr rest' \<Rightarrow> Inr (contour # rest'))
      else
        (case those contour of
           None \<Rightarrow> Inl NoEdgeSegment
         | Some es \<Rightarrow>
             (case f st es of (st', es') \<Rightarrow>
                (case coloringLoop f st' rest of
                   Inl err \<Rightarrow> Inl err
                 | Inr rest' \<Rightarrow> Inr (map Some es' # rest')))))"

definition edgeColoringSimple :: "shape \<Rightarrow> real \<Rightarrow> int \<Rightarrow> error + shape" where
  "edgeColoringSimple shp angleThreshold seed =
     (let crossThreshold = sin angleThreshold;
          (c, seed1) = initColor seed
      in case coloringLoop (simpleContour crossThreshold) (seed1, c) (contours shp) of
           Inl err \<Rightarrow> Inl err
         | Inr cs \<Rightarrow> Inr (shp\<lparr>contours := cs\<rparr>))"

section \<open>Colors with two channels\<close>

text \<open>The three colors with exactly two channels, and the four with at least two.\<close>

definition twoChannel :: "nat \<Rightarrow> bool" where
  "twoChannel c \<longleftrightarrow> c = CYAN \<or> c = MAGENTA \<or> c = YELLOW"

definition visible :: "nat \<Rightarrow> bool" where
  "visible c \<longleftrightarrow> c = CYAN \<or> c = MAGENTA \<or> c = YELLOW \<or> c = WHITE"

text \<open>The unit square, one line per side, with the given colors.\<close>

definition unitSquare :: "nat \<Rightarrow> nat \<Rightarrow> nat \<Rightarrow> nat \<Rightarrow> edge_segment list" where
  "unitSquare c0 c1 c2 c3 =
     [LinearSegment (Vector2 0 0) (Vector2 1 0) c0,
      LinearSegment (Vector2 1 0) (Vector2 1 1) c1,
      LinearSegment (Vector2 1 1) (Vector2 0 1) c2,
      LinearSegment (Vector2 0 1) (Vector2 0 0) c3]"

definition unitSquareShape :: "nat \<Rightarrow> nat \<Rightarrow> nat \<Rightarrow> nat \<Rightarrow> shape" where
  "unitSquareShape c0 c1 c2 c3 = \<lparr>contours = [map Some (unitSquare c0 c1 c2 c3)], inverseYAxis = False\<rparr>"


section \<open>Coloring by distance\<close>

definition EDGE_DISTANCE_PRECISION :: nat where
  "EDGE_DISTANCE_PRECISION = 16"

definition MAX_RECOLOR_STEPS :: nat where
  "MAX_RECOLOR_STEPS = 16"

definition edgeToEdgeDistance :: "edge_segment \<Rightarrow> edge_segment \<Rightarrow> nat \<Rightarrow> real" where
  "edgeToEdgeDistance a b precision =
     (let a0 = EdgeSegment_point a 0;
          a1 = EdgeSegment_point a 1;
          b0 = EdgeSegment_point b 0;
          b1 = EdgeSegment_point b 1
      in if Vector2_equals a0 b0 \<or> Vector2_equals a0 b1 \<or> Vector2_equals a1 b0 \<or> Vector2_equals a1 b1
         then 0
         else
           (let iFac = 1 / real precision;
                minDistance = Vector2_length (Vector2_subtract b0 a0);
                minDistance =
                  fold (\<lambda>i md. min md
                          \<bar>sd_distance (fst (EdgeSegment_signedDistance a (EdgeSegment_point b (iFac * real i))))\<bar>)
                    [0..<precision + 1] minDistance;
                minDistance =
                  fold (\<lambda>i md. min md
                          \<bar>sd_distance (fst (EdgeSegment_signedDistance b (EdgeSegment_point a (iFac * real i))))\<bar>)
                    [0..<precision + 1] minDistance
            in minDistance))"

text \<open>The inner loop runs only while \<open>minDistance > 0\<close>.\<close>

definition splineToSplineDistance ::
  "edge_segment list \<Rightarrow> nat \<Rightarrow> nat \<Rightarrow> nat \<Rightarrow> nat \<Rightarrow> nat \<Rightarrow> real" where
  "splineToSplineDistance edgeSegments aStart aEnd bStart bEnd precision =
     fold (\<lambda>ai minDistance.
             fold (\<lambda>bi minDistance.
                     if minDistance > 0
                     then min minDistance (edgeToEdgeDistance (edgeSegments ! ai) (edgeSegments ! bi) precision)
                     else minDistance)
               [bStart..<bEnd] minDistance)
       [aStart..<aEnd] MAX_VALUE"

text \<open>
  The graph coloring works on JavaScript numbers used as 32-bit integers: \<open>1 << c\<close> takes
  the shift count modulo 32, so that the uncolored mark \<open>-1\<close> sets bit 31 and none of the
  three low bits.
\<close>

definition shiftOne :: "int \<Rightarrow> 32 word" where
  "shiftOne c = push_bit (nat (c mod 32)) 1"

text \<open>The \<open>switch\<close> of \<open>colorSecondDegreeGraph\<close>; it has no case for \<open>0\<close>, where the color stays \<open>0\<close>.\<close>

definition switchPossibleColors :: "32 word \<Rightarrow> nat \<Rightarrow> int \<Rightarrow> int \<times> int" where
  "switchPossibleColors possibleColors i seed =
     (if possibleColors = 1 then (0, seed)
      else if possibleColors = 2 then (1, seed)
      else if possibleColors = 3 then (let (v, seed') = seedExtract2 seed in (int v, seed'))
      else if possibleColors = 4 then (2, seed)
      else if possibleColors = 5 then
        (let (v, seed') = seedExtract2 seed in (if v = 0 then 0 else 2, seed'))
      else if possibleColors = 6 then (let (v, seed') = seedExtract2 seed in (int v + 1, seed'))
      else if possibleColors = 7 then
        (let (v, seed') = seedExtract3 seed in ((v + int i) smod 3, seed'))
      else (0, seed))"

definition colorSecondDegreeGraph ::
  "int list \<Rightarrow> nat list list \<Rightarrow> nat \<Rightarrow> int \<Rightarrow> int list \<times> int" where
  "colorSecondDegreeGraph coloring edgeMatrix vertexCount seed =
     fold (\<lambda>i (coloring, seed).
             (let possibleColors =
                    fold (\<lambda>j possibleColors.
                            if edgeMatrix ! i ! j \<noteq> 0
                            then possibleColors AND NOT (shiftOne (coloring ! j))
                            else possibleColors)
                      [0..<i] 7;
                  (color, seed') = switchPossibleColors possibleColors i seed
              in (coloring[i := color], seed')))
       [0..<vertexCount] (coloring, seed)"

definition vertexPossibleColors :: "int list \<Rightarrow> nat list \<Rightarrow> nat \<Rightarrow> 32 word" where
  "vertexPossibleColors coloring edgeVector vertexCount =
     (let usedColors =
            fold (\<lambda>i usedColors.
                    if edgeVector ! i \<noteq> 0 then usedColors OR shiftOne (coloring ! i) else usedColors)
              [0..<vertexCount] 0
      in 7 AND NOT usedColors)"

definition uncolorSameNeighbors ::
  "nat list \<Rightarrow> int list \<Rightarrow> nat list list \<Rightarrow> nat \<Rightarrow> nat \<Rightarrow> nat list \<times> int list" where
  "uncolorSameNeighbors uncolored coloring edgeMatrix vertex vertexCount =
     fold (\<lambda>i (uncolored, coloring).
             if edgeMatrix ! vertex ! i \<noteq> 0 \<and> coloring ! i = coloring ! vertex
             then (uncolored @ [i], coloring[i := - 1])
             else (uncolored, coloring))
       ([vertex + 1..<vertexCount] @ [0..<vertex]) (uncolored, coloring)"

definition FIRST_POSSIBLE_COLOR :: "int list" where
  "FIRST_POSSIBLE_COLOR = [- 1, 0, 1, 0, 2, 2, 1, 0]"

definition setEdge :: "nat list list \<Rightarrow> nat \<Rightarrow> nat \<Rightarrow> nat \<Rightarrow> nat list list" where
  "setEdge edgeMatrix a b v = edgeMatrix[a := (edgeMatrix ! a)[b := v]]"

text \<open>
  The \<open>do ... while\<close> of \<open>tryAddEdge\<close>, which picks \<open>step++ % 3\<close> until the color differs from
  that of \<open>vertexA\<close>, and the \<open>while\<close> around it. Not returning is \<open>None\<close>.
\<close>

partial_function (option) recolorPick ::
  "nat list list \<Rightarrow> nat \<Rightarrow> nat \<Rightarrow> int list \<Rightarrow> nat \<Rightarrow> (int list \<times> nat) option" where
  "recolorPick edgeMatrix vertexA i coloringBuffer step =
     (let coloringBuffer' = coloringBuffer[i := int (step mod 3)];
          step' = step + 1
      in if edgeMatrix ! i ! vertexA \<noteq> 0 \<and> coloringBuffer' ! i = coloringBuffer' ! vertexA
         then recolorPick edgeMatrix vertexA i coloringBuffer' step'
         else Some (coloringBuffer', step'))"

partial_function (option) recolorLoop ::
  "nat list list \<Rightarrow> nat \<Rightarrow> nat \<Rightarrow> nat list \<Rightarrow> int list \<Rightarrow> nat
     \<Rightarrow> (nat list \<times> int list) option" where
  "recolorLoop edgeMatrix vertexCount vertexA uncolored coloringBuffer step =
     (if uncolored \<noteq> [] \<and> step < MAX_RECOLOR_STEPS then
        (let i = hd uncolored;
             uncolored' = tl uncolored;
             possibleColors = vertexPossibleColors coloringBuffer (edgeMatrix ! i) vertexCount
         in if possibleColors \<noteq> 0 then
              recolorLoop edgeMatrix vertexCount vertexA uncolored'
                (coloringBuffer[i := FIRST_POSSIBLE_COLOR ! unat possibleColors]) step
            else
              (case recolorPick edgeMatrix vertexA i coloringBuffer step of
                 None \<Rightarrow> None
               | Some (coloringBuffer', step') \<Rightarrow>
                   (case uncolorSameNeighbors uncolored' coloringBuffer' edgeMatrix i vertexCount of
                      (uncolored'', coloringBuffer'') \<Rightarrow>
                        recolorLoop edgeMatrix vertexCount vertexA uncolored'' coloringBuffer'' step')))
      else Some (uncolored, coloringBuffer))"

text \<open>The state of \<open>tryAddEdge\<close> is the coloring, the matrix and the buffer.\<close>

definition tryAddEdge ::
  "int list \<Rightarrow> nat list list \<Rightarrow> nat \<Rightarrow> nat \<Rightarrow> nat \<Rightarrow> int list
     \<Rightarrow> (bool \<times> int list \<times> nat list list \<times> int list) option" where
  "tryAddEdge coloring edgeMatrix vertexCount vertexA vertexB coloringBuffer =
     (let edgeMatrix = setEdge (setEdge edgeMatrix vertexA vertexB 1) vertexB vertexA 1
      in if coloring ! vertexA \<noteq> coloring ! vertexB then Some (True, coloring, edgeMatrix, coloringBuffer)
         else
           (let bPossibleColors = vertexPossibleColors coloring (edgeMatrix ! vertexB) vertexCount
            in if bPossibleColors \<noteq> 0 then
                 Some (True, coloring[vertexB := FIRST_POSSIBLE_COLOR ! unat bPossibleColors],
                       edgeMatrix, coloringBuffer)
               else
                 (let coloringBuffer =
                        fold (\<lambda>i buffer. buffer[i := coloring ! i]) [0..<vertexCount] coloringBuffer;
                      coloringBuffer =
                        coloringBuffer[vertexB :=
                          FIRST_POSSIBLE_COLOR ! unat (7 AND NOT (shiftOne (coloringBuffer ! vertexA)))];
                      (uncolored, coloringBuffer) =
                        uncolorSameNeighbors [] coloringBuffer edgeMatrix vertexB vertexCount
                  in case recolorLoop edgeMatrix vertexCount vertexA uncolored coloringBuffer 0 of
                       None \<Rightarrow> None
                     | Some (uncolored, coloringBuffer) \<Rightarrow>
                         if uncolored \<noteq> [] then
                           Some (False, coloring,
                                 setEdge (setEdge edgeMatrix vertexA vertexB 0) vertexB vertexA 0,
                                 coloringBuffer)
                         else
                           Some (True,
                                 fold (\<lambda>i coloring. coloring[i := coloringBuffer ! i])
                                   [0..<vertexCount] coloring,
                                 edgeMatrix, coloringBuffer))))"


section \<open>Splines\<close>

text \<open>
  \<open>edgeSegments\<close> holds references to the edges of the shape, in the order of the splines.
  A reference is the position of the edge, contour and holder, in the shape as it is after
  the splitting, together with the edge as it is when it is pushed; the edges pushed are
  not changed before the colors are applied.
\<close>

type_synonym segment_ref = "(nat \<times> nat) \<times> edge_segment"

type_synonym splines = "segment_ref list \<times> nat list"

definition filledParts :: "edge_segment option list \<Rightarrow> edge_segment list" where
  "filledParts parts = concat (map (\<lambda>part. case part of None \<Rightarrow> [] | Some e \<Rightarrow> [e]) parts)"

text \<open>The position that slot \<open>k\<close> of \<open>parts\<close> takes in the rebuilt contour.\<close>

definition partPosition :: "edge_segment option list \<Rightarrow> nat \<Rightarrow> nat" where
  "partPosition parts k = length (filledParts (take k parts))"

definition pushPart :: "nat \<Rightarrow> edge_segment option list \<Rightarrow> nat \<Rightarrow> segment_ref list \<Rightarrow> segment_ref list" where
  "pushPart ci parts k edgeSegments =
     (case parts ! k of
        None \<Rightarrow> edgeSegments
      | Some e \<Rightarrow> edgeSegments @ [((ci, partPosition parts k), e)])"

definition teardropSplines ::
  "nat \<Rightarrow> edge_segment list \<Rightarrow> nat \<Rightarrow> splines \<Rightarrow> edge_segment list \<times> splines" where
  "teardropSplines ci es corner st =
     (let m = length es
      in fold (\<lambda>i (es', edgeSegments, splineStarts).
                 (let splineStarts = (if i = m div 2 then splineStarts @ [length edgeSegments]
                                      else splineStarts);
                      tri = symmetricalTrichotomy (int i) (int m);
                      idx = (corner + i) mod m
                  in if tri \<noteq> 0 then (es', edgeSegments @ [((ci, idx), es' ! idx)], splineStarts)
                     else (es'[idx := EdgeSegment_setColor (es' ! idx) WHITE], edgeSegments, splineStarts)))
           [0..<m] (es, st))"

definition teardropSplitSplines ::
  "nat \<Rightarrow> edge_segment list \<Rightarrow> nat \<Rightarrow> splines \<Rightarrow> edge_segment list \<times> splines" where
  "teardropSplitSplines ci es corner st =
     (case st of (edgeSegments, splineStarts) \<Rightarrow>
        (let parts = splitParts es corner
         in if length es \<ge> 2 then
              (let edgeSegments = pushPart ci parts 1 (pushPart ci parts 0 edgeSegments);
                   parts' = setPartColor (setPartColor parts 3 WHITE) 2 WHITE;
                   splineStarts = splineStarts @ [length edgeSegments];
                   edgeSegments = pushPart ci parts 5 (pushPart ci parts 4 edgeSegments)
               in (filledParts parts', edgeSegments, splineStarts))
            else
              (let edgeSegments = pushPart ci parts 0 edgeSegments;
                   parts' = setPartColor parts 1 WHITE;
                   splineStarts = splineStarts @ [length edgeSegments];
                   edgeSegments = pushPart ci parts 2 edgeSegments
               in (filledParts parts', edgeSegments, splineStarts))))"

definition splineStep ::
  "nat list \<Rightarrow> nat \<Rightarrow> nat \<Rightarrow> nat \<Rightarrow> edge_segment list \<Rightarrow> nat
     \<Rightarrow> nat \<times> splines \<Rightarrow> nat \<times> splines" where
  "splineStep corners start m ci es i st =
     (case st of (spline, edgeSegments, splineStarts) \<Rightarrow>
        (let idx = (start + i) mod m;
             (spline', splineStarts') =
               (if spline + 1 < length corners \<and> corners ! (spline + 1) = idx
                then (spline + 1, splineStarts @ [length edgeSegments])
                else (spline, splineStarts))
         in (spline', edgeSegments @ [((ci, idx), es ! idx)], splineStarts')))"

text \<open>One contour of \<open>edgeColoringByDistance\<close>: its edges, perhaps split, and the splines so far.\<close>

definition distanceContour ::
  "real \<Rightarrow> nat \<Rightarrow> edge_segment list \<Rightarrow> splines \<Rightarrow> edge_segment list \<times> splines" where
  "distanceContour crossThreshold ci es st =
     (case st of (edgeSegments, splineStarts0) \<Rightarrow>
        (let corners = contourCorners crossThreshold es;
             splineStarts = splineStarts0 @ [length edgeSegments]
         in if length corners = 0 then
              (es, edgeSegments @ map (\<lambda>k. ((ci, k), es ! k)) [0..<length es], splineStarts)
            else if length corners = 1 then
              (let corner = corners ! 0
               in if length es \<ge> 3 then teardropSplines ci es corner (edgeSegments, splineStarts)
                  else teardropSplitSplines ci es corner (edgeSegments, splineStarts))
            else
              (let start = corners ! 0;
                   m = length es;
                   (spline, st') =
                     fold (splineStep corners start m ci es) [0..<m] (0, edgeSegments, splineStarts)
               in (es, st'))))"

fun distanceContours ::
  "real \<Rightarrow> nat \<Rightarrow> contour list \<Rightarrow> splines \<Rightarrow> error + (contour list \<times> splines)" where
  "distanceContours crossThreshold ci [] st = Inr ([], st)"
| "distanceContours crossThreshold ci (contour # rest) st =
     (if length contour = 0 then
        (case distanceContours crossThreshold (ci + 1) rest st of
           Inl err \<Rightarrow> Inl err
         | Inr (rest', st') \<Rightarrow> Inr (contour # rest', st'))
      else
        (case those contour of
           None \<Rightarrow> Inl NoEdgeSegment
         | Some es \<Rightarrow>
             (case distanceContour crossThreshold ci es st of (es', st') \<Rightarrow>
                (case distanceContours crossThreshold (ci + 1) rest st' of
                   Inl err \<Rightarrow> Inl err
                 | Inr (rest', st'') \<Rightarrow> Inr (map Some es' # rest', st'')))))"

section \<open>The graph of the splines\<close>

definition graphEdgeDistances ::
  "edge_segment list \<Rightarrow> nat list \<Rightarrow> nat \<Rightarrow> (real \<times> nat \<times> nat) list" where
  "graphEdgeDistances edgeSegments splineStarts splineCount =
     concat (map (\<lambda>i. map (\<lambda>j.
         (splineToSplineDistance edgeSegments (splineStarts ! i) (splineStarts ! (i + 1))
            (splineStarts ! j) (splineStarts ! (j + 1)) EDGE_DISTANCE_PRECISION, i, j))
         [i + 1..<splineCount]) [0..<splineCount])"

definition addGraphEdge :: "real \<times> nat \<times> nat \<Rightarrow> nat list list \<Rightarrow> nat list list" where
  "addGraphEdge e edgeMatrix = (case e of (d, i, j) \<Rightarrow> setEdge (setEdge edgeMatrix i j 1) j i 1)"

text \<open>The remaining graph edges are tried in the order of their distance.\<close>

fun tryAddEdges ::
  "(real \<times> nat \<times> nat) list \<Rightarrow> nat \<Rightarrow> int list \<times> nat list list \<times> int list
     \<Rightarrow> (int list \<times> nat list list \<times> int list) option" where
  "tryAddEdges [] vertexCount st = Some st"
| "tryAddEdges ((d, i, j) # rest) vertexCount (coloring, edgeMatrix, coloringBuffer) =
     (case tryAddEdge coloring edgeMatrix vertexCount i j coloringBuffer of
        None \<Rightarrow> None
      | Some (added, coloring', edgeMatrix', coloringBuffer') \<Rightarrow>
          tryAddEdges rest vertexCount (coloring', edgeMatrix', coloringBuffer'))"

text \<open>
  The colors are applied through the references. \<open>colors[coloring[spline]]\<close> is \<open>undefined\<close>
  when the coloring is not \<open>0\<close>, \<open>1\<close> or \<open>2\<close>.
\<close>

definition splineColor :: "int list \<Rightarrow> int \<Rightarrow> nat option" where
  "splineColor coloring spline =
     (let colors = [YELLOW, CYAN, MAGENTA]
      in if 0 \<le> spline \<and> nat spline < length coloring
            \<and> 0 \<le> coloring ! nat spline \<and> coloring ! nat spline < 3
         then Some (colors ! nat (coloring ! nat spline)) else None)"

definition setEdgeColor :: "contour list \<Rightarrow> nat \<times> nat \<Rightarrow> nat \<Rightarrow> contour list" where
  "setEdgeColor cs r c =
     (case r of (ci, ei) \<Rightarrow>
        cs[ci := (cs ! ci)[ei := map_option (\<lambda>e. EdgeSegment_setColor e c) (cs ! ci ! ei)]])"

fun applyColors ::
  "segment_ref list \<Rightarrow> nat \<Rightarrow> nat list \<Rightarrow> int list \<Rightarrow> int \<Rightarrow> contour list \<Rightarrow> error + contour list" where
  "applyColors [] i splineStarts coloring spline cs = Inr cs"
| "applyColors ((r, e) # rest) i splineStarts coloring spline cs =
     (let spline' = (if 0 \<le> spline + 1 \<and> nat (spline + 1) < length splineStarts
                        \<and> splineStarts ! nat (spline + 1) = i
                     then spline + 1 else spline)
      in case splineColor coloring spline' of
           None \<Rightarrow> Inl UndefinedColor
         | Some c \<Rightarrow> applyColors rest (i + 1) splineStarts coloring spline' (setEdgeColor cs r c))"

definition edgeColoringByDistance :: "shape \<Rightarrow> real \<Rightarrow> int \<Rightarrow> (error + shape) option" where
  "edgeColoringByDistance shp angleThreshold seed =
     (let crossThreshold = sin angleThreshold
      in case distanceContours crossThreshold 0 (contours shp) ([], []) of
           Inl err \<Rightarrow> Some (Inl err)
         | Inr (cs, edgeSegments, splineStarts0) \<Rightarrow>
             (let splineStarts = splineStarts0 @ [length edgeSegments];
                  splineCount = length splineStarts - 1
              in if splineCount = 0 then Some (Inr (shp\<lparr>contours := cs\<rparr>))
                 else
                   (let graphEdges =
                          sort_key fst (graphEdgeDistances (map snd edgeSegments) splineStarts splineCount);
                        edgeMatrix =
                          fold addGraphEdge (takeWhile (\<lambda>e. fst e = 0) graphEdges)
                            (replicate splineCount (replicate splineCount 0));
                        (coloring, seed') =
                          colorSecondDegreeGraph (replicate splineCount 0) edgeMatrix splineCount seed
                    in case tryAddEdges (dropWhile (\<lambda>e. fst e = 0) graphEdges) splineCount
                              (coloring, edgeMatrix, replicate splineCount 0) of
                         None \<Rightarrow> None
                       | Some (coloring', edgeMatrix', coloringBuffer') \<Rightarrow>
                           (case applyColors edgeSegments 0 splineStarts coloring' (- 1) cs of
                              Inl err \<Rightarrow> Some (Inl err)
                            | Inr cs' \<Rightarrow> Some (Inr (shp\<lparr>contours := cs'\<rparr>))))))"

text \<open>
  A contour of four cubic leaves that all start and end in the origin, and the complete
  graph on four vertices.
\<close>

definition cloverLeaves :: "nat \<Rightarrow> nat \<Rightarrow> nat \<Rightarrow> nat \<Rightarrow> edge_segment list" where
  "cloverLeaves c0 c1 c2 c3 =
     [CubicSegment (Vector2 0 0) (Vector2 1 0) (Vector2 0 1) (Vector2 0 0) c0,
      CubicSegment (Vector2 0 0) (Vector2 0 1) (Vector2 (- 1) 0) (Vector2 0 0) c1,
      CubicSegment (Vector2 0 0) (Vector2 (- 1) 0) (Vector2 0 (- 1)) (Vector2 0 0) c2,
      CubicSegment (Vector2 0 0) (Vector2 0 (- 1)) (Vector2 1 0) (Vector2 0 0) c3]"

definition cloverShape :: "nat \<Rightarrow> nat \<Rightarrow> nat \<Rightarrow> nat \<Rightarrow> shape" where
  "cloverShape c0 c1 c2 c3 = \<lparr>contours = [map Some (cloverLeaves c0 c1 c2 c3)], inverseYAxis = False\<rparr>"

definition K4 :: "nat list list" where
  "K4 = [[0, 1, 1, 1], [1, 0, 1, 1], [1, 1, 0, 1], [1, 1, 1, 0]]"

section \<open>Properties\<close>

text \<open>
  C9. A linear segment meets a scanline at most once, and exactly once iff \<open>y\<close> lies in the
  half-open span between the two end points' y-coordinates; the end point with the larger
  y never gives a crossing, and a horizontal segment gives none.
\<close>

theorem LinearSegment_scanline_span:
  "length (LinearSegment_scanlineIntersections p0 p1 y) \<le> 1
   \<and> (length (LinearSegment_scanlineIntersections p0 p1 y) = 1
        \<longleftrightarrow> (y \<ge> vy p0 \<and> y < vy p1) \<or> (y \<ge> vy p1 \<and> y < vy p0))
   \<and> LinearSegment_scanlineIntersections p0 p1 (max (vy p0) (vy p1)) = []
   \<and> (vy p0 = vy p1 \<longrightarrow> LinearSegment_scanlineIntersections p0 p1 y = [])"
  by (auto simp: LinearSegment_scanlineIntersections_def Let_def)

theorem LinearSegment_scanline_span_witness:
  "length (LinearSegment_scanlineIntersections (Vector2 0 0) (Vector2 4 2) 1) = 1
   \<and> LinearSegment_scanlineIntersections (Vector2 0 0) (Vector2 4 2) 1 = [EdgeHit 2 1]
   \<and> LinearSegment_scanlineIntersections (Vector2 0 0) (Vector2 4 2) 2 = []
   \<and> vy (Vector2 0 3) = vy (Vector2 5 3)
   \<and> LinearSegment_scanlineIntersections (Vector2 0 3) (Vector2 5 3) 3 = []"
  using LinearSegment_scanline_span [of "Vector2 0 0" "Vector2 4 2" 1]
        LinearSegment_scanline_span [of "Vector2 0 3" "Vector2 5 3" 3]
  by (simp add: LinearSegment_scanlineIntersections_def mix_def)



section \<open>Rounding\<close>

lemma roundEven_int [simp]: "roundEven (of_int n) = n"
  by (simp add: roundEven_def)

lemma roundEven_error: "\<bar>of_int (roundEven x) - x\<bar> \<le> 1 / 2"
  unfolding roundEven_def Let_def by (auto simp: abs_if) linarith+

lemma roundEven_ge:
  assumes "of_int n \<le> x" shows "n \<le> roundEven x"
proof -
  have "n \<le> \<lfloor>x\<rfloor>" using assms by (simp add: le_floor_iff)
  then show ?thesis unfolding roundEven_def Let_def by auto
qed

lemma roundEven_le:
  assumes "x \<le> of_int n" shows "roundEven x \<le> n"
proof (cases "x = of_int n")
  case True then show ?thesis by simp
next
  case False
  then have "x < of_int n" using assms by simp
  then have "\<lfloor>x\<rfloor> < n" by (simp add: floor_less_iff)
  then show ?thesis unfolding roundEven_def Let_def by auto
qed

lemma floor_log2:
  assumes "(2::real) powr of_int e \<le> r" "r < (2::real) powr of_int (e + 1)"
  shows "\<lfloor>log 2 r\<rfloor> = e"
proof -
  have "0 < (2::real) powr of_int e" by simp
  then have pos: "0 < r" using assms(1) by linarith
  have "of_int e \<le> log 2 r" using assms(1) pos by (simp add: le_log_iff)
  moreover have "log 2 r < of_int (e + 1)" using assms(2) pos by (simp add: log_less_iff)
  ultimately show ?thesis by (simp add: floor_eq_iff)
qed


lemma roundTo_eval:
  assumes r: "r \<noteq> 0"
    and e: "(2::real) powr of_int e \<le> \<bar>r\<bar>" "\<bar>r\<bar> < (2::real) powr of_int (e + 1)" "emin \<le> e"
    and n: "roundEven (r / (2::real) powr of_int (e - p + 1)) = n" "n \<noteq> 0"
    and y: "\<bar>(2::real) powr of_int (e - p + 1) * of_int n\<bar> < (2::real) powr of_int emax"
  shows "roundTo p emin emax r = Fin ((2::real) powr of_int (e - p + 1) * of_int n)"
proof -
  have fl: "\<lfloor>log 2 \<bar>r\<bar>\<rfloor> = e" using e(1,2) by (rule floor_log2)
  have m: "max \<lfloor>log 2 \<bar>r\<bar>\<rfloor> emin = e" using fl e(3) by simp
  let ?q = "(2::real) powr of_int (e - p + 1)"
  have q: "0 < ?q" by simp
  have y0: "?q * of_int n \<noteq> 0" using n(2) q by simp
  have y1: "\<not> ?q * of_int n \<ge> (2::real) powr of_int emax" using y by linarith
  have y2: "\<not> ?q * of_int n \<le> - ((2::real) powr of_int emax)" using y by linarith
  show ?thesis unfolding roundTo_def m Let_def n(1) using r y0 y1 y2 by simp
qed

text \<open>A number with a significand of \<open>p\<close> bits and an exponent in range rounds to itself.\<close>

lemma roundTo_representable:
  assumes m: "2 ^ nat (p - 1) \<le> \<bar>m\<bar>" "\<bar>m\<bar> < 2 ^ nat p" "1 \<le> p"
    and k: "emin \<le> k + p - 1" "k + p - 1 < emax"
  shows "roundTo p emin emax (of_int m * (2::real) powr of_int k) = Fin (of_int m * (2::real) powr of_int k)"
proof -
  let ?r = "of_int m * (2::real) powr of_int k :: real"
  let ?e = "k + p - 1"
  have m0: "m \<noteq> 0" using m(1) by auto
  have r0: "?r \<noteq> 0" using m0 by simp
  have ar: "\<bar>?r\<bar> = of_int \<bar>m\<bar> * (2::real) powr of_int k" by (simp add: abs_mult)
  have p1: "(2::real) powr of_int (p - 1) = 2 ^ nat (p - 1)"
    using m(3) by (simp add: powr_realpow [symmetric])
  have p2: "(2::real) powr of_int p = 2 ^ nat p"
    using m(3) by (simp add: powr_realpow [symmetric])
  have "(2::real) powr of_int ?e = (2::real) powr of_int (p - 1) * (2::real) powr of_int k"
    by (simp add: powr_add [symmetric] algebra_simps)
  also have "\<dots> \<le> of_int \<bar>m\<bar> * (2::real) powr of_int k"
  proof -
    have "(2::real) ^ nat (p - 1) \<le> of_int \<bar>m\<bar>" using m(1) by (metis of_int_le_iff of_int_numeral of_int_power)
    then show ?thesis unfolding p1 by (simp add: mult_right_mono)
  qed
  finally have e1: "(2::real) powr of_int ?e \<le> \<bar>?r\<bar>" unfolding ar .
  have "of_int \<bar>m\<bar> * (2::real) powr of_int k < (2::real) powr of_int p * (2::real) powr of_int k"
  proof -
    have "of_int \<bar>m\<bar> < (2::real) ^ nat p" using m(2) by (metis of_int_less_iff of_int_numeral of_int_power)
    then show ?thesis unfolding p2 by (simp add: mult_strict_right_mono)
  qed
  also have "\<dots> = (2::real) powr of_int (?e + 1)" by (simp add: powr_add [symmetric] algebra_simps)
  finally have e2: "\<bar>?r\<bar> < (2::real) powr of_int (?e + 1)" unfolding ar .
  have q: "?e - p + 1 = k" by simp
  have n: "roundEven (?r / (2::real) powr of_int (?e - p + 1)) = m" unfolding q by simp
  have le: "(2::real) powr of_int (?e + 1) \<le> (2::real) powr of_int emax" using k(2) by simp
  have y: "\<bar>(2::real) powr of_int (?e - p + 1) * of_int m\<bar> < (2::real) powr of_int emax"
  proof -
    have "\<bar>(2::real) powr of_int k * of_int m\<bar> = \<bar>?r\<bar>" by (simp add: mult.commute)
    also have "\<dots> < (2::real) powr of_int (?e + 1)" by (rule e2)
    also have "\<dots> \<le> (2::real) powr of_int emax" by (rule le)
    finally show ?thesis unfolding q .
  qed
  have "roundTo p emin emax ?r = Fin ((2::real) powr of_int (?e - p + 1) * of_int m)"
    using r0 e1 e2 k(1) n m0 y by (rule roundTo_eval)
  then show ?thesis unfolding q by (simp add: mult.commute)
qed

text \<open>A number of at least \<open>2 ^ emax\<close> overflows.\<close>

lemma roundTo_overflow:
  assumes "(2::real) powr of_int emax \<le> r" "1 \<le> p" "emin \<le> emax"
  shows "roundTo p emin emax r = PosInf"
proof -
  have "0 < (2::real) powr of_int emax" by simp
  then have pos: "0 < r" using assms(1) by linarith
  define e where "e = \<lfloor>log 2 \<bar>r\<bar>\<rfloor>"
  have "of_int emax \<le> log 2 r" using assms(1) pos by (simp add: le_log_iff)
  then have ee: "emax \<le> e" unfolding e_def using pos by (simp add: le_floor_iff)
  then have m: "max \<lfloor>log 2 \<bar>r\<bar>\<rfloor> emin = e" unfolding e_def using assms(3) by simp
  have "of_int e \<le> log 2 \<bar>r\<bar>" unfolding e_def by (rule of_int_floor_le)
  then have "of_int e \<le> log 2 r" using pos by simp
  then have lo: "(2::real) powr of_int e \<le> r"
    using pos le_log_iff [of 2 r "of_int e"] by simp
  let ?q = "(2::real) powr of_int (e - p + 1)"
  have q: "0 < ?q" by simp
  have pp: "(2::real) powr of_int (p - 1) = of_int (2 ^ nat (p - 1))"
    using assms(2) by (simp add: powr_realpow [symmetric])
  have "(2::real) powr of_int e = ?q * (2::real) powr of_int (p - 1)"
    by (simp add: powr_add [symmetric])
  then have "?q * (2::real) powr of_int (p - 1) \<le> r" using lo by simp
  then have "(2::real) powr of_int (p - 1) \<le> r / ?q" using q by (simp add: pos_le_divide_eq mult.commute)
  then have "2 ^ nat (p - 1) \<le> roundEven (r / ?q)" unfolding pp by (rule roundEven_ge)
  then have "(2::real) powr of_int (p - 1) \<le> of_int (roundEven (r / ?q))"
    unfolding pp by (simp only: of_int_le_iff)
  then have "?q * (2::real) powr of_int (p - 1) \<le> ?q * of_int (roundEven (r / ?q))"
    using q by (simp add: mult_left_mono)
  then have "(2::real) powr of_int e \<le> ?q * of_int (roundEven (r / ?q))"
    by (simp add: powr_add [symmetric])
  moreover have "(2::real) powr of_int emax \<le> (2::real) powr of_int e" using ee by simp
  ultimately have y: "(2::real) powr of_int emax \<le> ?q * of_int (roundEven (r / ?q))" by linarith
  show ?thesis unfolding roundTo_def m Let_def using pos y by simp
qed


lemma roundEven_minus: "roundEven (- x) = - roundEven x"
proof (cases "x = of_int \<lfloor>x\<rfloor>")
  case True
  then obtain n :: int where "x = of_int n" by metis
  then have "- x = of_int (- n)" by simp
  then show ?thesis using \<open>x = of_int n\<close> by (metis roundEven_int)
next
  case False
  then have f: "\<lfloor>- x\<rfloor> = - \<lfloor>x\<rfloor> - 1" by (simp add: floor_minus ceiling_altdef)
  have d: "0 < x - of_int \<lfloor>x\<rfloor>" "x - of_int \<lfloor>x\<rfloor> < 1" using False by linarith+
  show ?thesis unfolding roundEven_def Let_def f using d by (auto simp: algebra_simps)
qed

lemma roundTo_minus:
  assumes "r \<noteq> 0"
  shows "roundTo p emin emax (- r) = num_neg (roundTo p emin emax r)"
proof -
  define q where "q = (2::real) powr of_int (max \<lfloor>log 2 \<bar>r\<bar>\<rfloor> emin - p + 1)"
  define y where "y = q * of_int (roundEven (r / q))"
  define M where "M = (2::real) powr of_int emax"
  have M: "0 < M" unfolding M_def by simp
  have ym: "q * of_int (roundEven (- r / q)) = - y"
    unfolding y_def using roundEven_minus [of "r / q"] by simp
  have 1: "roundTo p emin emax (- r) =
      (if - y \<ge> M then PosInf
       else if - y \<le> - M then NegInf
       else if - y = 0 then (if - r < 0 then NegZero else Fin 0)
       else Fin (- y))"
    unfolding roundTo_def Let_def M_def using assms ym by (simp add: q_def)
  have 2: "roundTo p emin emax r =
      (if y \<ge> M then PosInf
       else if y \<le> - M then NegInf
       else if y = 0 then (if r < 0 then NegZero else Fin 0)
       else Fin y)"
    unfolding roundTo_def Let_def M_def using assms by (simp add: q_def y_def)
  consider "y \<ge> M" | "y \<le> - M" | "- M < y" "y < M" "y = 0" | "- M < y" "y < M" "y \<noteq> 0"
    by linarith
  then show ?thesis
  proof cases
    case 1
    then have "\<not> - y \<ge> M" "- y \<le> - M" using M by linarith+
    then show ?thesis unfolding \<open>roundTo p emin emax (- r) = _\<close> 2 using 1 by simp
  next
    case 2
    then have "- y \<ge> M" "\<not> y \<ge> M" using M by linarith+
    then show ?thesis unfolding \<open>roundTo p emin emax (- r) = _\<close> \<open>roundTo p emin emax r = _\<close> using 2 by simp
  next
    case 3
    then have "\<not> - y \<ge> M" "\<not> - y \<le> - M" "\<not> y \<ge> M" "\<not> y \<le> - M" using M by linarith+
    then show ?thesis unfolding \<open>roundTo p emin emax (- r) = _\<close> \<open>roundTo p emin emax r = _\<close>
      using 3 assms by simp
  next
    case 4
    then have "\<not> - y \<ge> M" "\<not> - y \<le> - M" "\<not> y \<ge> M" "\<not> y \<le> - M" using M by linarith+
    then show ?thesis unfolding \<open>roundTo p emin emax (- r) = _\<close> \<open>roundTo p emin emax r = _\<close>
      using 4 by simp
  qed
qed

section \<open>The quadratic solver\<close>

lemma round64_exact:
  assumes "(2::real) powr of_int e \<le> \<bar>r\<bar>" "\<bar>r\<bar> < (2::real) powr of_int (e + 1)"
    and "- 1022 \<le> e" "e < 1024"
    and "r / (2::real) powr of_int (e - 52) = of_int n"
  shows "round64 r = Fin r"
proof -
  have "0 < (2::real) powr of_int e" by simp
  then have r0: "r \<noteq> 0" using assms(1) by auto
  have q: "(2::real) powr of_int (e - 53 + 1) = (2::real) powr of_int (e - 52)" by simp
  have rq: "r = (2::real) powr of_int (e - 52) * of_int n"
    using assms(5) by (simp add: field_simps)
  have n0: "n \<noteq> 0" using r0 rq by auto
  have n: "roundEven (r / (2::real) powr of_int (e - 53 + 1)) = n" unfolding q assms(5) by simp
  have "real_of_int (e + 1) \<le> real_of_int 1024" using assms(4) by simp
  then have "(2::real) powr of_int (e + 1) \<le> (2::real) powr of_int 1024"
    by (rule powr_mono) simp
  then have y: "\<bar>(2::real) powr of_int (e - 53 + 1) * of_int n\<bar> < (2::real) powr of_int 1024"
    unfolding q rq [symmetric] using assms(2) by linarith
  have "roundTo 53 (- 1022) 1024 r = Fin ((2::real) powr of_int (e - 53 + 1) * of_int n)"
    using r0 assms(1,2,3) n n0 y by (rule roundTo_eval)
  then show ?thesis unfolding round64_def q rq [symmetric] .
qed

lemma round64_10_12: "round64 1000000000000 = Fin 1000000000000"
  by (rule round64_exact [where e = 39 and n = 8192000000000000]) (simp_all add: powr_minus)

lemma round64_minus_2_42: "round64 (- 4398046511104) = Fin (- 4398046511104)"
  by (rule round64_exact [where e = 42 and n = "- 4503599627370496"]) (simp_all add: powr_minus)

text \<open>
  C5 as stated fails where its cases overlap: with a small but non-zero leading coefficient
  the linear fallback returns a value although the discriminant is negative. Here
  \<open>a = 1\<close>, \<open>b = 2 ^ 41\<close> and \<open>c = 2 ^ 83\<close>, and the value is \<open>- (2 ^ 42)\<close>.
\<close>

theorem solveQuadratic_negative_discriminant_counterexample:
  "(2199023255552::real) * 2199023255552 - 4 * 1 * 9671406556917033397649408 < 0
   \<and> solveQuadratic_double (Fin 1) (Fin 2199023255552) (Fin 9671406556917033397649408)
       = [Fin (- 4398046511104)]"
  by (simp add: solveQuadratic_double_def solveQuadratic_fallback_def num_equal_def num_less_def
      num_mul_def num_div_def round64_10_12 round64_minus_2_42)


lemma fallback_zero_b:
  assumes "solveQuadratic_fallback a b" "num_equal b (Fin 0)"
  shows "num_equal a (Fin 0)"
proof (rule ccontr)
  assume na: "\<not> num_equal a (Fin 0)"
  then have l: "num_less (num_mul (Fin 1000000000000) (num_abs a)) (num_abs b)"
    using assms(1) by (simp add: solveQuadratic_fallback_def)
  have b: "num_abs b = Fin 0" using assms(2) by (cases b) (simp_all add: num_equal_def)
  show False
  proof (cases a)
    case (Fin x)
    then have x: "x \<noteq> 0" using na by (simp add: num_equal_def)
    let ?r = "roundTo 53 (- 1022) 1024 (1000000000000 * \<bar>x\<bar>)"
    have m: "num_mul (Fin 1000000000000) (num_abs a) = ?r"
      using Fin x by (simp add: num_mul_def round64_def)
    have "\<not> num_less ?r (Fin 0)"
    proof -
      define q where "q = (2::real) powr of_int (max \<lfloor>log 2 \<bar>1000000000000 * \<bar>x\<bar>\<bar>\<rfloor> (- 1022) - 53 + 1)"
      have q: "0 < q" unfolding q_def by simp
      have "0 \<le> 1000000000000 * \<bar>x\<bar> / q" using q by simp
      then have "0 \<le> roundEven (1000000000000 * \<bar>x\<bar> / q)" using roundEven_ge [of 0] by simp
      then have y: "0 \<le> q * of_int (roundEven (1000000000000 * \<bar>x\<bar> / q))" using q by simp
      have pe: "0 < (2::real) powr of_int 1024" by simp
      have "?r = PosInf \<or> ?r = Fin 0 \<or> (\<exists>y. 0 \<le> y \<and> ?r = Fin y)"
        unfolding roundTo_def Let_def q_def [symmetric] using y x pe by (auto simp: not_le)
      then show ?thesis by (auto simp: num_less_def)
    qed
    then show False using l m b by simp
  next
    case NegZero
    then show False using na by (simp add: num_equal_def)
  next
    case PosInf
    then show False using l b by (simp add: num_mul_def num_less_def signedInf_def)
  next
    case NegInf
    then show False using l b by (simp add: num_mul_def num_less_def signedInf_def)
  next
    case NaN
    then show False using l by (simp add: num_mul_def num_less_def)
  qed
qed

text \<open>
  C5 (amended). The solver returns no value when \<open>a\<close> and \<open>b\<close> are zero; the one value
  \<open>-c / b\<close> when the linear fallback applies and \<open>b\<close> is not zero, whatever the discriminant;
  and otherwise, by the discriminant \<open>b * b - 4 * a * c\<close> as it is computed in doubles: two
  values when it is positive, the one value \<open>-b / (2 * a)\<close> when it is zero, and none in every
  other case. The fallback applies with \<open>b\<close> zero only when \<open>a\<close> is zero.
\<close>

theorem solveQuadratic_cases:
  "(num_equal a (Fin 0) \<and> num_equal b (Fin 0) \<longrightarrow> solveQuadratic_double a b c = [])
   \<and> (solveQuadratic_fallback a b \<and> num_equal b (Fin 0) \<longrightarrow> num_equal a (Fin 0))
   \<and> (solveQuadratic_fallback a b \<and> \<not> num_equal b (Fin 0) \<longrightarrow>
         solveQuadratic_double a b c = [num_div (num_neg c) b])
   \<and> (\<not> solveQuadratic_fallback a b \<and> num_less (Fin 0) (solveQuadratic_discriminant a b c) \<longrightarrow>
         solveQuadratic_double a b c =
           [num_div (num_add (num_neg b) (num_sqrt (solveQuadratic_discriminant a b c))) (num_mul (Fin 2) a),
            num_div (num_sub (num_neg b) (num_sqrt (solveQuadratic_discriminant a b c))) (num_mul (Fin 2) a)]
         \<and> length (solveQuadratic_double a b c) = 2)
   \<and> (\<not> solveQuadratic_fallback a b \<and> num_equal (solveQuadratic_discriminant a b c) (Fin 0) \<longrightarrow>
         solveQuadratic_double a b c = [num_div (num_neg b) (num_mul (Fin 2) a)])
   \<and> (\<not> solveQuadratic_fallback a b \<and> \<not> num_less (Fin 0) (solveQuadratic_discriminant a b c)
         \<and> \<not> num_equal (solveQuadratic_discriminant a b c) (Fin 0) \<longrightarrow>
         solveQuadratic_double a b c = [])"
proof (intro conjI impI)
  assume "num_equal a (Fin 0) \<and> num_equal b (Fin 0)"
  then show "solveQuadratic_double a b c = []"
    by (simp add: solveQuadratic_double_def solveQuadratic_fallback_def)
next
  assume "solveQuadratic_fallback a b \<and> num_equal b (Fin 0)"
  then show "num_equal a (Fin 0)" using fallback_zero_b by blast
next
  assume "solveQuadratic_fallback a b \<and> \<not> num_equal b (Fin 0)"
  then show "solveQuadratic_double a b c = [num_div (num_neg c) b]"
    by (simp add: solveQuadratic_double_def)
next
  assume h: "\<not> solveQuadratic_fallback a b \<and> num_less (Fin 0) (solveQuadratic_discriminant a b c)"
  then show "solveQuadratic_double a b c =
           [num_div (num_add (num_neg b) (num_sqrt (solveQuadratic_discriminant a b c))) (num_mul (Fin 2) a),
            num_div (num_sub (num_neg b) (num_sqrt (solveQuadratic_discriminant a b c))) (num_mul (Fin 2) a)]"
    by (simp add: solveQuadratic_double_def Let_def)
  then show "length (solveQuadratic_double a b c) = 2" by simp
next
  assume h: "\<not> solveQuadratic_fallback a b \<and> num_equal (solveQuadratic_discriminant a b c) (Fin 0)"
  then have "\<not> num_less (Fin 0) (solveQuadratic_discriminant a b c)"
    by (auto simp: num_equal_def num_less_def split: if_splits)
  then show "solveQuadratic_double a b c = [num_div (num_neg b) (num_mul (Fin 2) a)]"
    using h by (simp add: solveQuadratic_double_def Let_def)
next
  assume "\<not> solveQuadratic_fallback a b \<and> \<not> num_less (Fin 0) (solveQuadratic_discriminant a b c)
         \<and> \<not> num_equal (solveQuadratic_discriminant a b c) (Fin 0)"
  then show "solveQuadratic_double a b c = []"
    by (simp add: solveQuadratic_double_def Let_def)
qed


lemma round64_small:
  "round64 1 = Fin 1" "round64 2 = Fin 2" "round64 4 = Fin 4"
  "round64 (- 1) = Fin (- 1)" "round64 (- 2) = Fin (- 2)" "round64 (- 4) = Fin (- 4)"
proof -
  show "round64 1 = Fin 1"
    by (rule round64_exact [where e = 0 and n = 4503599627370496]) (simp_all add: powr_minus)
  show "round64 2 = Fin 2"
    by (rule round64_exact [where e = 1 and n = 4503599627370496]) (simp_all add: powr_minus)
  show "round64 4 = Fin 4"
    by (rule round64_exact [where e = 2 and n = 4503599627370496]) (simp_all add: powr_minus)
  show "round64 (- 1) = Fin (- 1)"
    by (rule round64_exact [where e = 0 and n = "- 4503599627370496"]) (simp_all add: powr_minus)
  show "round64 (- 2) = Fin (- 2)"
    by (rule round64_exact [where e = 1 and n = "- 4503599627370496"]) (simp_all add: powr_minus)
  show "round64 (- 4) = Fin (- 4)"
    by (rule round64_exact [where e = 2 and n = "- 4503599627370496"]) (simp_all add: powr_minus)
qed

lemma solveQuadratic_two:
  "\<not> solveQuadratic_fallback (Fin 1) (Fin 0)"
  "solveQuadratic_discriminant (Fin 1) (Fin 0) (Fin (- 1)) = Fin 4"
  "num_sqrt (Fin 4) = Fin 2"
  by (simp_all add: solveQuadratic_fallback_def solveQuadratic_discriminant_def num_equal_def
      num_less_def num_mul_def num_sub_def num_add_def num_sqrt_def signedZero_def
      round64_small round64_10_12)

theorem solveQuadratic_cases_witness:
  "\<not> solveQuadratic_fallback (Fin 1) (Fin 0)
   \<and> num_less (Fin 0) (solveQuadratic_discriminant (Fin 1) (Fin 0) (Fin (- 1)))
   \<and> solveQuadratic_double (Fin 1) (Fin 0) (Fin (- 1)) = [Fin 1, Fin (- 1)]
   \<and> solveQuadratic_fallback (Fin 0) (Fin 2) \<and> \<not> num_equal (Fin 2) (Fin 0)
   \<and> solveQuadratic_double (Fin 0) (Fin 2) (Fin 4) = [Fin (- 2)]
   \<and> solveQuadratic_double (Fin 0) (Fin 0) (Fin 4) = []"
  using solveQuadratic_cases [of "Fin 1" "Fin 0" "Fin (- 1)"]
    solveQuadratic_cases [of "Fin 0" "Fin 2" "Fin 4"]
    solveQuadratic_cases [of "Fin 0" "Fin 0" "Fin 4"]
  by (simp add: solveQuadratic_two solveQuadratic_fallback_def num_equal_def num_less_def
      num_mul_def num_div_def num_sub_def num_add_def round64_small round64_10_12)

subsection \<open>The balanced trichotomy\<close>

lemma symmetricalTrichotomy_range:
  assumes "2 \<le> m" "0 \<le> i" "i < m"
  shows "symmetricalTrichotomy i m \<in> {- 1, 0, 1}"
proof -
  define q where "q = real_of_int i / real_of_int (m - 1)"
  have m1: "0 < real_of_int (m - 1)" using assms by simp
  have q0: "0 \<le> q" using assms by (simp add: q_def)
  have "real_of_int i \<le> real_of_int (m - 1)" using assms by simp
  then have q1: "q \<le> 1" using m1 unfolding q_def by (simp add: field_simps)
  define u where "u = 3 + 2.875 * real_of_int i / real_of_int (m - 1) - 1.4375 + 0.5"
  have u: "u = 33 / 16 + 23 / 8 * q" by (simp add: u_def q_def)
  have "2 \<le> u" "u < 5" using q0 q1 unfolding u by linarith+
  define k where "k = \<lfloor>u\<rfloor>"
  have "2 \<le> k" "k < 5"
    using \<open>2 \<le> u\<close> \<open>u < 5\<close> by (simp_all add: k_def le_floor_iff floor_less_iff)
  then have "k - 3 \<in> {- 1, 0, 1}" by auto
  then show ?thesis unfolding symmetricalTrichotomy_def u_def [symmetric] k_def .
qed

text \<open>
  C4. The values of \<open>symmetricalTrichotomy\<close> lie in \<open>{-1, 0, 1}\<close> (lemma above), but their sum
  over a contour is not always zero, against the function's own documentation: for a
  contour of 47 edges position 15 gives \<open>0\<close> while the opposite position 31 gives \<open>1\<close>, and
  the total is \<open>1\<close>.
\<close>

theorem symmetricalTrichotomy_unbalanced_47:
  "symmetricalTrichotomy 15 47 = 0 \<and> symmetricalTrichotomy 31 47 = 1
   \<and> sum_list (map (\<lambda>i. symmetricalTrichotomy i 47) [0..46]) = 1"
proof -
  have "symmetricalTrichotomy 15 47 = 0" "symmetricalTrichotomy 31 47 = 1"
    by (simp_all add: symmetricalTrichotomy_def)
  moreover have "sum_list (map (\<lambda>i. symmetricalTrichotomy i 47) [0..46]) = 1"
    by code_simp
  ultimately show ?thesis by simp
qed

subsection \<open>The scanline of the overlapping combiner\<close>

lemma sqrt_25: "sqrt 25 = 5" by (rule real_sqrt_unique) simp_all

lemma sqrt_64: "sqrt 64 = 8" by (rule real_sqrt_unique) simp_all

lemma MAX_VALUE_large: "1000000 < MAX_VALUE"
  by (simp add: MAX_VALUE_def)

lemma addHits_direction:
  "\<forall>i \<in> set (intersections s). si_direction i = Undefined
   \<Longrightarrow> \<forall>i \<in> set (intersections (addHits s hs)). si_direction i = Undefined"
proof (induction hs arbitrary: s)
  case Nil then show ?case by simp
next
  case (Cons h hs)
  have "\<forall>i \<in> set (intersections (Scanline_addIntersection s (hit_x h) (edge_hit_property h ''direction''))).
          si_direction i = Undefined"
    using Cons.prems by (simp add: Scanline_addIntersection_def edge_hit_property_def)
  then show ?case using Cons.IH by simp
qed

lemma scanEdges_direction:
  "\<forall>i \<in> set (intersections s). si_direction i = Undefined
   \<Longrightarrow> \<forall>i \<in> set (intersections (scanEdges s y c)). si_direction i = Undefined"
proof (induction c arbitrary: s)
  case Nil then show ?case by simp
next
  case (Cons h c)
  show ?case
  proof (cases h)
    case None
    then show ?thesis using Cons.IH [OF Cons.prems] by simp
  next
    case (Some edge)
    have "\<forall>i \<in> set (intersections (addHits s (EdgeSegment_scanlineIntersections edge y))).
            si_direction i = Undefined"
      by (rule addHits_direction [OF Cons.prems])
    then show ?thesis using Cons.IH Some by simp
  qed
qed

lemma scanContours_direction:
  "\<forall>i \<in> set (intersections s). si_direction i = Undefined
   \<Longrightarrow> \<forall>i \<in> set (intersections (scanContours s y cs)). si_direction i = Undefined"
proof (induction cs arbitrary: s)
  case Nil then show ?case by simp
next
  case (Cons c cs)
  show ?case
  proof (cases "length c = 0")
    case True
    then show ?thesis using Cons.IH [OF Cons.prems] by simp
  next
    case False
    have "\<forall>i \<in> set (intersections (scanEdges s y c)). si_direction i = Undefined"
      by (rule scanEdges_direction [OF Cons.prems])
    then show ?thesis using Cons.IH False by simp
  qed
qed

text \<open>
  Whatever the edges report, the rebuilt scanline holds \<open>undefined\<close> as the direction of
  every intersection: the combiner reads the property \<open>direction\<close> of objects that carry
  \<open>dy\<close>.
\<close>

lemma updateScanline_direction_undefined:
  "\<forall>i \<in> set (intersections (updateScanline s y cs)). si_direction i = Undefined"
  using scanContours_direction [of "Scanline_reset s" y cs]
  by (simp add: updateScanline_def Scanline_sort_def Scanline_reset_def)

lemma lin_hit: "LinearSegment_scanlineIntersections (Vector2 0 0) (Vector2 0 2) 1 = [EdgeHit 0 1]"
  by (simp add: LinearSegment_scanlineIntersections_def mix_def)

lemma quad_hit: "QuadraticSegment_scanlineIntersections (Vector2 2 0) (Vector2 3 2) (Vector2 4 0) 1 = [EdgeHit 3 0]"
  by (simp add: QuadraticSegment_scanlineIntersections_def solveQuadratic_def mix_def)

lemma upd: "intersections (updateScanline Scanline_new 1
     [[Some (LinearSegment (Vector2 0 0) (Vector2 0 2) WHITE),
       Some (QuadraticSegment (Vector2 2 0) (Vector2 3 2) (Vector2 4 0) WHITE)]])
   = [ScanlineIntersection 0 Undefined, ScanlineIntersection 3 Undefined]"
  by (simp add: updateScanline_def Scanline_reset_def Scanline_new_def Scanline_sort_def
       lin_hit quad_hit Scanline_addIntersection_def edge_hit_property_def)

text \<open>
  C2. On a contour with an upward line and a parabola whose apex touches the scanline
  \<open>y = 1\<close>, the edges report a crossing of direction \<open>+1\<close> at \<open>x = 0\<close> and a tangent crossing
  (\<open>dy = 0\<close>) at \<open>x = 3\<close>. The rebuilt scanline records both, each with direction
  \<open>undefined\<close>: the sign is lost, the tangent crossing is kept, and the winding at \<open>x = 5\<close>
  is NaN instead of \<open>1\<close>.
\<close>

theorem updateScanline_loses_direction:
  "EdgeSegment_scanlineIntersections (LinearSegment (Vector2 0 0) (Vector2 0 2) WHITE) 1 = [EdgeHit 0 1]
   \<and> EdgeSegment_scanlineIntersections
        (QuadraticSegment (Vector2 2 0) (Vector2 3 2) (Vector2 4 0) WHITE) 1 = [EdgeHit 3 0]
   \<and> intersections (updateScanline Scanline_new 1
        [[Some (LinearSegment (Vector2 0 0) (Vector2 0 2) WHITE),
          Some (QuadraticSegment (Vector2 2 0) (Vector2 3 2) (Vector2 4 0) WHITE)]])
       = [ScanlineIntersection 0 Undefined, ScanlineIntersection 3 Undefined]
   \<and> Scanline_countWinding (updateScanline Scanline_new 1
        [[Some (LinearSegment (Vector2 0 0) (Vector2 0 2) WHITE),
          Some (QuadraticSegment (Vector2 2 0) (Vector2 3 2) (Vector2 4 0) WHITE)]]) 5 = NaN"
  using lin_hit quad_hit upd by (simp add: Scanline_countWinding_def)

subsection \<open>Sign correction of the overlapping combiner\<close>

lemma flipSign_multi [simp]:
  "flipSign filled (DMulti r g b) = DMulti r g b"
  "flipSign filled (DMultiAndTrue r g b a) = DMultiAndTrue r g b a"
  by (simp_all add: flipSign_def)

lemma Selector_distance_multi:
  "Selector_distance (addContours (Selector_reset (MultiDistanceSelector r g b) origin) origin cs)
     = snd (SimpleContourCombiner_distance (MultiDistanceSelector r g b) origin cs)"
  by (simp add: SimpleContourCombiner_distance_def Let_def)

text \<open>
  With a multi-channel selector the overlapping combiner returns what the simple combiner
  returns, for every shape and query point: the guard \<open>'distance' in dist\<close> fails on a
  multi-channel distance, so the branch that negates \<open>r\<close>, \<open>g\<close>, \<open>b\<close> (and \<open>a\<close>) is never reached.
\<close>

lemma flipSign_no_distance_property:
  "\<not> has_property d ''distance'' \<Longrightarrow> flipSign filled d = d"
  by (simp add: flipSign_def)

lemma addEdges_multi_kind:
  "\<exists>r' g' b'. addEdges (MultiDistanceSelector r g b) origin c = MultiDistanceSelector r' g' b'"
proof (induction c arbitrary: r g b)
  case Nil then show ?case by simp
next
  case (Cons h c)
  show ?case
  proof (cases h)
    case None then show ?thesis using Cons.IH by simp
  next
    case (Some e) then show ?thesis using Cons.IH by (simp add: Let_def)
  qed
qed

lemma addContours_multi_kind:
  "\<exists>r' g' b'. addContours (MultiDistanceSelector r g b) origin cs = MultiDistanceSelector r' g' b'"
proof (induction cs arbitrary: r g b)
  case Nil then show ?case by simp
next
  case (Cons c cs)
  obtain r' g' b' where "addEdges (MultiDistanceSelector r g b) origin c = MultiDistanceSelector r' g' b'"
    using addEdges_multi_kind by blast
  then show ?case using Cons.IH by (cases "length c = 0") auto
qed

lemma addEdges_multi_true_kind:
  "\<exists>r' g' b' a'. addEdges (MultiAndTrueDistanceSelector r g b a) origin c
      = MultiAndTrueDistanceSelector r' g' b' a'"
proof (induction c arbitrary: r g b a)
  case Nil then show ?case by simp
next
  case (Cons h c)
  show ?case
  proof (cases h)
    case None then show ?thesis using Cons.IH by simp
  next
    case (Some e) then show ?thesis using Cons.IH by (simp add: Let_def)
  qed
qed

lemma addContours_multi_true_kind:
  "\<exists>r' g' b' a'. addContours (MultiAndTrueDistanceSelector r g b a) origin cs
      = MultiAndTrueDistanceSelector r' g' b' a'"
proof (induction cs arbitrary: r g b a)
  case Nil then show ?case by simp
next
  case (Cons c cs)
  obtain r' g' b' a' where
    "addEdges (MultiAndTrueDistanceSelector r g b a) origin c = MultiAndTrueDistanceSelector r' g' b' a'"
    using addEdges_multi_true_kind by blast
  then show ?case using Cons.IH by (cases "length c = 0") auto
qed

lemma OverlappingContourCombiner_multi_unflipped:
  assumes "oc_selector oc = MultiDistanceSelector r g b
           \<or> oc_selector oc = MultiAndTrueDistanceSelector r g b a"
  shows "snd (OverlappingContourCombiner_distance oc origin cs)
         = snd (SimpleContourCombiner_distance (oc_selector oc) origin cs)"
proof -
  have "\<not> has_property (Selector_distance (addContours (Selector_reset (oc_selector oc) origin) origin cs))
           ''distance''"
  proof (cases "oc_selector oc = MultiDistanceSelector r g b")
    case True
    obtain r' g' b' where "addContours (Selector_reset (oc_selector oc) origin) origin cs
        = MultiDistanceSelector r' g' b'"
      using addContours_multi_kind True by (metis Selector_reset.simps(3))
    then show ?thesis by simp
  next
    case False
    then have "oc_selector oc = MultiAndTrueDistanceSelector r g b a" using assms by simp
    then obtain r' g' b' a' where "addContours (Selector_reset (oc_selector oc) origin) origin cs
        = MultiAndTrueDistanceSelector r' g' b' a'"
      using addContours_multi_true_kind by (metis Selector_reset.simps(4))
    then show ?thesis by simp
  qed
  then show ?thesis
    using flipSign_no_distance_property
    by (simp add: OverlappingContourCombiner_distance_def SimpleContourCombiner_distance_def Let_def
         split: prod.splits)
qed

lemma sd1: "LinearSegment_signedDistance (Vector2 0 0) (Vector2 0 8) (Vector2 3 4)
   = (SignedDistance 3 0, 1 / 2)"
  by (simp add: LinearSegment_signedDistance_def Vector2_subtract_def dotProduct_def
      Vector2_length_def Vector2_getOrthonormal_def sqrt_25 sqrt_64 Let_def)

text \<open>
  C1. One upward line from \<open>(0, 0)\<close> to \<open>(0, 8)\<close> and the query point \<open>(3, 4)\<close>: the scanline
  has a crossing left of the point, so the point counts as filled, while every channel of
  the selector's distance is \<open>3\<close>, not negative. The claim asks for all channels negated;
  the combiner returns them as they are, for the 3-channel and for the 4-channel selector.
\<close>

theorem OverlappingContourCombiner_multi_not_flipped:
  "Scanline_filled (oc_scanline (fst (OverlappingContourCombiner_distance
       (OverlappingContourCombiner_new (MultiDistanceSelector (SignedDistance (- MAX_VALUE) 0)
          (SignedDistance (- MAX_VALUE) 0) (SignedDistance (- MAX_VALUE) 0)))
       (Vector2 3 4) [[Some (LinearSegment (Vector2 0 0) (Vector2 0 8) WHITE)]]))) 3
   \<and> snd (SimpleContourCombiner_distance (MultiDistanceSelector (SignedDistance (- MAX_VALUE) 0)
          (SignedDistance (- MAX_VALUE) 0) (SignedDistance (- MAX_VALUE) 0))
       (Vector2 3 4) [[Some (LinearSegment (Vector2 0 0) (Vector2 0 8) WHITE)]]) = DMulti 3 3 3
   \<and> snd (OverlappingContourCombiner_distance
       (OverlappingContourCombiner_new (MultiDistanceSelector (SignedDistance (- MAX_VALUE) 0)
          (SignedDistance (- MAX_VALUE) 0) (SignedDistance (- MAX_VALUE) 0)))
       (Vector2 3 4) [[Some (LinearSegment (Vector2 0 0) (Vector2 0 8) WHITE)]]) = DMulti 3 3 3
   \<and> snd (OverlappingContourCombiner_distance
       (OverlappingContourCombiner_new (MultiAndTrueDistanceSelector (SignedDistance (- MAX_VALUE) 0)
          (SignedDistance (- MAX_VALUE) 0) (SignedDistance (- MAX_VALUE) 0) (SignedDistance (- MAX_VALUE) 0)))
       (Vector2 3 4) [[Some (LinearSegment (Vector2 0 0) (Vector2 0 8) WHITE)]]) = DMultiAndTrue 3 3 3 3"
  using MAX_VALUE_large
  by (simp add: OverlappingContourCombiner_distance_def OverlappingContourCombiner_new_def
      SimpleContourCombiner_distance_def
      updateScanline_def Scanline_reset_def Scanline_new_def Scanline_sort_def
      LinearSegment_scanlineIntersections_def mix_def Scanline_addIntersection_def edge_hit_property_def
      sd1 select_min_def SignedDistance_lessThan_def Let_def Scanline_filled_def Scanline_countWinding_def)

subsection \<open>Generators on a shape without contours\<close>

lemma store_length [simp]: "length (store p i v) = length p"
  by (simp add: store_def)

lemma store_nth: "j < length p \<Longrightarrow> store p i v ! j = (if int j = i then fround v else p ! j)"
  by (auto simp: store_def nth_list_update)

lemma Selector_reset_origin: "Selector_reset sel p = Selector_reset sel q"
  by (cases sel) simp_all

lemma Selector_reset_idem: "Selector_reset (Selector_reset sel p) q = Selector_reset sel q"
  by (cases sel) simp_all

lemma updateScanline_empty: "intersections (updateScanline s y []) = []"
  by (simp add: updateScanline_def Scanline_sort_def Scanline_reset_def)

lemma Scanline_filled_empty: "intersections s = [] \<Longrightarrow> \<not> Scanline_filled s x"
  by (simp add: Scanline_filled_def Scanline_countWinding_def)

lemma Combiner_distance_empty:
  assumes "scanlineEmpty c"
  shows "snd (Combiner_distance c p []) = emptyShapeDistance c
         \<and> scanlineEmpty (fst (Combiner_distance c p []))
         \<and> emptyShapeDistance (fst (Combiner_distance c p [])) = emptyShapeDistance c"
proof (cases c)
  case (SimpleContourCombiner sel)
  then show ?thesis
    using Selector_reset_origin [of sel p "Vector2 0 0"]
          Selector_reset_idem [of sel p "Vector2 0 0"]
    by (simp add: SimpleContourCombiner_distance_def Let_def)
next
  case (OverlappingContourCombiner oc)
  have e: "intersections (oc_scanline oc) = []" using assms OverlappingContourCombiner by simp
  show ?thesis
    using OverlappingContourCombiner e Selector_reset_origin [of "oc_selector oc" p "Vector2 0 0"]
          Selector_reset_idem [of "oc_selector oc" p "Vector2 0 0"]
          updateScanline_empty [of "oc_scanline oc" "vy p"]
          Scanline_filled_empty [of "oc_scanline oc" "vx p"]
          Scanline_filled_empty [of "updateScanline (oc_scanline oc) (vy p) []" "vx p"]
    by (simp add: OverlappingContourCombiner_distance_def Let_def split: if_splits)
qed


lemma row_cover:
  fixes w ch y j :: int
  assumes "0 \<le> w" "0 \<le> ch"
  shows "(\<exists>x. 0 \<le> x \<and> x < w \<and> (y * w + x) * ch \<le> j \<and> j < (y * w + x) * ch + ch)
         \<longleftrightarrow> (y * w * ch \<le> j \<and> j < (y + 1) * w * ch)"
proof
  assume "\<exists>x. 0 \<le> x \<and> x < w \<and> (y * w + x) * ch \<le> j \<and> j < (y * w + x) * ch + ch"
  then obtain x where x: "0 \<le> x" "x < w" "(y * w + x) * ch \<le> j" "j < (y * w + x) * ch + ch"
    by blast
  have "0 \<le> x * ch" using x(1) assms(2) by simp
  then have a: "y * w * ch \<le> j" using x(3) by (simp add: algebra_simps)
  have "(x + 1) * ch \<le> w * ch" using x(2) assms(2) by (intro mult_right_mono) simp_all
  then have b: "j < (y + 1) * w * ch" using x(4) by (simp add: algebra_simps)
  show "y * w * ch \<le> j \<and> j < (y + 1) * w * ch" using a b by simp
next
  assume h: "y * w * ch \<le> j \<and> j < (y + 1) * w * ch"
  have chpos: "0 < ch"
  proof (rule ccontr)
    assume "\<not> 0 < ch"
    then have "ch = 0" using assms(2) by simp
    then show False using h by auto
  qed
  define q where "q = j div ch"
  have qe: "j = q * ch + j mod ch" by (simp add: q_def)
  have "0 \<le> j mod ch" "j mod ch < ch" using chpos by simp_all
  then have q1: "q * ch \<le> j" and q2: "j < q * ch + ch" using qe by linarith+
  have "y * w \<le> q"
  proof (rule ccontr)
    assume "\<not> y * w \<le> q"
    then have "q + 1 \<le> y * w" by simp
    then have "(q + 1) * ch \<le> y * w * ch" using chpos by (intro mult_right_mono) simp_all
    then show False using q2 h by (simp add: algebra_simps)
  qed
  moreover have "q < (y + 1) * w"
  proof (rule ccontr)
    assume "\<not> q < (y + 1) * w"
    then have "(y + 1) * w \<le> q" by simp
    then have "(y + 1) * w * ch \<le> q * ch" using chpos by (intro mult_right_mono) simp_all
    then show False using q1 h by simp
  qed
  ultimately have "0 \<le> q - y * w" "q - y * w < w" by (simp_all add: algebra_simps)
  moreover have "(y * w + (q - y * w)) * ch \<le> j" "j < (y * w + (q - y * w)) * ch + ch"
    using q1 q2 by simp_all
  ultimately show "\<exists>x. 0 \<le> x \<and> x < w \<and> (y * w + x) * ch \<le> j \<and> j < (y * w + x) * ch + ch"
    by blast
qed

lemma col_step_empty:
  assumes cs: "contours shp = []" and wc: "writesConstant conv d0 K ch"
      and inv: "scanlineEmpty c" "emptyShapeDistance c = d0"
  shows "\<exists>c'. col_step shp tr conv w (int ch) y xd col (x, c, p) = (x + xd, c', conv p ((y * w + x) * int ch) d0)
           \<and> scanlineEmpty c' \<and> emptyShapeDistance c' = d0"
proof -
  let ?q = "Projection_unproject (projection tr) (Vector2 (real_of_int x + 1 / 2) (real_of_int y + 1 / 2))"
  obtain c' d where cd: "Combiner_distance c ?q [] = (c', d)" by (cases "Combiner_distance c ?q []")
  have "d = d0" "scanlineEmpty c'" "emptyShapeDistance c' = d0"
    using Combiner_distance_empty [OF inv(1), of ?q] inv(2) cd by simp_all
  then show ?thesis using cd cs by (simp add: col_step_def Let_def)
qed

lemma col_fold_empty:
  assumes cs: "contours shp = []" and wc: "writesConstant conv d0 K ch"
      and inv: "scanlineEmpty c" "emptyShapeDistance c = d0"
  shows "\<exists>c' p'. fold (col_step shp tr conv w (int ch) y xd) [0..<n] (x0, c, p) = (x0 + int n * xd, c', p')
           \<and> scanlineEmpty c' \<and> emptyShapeDistance c' = d0 \<and> length p' = length p
           \<and> (\<forall>j < length p. p' ! j =
                 (if \<exists>i<n. (y * w + (x0 + int i * xd)) * int ch \<le> int j
                          \<and> int j < (y * w + (x0 + int i * xd)) * int ch + int ch
                  then K else p ! j))"
proof (induction n)
  case 0
  then show ?case using inv by simp
next
  case (Suc n)
  then obtain c' p' where
    f: "fold (col_step shp tr conv w (int ch) y xd) [0..<n] (x0, c, p) = (x0 + int n * xd, c', p')"
    and i1: "scanlineEmpty c'" "emptyShapeDistance c' = d0" and l: "length p' = length p"
    and v: "\<forall>j < length p. p' ! j =
                 (if \<exists>i<n. (y * w + (x0 + int i * xd)) * int ch \<le> int j
                          \<and> int j < (y * w + (x0 + int i * xd)) * int ch + int ch
                  then K else p ! j)"
    by blast
  obtain c'' where
    s: "col_step shp tr conv w (int ch) y xd n (x0 + int n * xd, c', p')
        = (x0 + int n * xd + xd, c'', conv p' ((y * w + (x0 + int n * xd)) * int ch) d0)"
    and i2: "scanlineEmpty c''" "emptyShapeDistance c'' = d0"
    using col_step_empty [OF cs wc i1] by blast
  let ?p = "conv p' ((y * w + (x0 + int n * xd)) * int ch) d0"
  have wl: "length ?p = length p'" using wc by (simp add: writesConstant_def)
  have wv: "\<forall>j < length p'. ?p ! j
       = (if (y * w + (x0 + int n * xd)) * int ch \<le> int j
             \<and> int j < (y * w + (x0 + int n * xd)) * int ch + int ch then K else p' ! j)"
    using wc by (simp add: writesConstant_def)
  have r1: "fold (col_step shp tr conv w (int ch) y xd) [0..<Suc n] (x0, c, p)
        = (x0 + int (Suc n) * xd, c'', ?p)"
    using f s by (simp add: algebra_simps)
  have r2: "\<forall>j < length p. ?p ! j =
                 (if \<exists>i<Suc n. (y * w + (x0 + int i * xd)) * int ch \<le> int j
                          \<and> int j < (y * w + (x0 + int i * xd)) * int ch + int ch
                  then K else p ! j)"
  proof (intro allI impI)
    fix j assume j: "j < length p"
    define C where "C i \<longleftrightarrow> (y * w + (x0 + int i * xd)) * int ch \<le> int j
                          \<and> int j < (y * w + (x0 + int i * xd)) * int ch + int ch" for i
    have e1: "?p ! j = (if C n then K else p' ! j)"
      using wv [rule_format, of j] j l unfolding C_def by simp
    have e2: "p' ! j = (if \<exists>i<n. C i then K else p ! j)"
      using v [rule_format, of j] j unfolding C_def by simp
    have e3: "(\<exists>i<Suc n. C i) \<longleftrightarrow> C n \<or> (\<exists>i<n. C i)"
      using less_Suc_eq by auto
    have "?p ! j = (if \<exists>i<Suc n. C i then K else p ! j)"
      unfolding e1 e2 e3 by auto
    then show "?p ! j = (if \<exists>i<Suc n. (y * w + (x0 + int i * xd)) * int ch \<le> int j
                          \<and> int j < (y * w + (x0 + int i * xd)) * int ch + int ch
                  then K else p ! j)"
      unfolding C_def .
  qed
  have r3: "length ?p = length p" using wl l by simp
  show ?case
  proof (intro exI conjI)
    show "fold (col_step shp tr conv w (int ch) y xd) [0..<Suc n] (x0, c, p)
        = (x0 + int (Suc n) * xd, c'', ?p)" by (rule r1)
    show "scanlineEmpty c''" by (rule i2)
    show "emptyShapeDistance c'' = d0" by (rule i2)
    show "length ?p = length p" by (rule r3)
    show "\<forall>j < length p. ?p ! j =
                 (if \<exists>i<Suc n. (y * w + (x0 + int i * xd)) * int ch \<le> int j
                          \<and> int j < (y * w + (x0 + int i * xd)) * int ch + int ch
                  then K else p ! j)" by (rule r2)
  qed
qed


lemma serpentine_cover:
  assumes "xd = 1 \<or> xd = - 1"
  shows "(\<exists>i<n. P ((if xd < 0 then int n - 1 else 0) + int i * xd))
         \<longleftrightarrow> (\<exists>x. 0 \<le> x \<and> x < int n \<and> P x)"
proof (cases "xd = 1")
  case True
  show ?thesis
  proof
    assume "\<exists>i<n. P ((if xd < 0 then int n - 1 else 0) + int i * xd)"
    then obtain i where "i < n" "P (int i)" using True by auto
    then have "0 \<le> int i \<and> int i < int n \<and> P (int i)" by simp
    then show "\<exists>x. 0 \<le> x \<and> x < int n \<and> P x" by blast
  next
    assume "\<exists>x. 0 \<le> x \<and> x < int n \<and> P x"
    then obtain x where x: "0 \<le> x" "x < int n" "P x" by blast
    then have "nat x < n" "P ((if xd < 0 then int n - 1 else 0) + int (nat x) * xd)"
      using True by simp_all
    then show "\<exists>i<n. P ((if xd < 0 then int n - 1 else 0) + int i * xd)" by blast
  qed
next
  case False
  then have xd: "xd = - 1" using assms by simp
  show ?thesis
  proof
    assume "\<exists>i<n. P ((if xd < 0 then int n - 1 else 0) + int i * xd)"
    then obtain i where i: "i < n" "P (int n - 1 - int i)" using xd by auto
    then have "0 \<le> int n - 1 - int i \<and> int n - 1 - int i < int n \<and> P (int n - 1 - int i)" by simp
    then show "\<exists>x. 0 \<le> x \<and> x < int n \<and> P x" by blast
  next
    assume "\<exists>x. 0 \<le> x \<and> x < int n \<and> P x"
    then obtain x where x: "0 \<le> x" "x < int n" "P x" by blast
    have "int (nat (int n - 1 - x)) = int n - 1 - x" using x by simp
    then have "(if xd < 0 then int n - 1 else 0) + int (nat (int n - 1 - x)) * xd = x"
      using xd by simp
    moreover have "nat (int n - 1 - x) < n" using x by simp
    ultimately show "\<exists>i<n. P ((if xd < 0 then int n - 1 else 0) + int i * xd)"
      using x(3) by metis
  qed
qed

lemma row_step_empty:
  assumes cs: "contours shp = []" and wc: "writesConstant conv d0 K ch"
      and inv: "scanlineEmpty c" "emptyShapeDistance c = d0"
      and xd: "xd = 1 \<or> xd = - 1"
  shows "\<exists>c' p'. row_step shp tr conv (int wn) (int ch) 1 0 row (xd, c, p) = (- xd, c', p')
           \<and> scanlineEmpty c' \<and> emptyShapeDistance c' = d0 \<and> length p' = length p
           \<and> (\<forall>j < length p. p' ! j =
                 (if int row * int wn * int ch \<le> int j \<and> int j < (int row + 1) * int wn * int ch
                  then K else p ! j))"
proof -
  let ?x0 = "if xd < 0 then int wn - 1 else 0"
  obtain c' p' where
    f: "fold (col_step shp tr conv (int wn) (int ch) (int row) xd) [0..<wn] (?x0, c, p)
        = (?x0 + int wn * xd, c', p')"
    and i1: "scanlineEmpty c'" "emptyShapeDistance c' = d0" and l: "length p' = length p"
    and v: "\<forall>j < length p. p' ! j =
                 (if \<exists>i<wn. (int row * int wn + (?x0 + int i * xd)) * int ch \<le> int j
                          \<and> int j < (int row * int wn + (?x0 + int i * xd)) * int ch + int ch
                  then K else p ! j)"
    using col_fold_empty [OF cs wc inv, of tr "int wn" "int row" xd wn ?x0 p] by blast
  have r: "row_step shp tr conv (int wn) (int ch) 1 0 row (xd, c, p) = (- xd, c', p')"
    using f by (simp add: row_step_def Let_def)
  have v': "\<forall>j < length p. p' ! j =
                 (if int row * int wn * int ch \<le> int j \<and> int j < (int row + 1) * int wn * int ch
                  then K else p ! j)"
  proof (intro allI impI)
    fix j assume j: "j < length p"
    have "(\<exists>i<wn. (int row * int wn + (?x0 + int i * xd)) * int ch \<le> int j
                          \<and> int j < (int row * int wn + (?x0 + int i * xd)) * int ch + int ch)
          \<longleftrightarrow> (\<exists>x. 0 \<le> x \<and> x < int wn \<and> (int row * int wn + x) * int ch \<le> int j
                          \<and> int j < (int row * int wn + x) * int ch + int ch)"
      by (rule serpentine_cover [OF xd, of wn
            "\<lambda>x. (int row * int wn + x) * int ch \<le> int j \<and> int j < (int row * int wn + x) * int ch + int ch"])
    also have "\<dots> \<longleftrightarrow> (int row * int wn * int ch \<le> int j \<and> int j < (int row + 1) * int wn * int ch)"
      by (rule row_cover) simp_all
    finally show "p' ! j = (if int row * int wn * int ch \<le> int j \<and> int j < (int row + 1) * int wn * int ch
                  then K else p ! j)"
      using v [rule_format, OF j] by simp
  qed
  show ?thesis
  proof (intro exI conjI)
    show "row_step shp tr conv (int wn) (int ch) 1 0 row (xd, c, p) = (- xd, c', p')" by (rule r)
    show "scanlineEmpty c'" by (rule i1)
    show "emptyShapeDistance c' = d0" by (rule i1)
    show "length p' = length p" by (rule l)
    show "\<forall>j < length p. p' ! j =
                 (if int row * int wn * int ch \<le> int j \<and> int j < (int row + 1) * int wn * int ch
                  then K else p ! j)" by (rule v')
  qed
qed

lemma row_fold_empty:
  assumes cs: "contours shp = []" and wc: "writesConstant conv d0 K ch"
      and inv: "scanlineEmpty c" "emptyShapeDistance c = d0"
  shows "\<exists>xd' c' p'. fold (row_step shp tr conv (int wn) (int ch) 1 0) [0..<m] (1, c, p) = (xd', c', p')
           \<and> (xd' = 1 \<or> xd' = - 1)
           \<and> scanlineEmpty c' \<and> emptyShapeDistance c' = d0 \<and> length p' = length p
           \<and> (\<forall>j < length p. p' ! j = (if int j < int m * int wn * int ch then K else p ! j))"
proof (induction m)
  case 0
  show ?case using inv by simp
next
  case (Suc m)
  then obtain xd' c' p' where
    f: "fold (row_step shp tr conv (int wn) (int ch) 1 0) [0..<m] (1, c, p) = (xd', c', p')"
    and xd: "xd' = 1 \<or> xd' = - 1"
    and i1: "scanlineEmpty c'" "emptyShapeDistance c' = d0" and l: "length p' = length p"
    and v: "\<forall>j < length p. p' ! j = (if int j < int m * int wn * int ch then K else p ! j)"
    by blast
  obtain c'' p'' where
    r: "row_step shp tr conv (int wn) (int ch) 1 0 m (xd', c', p') = (- xd', c'', p'')"
    and i2: "scanlineEmpty c''" "emptyShapeDistance c'' = d0" and l2: "length p'' = length p'"
    and v2: "\<forall>j < length p'. p'' ! j =
                 (if int m * int wn * int ch \<le> int j \<and> int j < (int m + 1) * int wn * int ch
                  then K else p' ! j)"
    using row_step_empty [OF cs wc i1 xd, of tr wn m p'] by blast
  have r1: "fold (row_step shp tr conv (int wn) (int ch) 1 0) [0..<Suc m] (1, c, p) = (- xd', c'', p'')"
    using f r by simp
  have r2: "- xd' = 1 \<or> - xd' = - 1" using xd by auto
  have r3: "length p'' = length p" using l l2 by simp
  have r4: "\<forall>j < length p. p'' ! j = (if int j < int (Suc m) * int wn * int ch then K else p ! j)"
  proof (intro allI impI)
    fix j assume j: "j < length p"
    define A where "A \<longleftrightarrow> int m * int wn * int ch \<le> int j"
    define B where "B \<longleftrightarrow> int j < (int m + 1) * int wn * int ch"
    have mono: "int m * int wn * int ch \<le> (int m + 1) * int wn * int ch"
      by (simp add: algebra_simps)
    have e1: "p'' ! j = (if A \<and> B then K else p' ! j)"
      using v2 [rule_format, of j] j l unfolding A_def B_def by simp
    have e2: "p' ! j = (if \<not> A then K else p ! j)"
      using v [rule_format, OF j] unfolding A_def by auto
    have e3: "\<not> A \<Longrightarrow> B" using mono unfolding A_def B_def by linarith
    have "p'' ! j = (if B then K else p ! j)" unfolding e1 e2 using e3 by auto
    then show "p'' ! j = (if int j < int (Suc m) * int wn * int ch then K else p ! j)"
      unfolding B_def by (simp add: algebra_simps)
  qed
  show ?case
  proof (intro exI conjI)
    show "fold (row_step shp tr conv (int wn) (int ch) 1 0) [0..<Suc m] (1, c, p) = (- xd', c'', p'')"
      by (rule r1)
    show "- xd' = 1 \<or> - xd' = - 1" by (rule r2)
    show "scanlineEmpty c''" by (rule i2)
    show "emptyShapeDistance c'' = d0" by (rule i2)
    show "length p'' = length p" by (rule r3)
    show "\<forall>j < length p. p'' ! j = (if int j < int (Suc m) * int wn * int ch then K else p ! j)"
      by (rule r4)
  qed
qed

lemma generateDistanceField_empty:
  assumes cs: "contours shp = []" and wc: "writesConstant conv (emptyShapeDistance c) K (bm_channels out)"
      and inv: "scanlineEmpty c"
      and len: "length (bm_pixels out) = bm_channels out * bm_width out * bm_height out"
  shows "bm_pixels (generateDistanceField out shp tr c conv)
         = replicate (bm_channels out * bm_width out * bm_height out) K"
proof -
  obtain xd' c' p' where
    f: "fold (row_step shp tr conv (int (bm_width out)) (int (bm_channels out)) 1 0)
          [0..<bm_height out] (1, c, bm_pixels out) = (xd', c', p')"
    and l: "length p' = length (bm_pixels out)"
    and v: "\<forall>j < length (bm_pixels out). p' ! j
              = (if int j < int (bm_height out) * int (bm_width out) * int (bm_channels out)
                 then K else bm_pixels out ! j)"
    using row_fold_empty [OF cs wc inv refl, of tr "bm_width out" "bm_height out" "bm_pixels out"]
    by blast
  have g: "bm_pixels (generateDistanceField out shp tr c conv) = p'"
    using f by (simp add: generateDistanceField_def Shape_getYAxisOrientation_def Let_def)
  have "p' = replicate (bm_channels out * bm_width out * bm_height out) K"
  proof (rule nth_equalityI)
    show "length p' = length (replicate (bm_channels out * bm_width out * bm_height out) K)"
      using l len by simp
  next
    fix j assume j: "j < length p'"
    then have j': "j < bm_channels out * bm_width out * bm_height out" using l len by simp
    then have "int j < int (bm_height out) * int (bm_width out) * int (bm_channels out)"
      by (metis mult.commute mult.assoc of_nat_mult of_nat_less_iff)
    then have "p' ! j = K" using v j l by simp
    then show "p' ! j = replicate (bm_channels out * bm_width out * bm_height out) K ! j"
      using j' by simp
  qed
  then show ?thesis using g by simp
qed

lemma MAX_VALUE_pos: "0 < MAX_VALUE"
  by (simp add: MAX_VALUE_def)

lemma writesConstant_single:
  "writesConstant (SingleChannelConverter_convert dmap) (DSigned (SignedDistance v t)) (fround (dmap v)) 1"
  by (auto simp: writesConstant_def store_nth)

lemma writesConstant_multi:
  "writesConstant (MultiChannelConverter_convert dmap) (DMulti v v v) (fround (dmap v)) 3"
  by (auto simp: writesConstant_def store_nth)

lemma writesConstant_multi_true:
  "writesConstant (MultiAndTrueChannelConverter_convert dmap) (DMultiAndTrue v v v v) (fround (dmap v)) 4"
  by (auto simp: writesConstant_def store_nth)

lemma flipSign_unfilled_sentinel:
  "flipSign False (DSigned (SignedDistance (- MAX_VALUE) 0)) = DSigned (SignedDistance MAX_VALUE 0)"
  using MAX_VALUE_pos by (simp add: flipSign_def)

lemma MAX_VALUE_significand: "MAX_VALUE = of_int (2 ^ 53 - 1) * 2 powr of_int 971"
proof -
  have "(2::real) powr of_int 971 = 2 ^ 971" by (simp add: powr_realpow [symmetric])
  moreover have "((2::real) ^ 53 - 1) * 2 ^ 971 = 2 ^ 1024 - 2 ^ 971"
  proof -
    have "(2::real) ^ 1024 = 2 ^ 53 * 2 ^ 971" by (simp only: power_add [symmetric]) simp
    then show ?thesis by (simp only: left_diff_distrib mult_1)
  qed
  ultimately show ?thesis by (simp add: MAX_VALUE_def)
qed

lemma round64_MAX_VALUE: "round64 MAX_VALUE = Fin MAX_VALUE"
  unfolding round64_def MAX_VALUE_significand
  by (rule roundTo_representable) simp_all

lemma round64_minus_MAX_VALUE: "round64 (- MAX_VALUE) = Fin (- MAX_VALUE)"
proof -
  have "MAX_VALUE \<noteq> 0" using MAX_VALUE_pos by simp
  then show ?thesis
    unfolding round64_def using roundTo_minus [of MAX_VALUE 53 "- 1022" 1024] round64_MAX_VALUE
    by (simp add: round64_def)
qed

lemma MAX_VALUE_ge: "(2::real) powr of_int 128 \<le> MAX_VALUE"
proof -
  have "(2::real) powr of_int 128 = 2 ^ 128" by (simp add: powr_realpow [symmetric])
  moreover have "(2::real) ^ 128 \<le> 2 ^ 971" by (rule power_increasing) simp_all
  moreover have "(2::real) ^ 971 \<le> 2 ^ 1024 - 2 ^ 971"
  proof -
    have "(2::real) ^ 972 \<le> 2 ^ 1024" by (rule power_increasing) simp_all
    moreover have "(2::real) ^ 972 = 2 * 2 ^ 971" by (simp only: power_Suc [symmetric]) simp
    ultimately show ?thesis by linarith
  qed
  ultimately show ?thesis unfolding MAX_VALUE_def by linarith
qed

lemma fround_MAX_VALUE: "fround (Fin MAX_VALUE) = PosInf"
  using MAX_VALUE_ge by (simp add: round32_def roundTo_overflow)

lemma fround_minus_MAX_VALUE: "fround (Fin (- MAX_VALUE)) = NegInf"
proof -
  have "MAX_VALUE \<noteq> 0" using MAX_VALUE_pos by simp
  then have "round32 (- MAX_VALUE) = num_neg (round32 MAX_VALUE)"
    unfolding round32_def by (rule roundTo_minus)
  then show ?thesis using fround_MAX_VALUE by simp
qed


lemma map_identity_MAX_VALUE:
  "DistanceMapping_map DistanceMapping_identity (Fin MAX_VALUE) = Fin MAX_VALUE"
  using MAX_VALUE_pos
  by (simp add: DistanceMapping_map_def DistanceMapping_identity_def num_add_def num_mul_def
      round64_MAX_VALUE)

lemma map_identity_minus_MAX_VALUE:
  "DistanceMapping_map DistanceMapping_identity (Fin (- MAX_VALUE)) = Fin (- MAX_VALUE)"
  using MAX_VALUE_pos
  by (simp add: DistanceMapping_map_def DistanceMapping_identity_def num_add_def num_mul_def
      round64_minus_MAX_VALUE)

text \<open>
  C8 (amended). On a shape without contours every generator returns with every pixel
  written. What a pixel holds is the sentinel, mapped in double arithmetic and rounded to
  single precision by the store. With \<open>overlapSupport = false\<close> the sentinel is the reset
  value \<open>- MAX_VALUE\<close> for each of the four generators; with \<open>overlapSupport = true\<close> it is
  \<open>+ MAX_VALUE\<close> for \<open>generateSDF\<close> and \<open>generatePSDF\<close>, the reset value with its sign
  corrected for an unfilled point, and \<open>generateMSDF\<close> and \<open>generateMTSDF\<close> write one value to
  every channel of every pixel.
\<close>

theorem generators_empty_shape:
  assumes "contours shp = []"
  shows "(bm_channels out = 1 \<and> length (bm_pixels out) = bm_width out * bm_height out \<longrightarrow>
            bm_pixels (generateSDF out shp tr False)
              = replicate (bm_width out * bm_height out)
                  (fround (DistanceMapping_map (distanceMapping tr) (Fin (- MAX_VALUE))))
          \<and> bm_pixels (generatePSDF out shp tr False)
              = replicate (bm_width out * bm_height out)
                  (fround (DistanceMapping_map (distanceMapping tr) (Fin (- MAX_VALUE))))
          \<and> bm_pixels (generateSDF out shp tr True)
              = replicate (bm_width out * bm_height out)
                  (fround (DistanceMapping_map (distanceMapping tr) (Fin MAX_VALUE)))
          \<and> bm_pixels (generatePSDF out shp tr True)
              = replicate (bm_width out * bm_height out)
                  (fround (DistanceMapping_map (distanceMapping tr) (Fin MAX_VALUE))))
       \<and> (bm_channels out = 3 \<and> length (bm_pixels out) = 3 * bm_width out * bm_height out \<longrightarrow>
            bm_pixels (generateMSDF out shp tr False)
              = replicate (3 * bm_width out * bm_height out)
                  (fround (DistanceMapping_map (distanceMapping tr) (Fin (- MAX_VALUE))))
          \<and> (\<exists>v. bm_pixels (generateMSDF out shp tr True)
                  = replicate (3 * bm_width out * bm_height out) v))
       \<and> (bm_channels out = 4 \<and> length (bm_pixels out) = 4 * bm_width out * bm_height out \<longrightarrow>
            bm_pixels (generateMTSDF out shp tr False)
              = replicate (4 * bm_width out * bm_height out)
                  (fround (DistanceMapping_map (distanceMapping tr) (Fin (- MAX_VALUE))))
          \<and> (\<exists>v. bm_pixels (generateMTSDF out shp tr True)
                  = replicate (4 * bm_width out * bm_height out) v))"
proof (intro conjI impI)
  assume h: "bm_channels out = 1 \<and> length (bm_pixels out) = bm_width out * bm_height out"
  then have len: "length (bm_pixels out) = bm_channels out * bm_width out * bm_height out" by simp
  let ?m = "\<lambda>distance. DistanceMapping_map (distanceMapping tr) (Fin distance)"
  show "bm_pixels (generateSDF out shp tr False)
      = replicate (bm_width out * bm_height out) (fround (?m (- MAX_VALUE)))"
    using generateDistanceField_empty [OF assms _ _ len, of "SingleChannelConverter_convert ?m"
        "createCombiner False (TrueDistanceSelector (SignedDistance (- MAX_VALUE) 0))"
        "fround (?m (- MAX_VALUE))" tr]
      writesConstant_single [of ?m "- MAX_VALUE" 0] h
    by (simp add: generateSDF_def createCombiner_def)
  show "bm_pixels (generatePSDF out shp tr False)
      = replicate (bm_width out * bm_height out) (fround (?m (- MAX_VALUE)))"
    using generateDistanceField_empty [OF assms _ _ len, of "SingleChannelConverter_convert ?m"
        "createCombiner False (PerpendicularDistanceSelector (SignedDistance (- MAX_VALUE) 0))"
        "fround (?m (- MAX_VALUE))" tr]
      writesConstant_single [of ?m "- MAX_VALUE" 0] h
    by (simp add: generatePSDF_def createCombiner_def)
  show "bm_pixels (generateSDF out shp tr True)
      = replicate (bm_width out * bm_height out) (fround (?m MAX_VALUE))"
    using generateDistanceField_empty [OF assms _ _ len, of "SingleChannelConverter_convert ?m"
        "createCombiner True (TrueDistanceSelector (SignedDistance (- MAX_VALUE) 0))"
        "fround (?m MAX_VALUE)" tr]
      writesConstant_single [of ?m "MAX_VALUE" 0] h flipSign_unfilled_sentinel
    by (simp add: generateSDF_def createCombiner_def OverlappingContourCombiner_new_def Scanline_new_def)
  show "bm_pixels (generatePSDF out shp tr True)
      = replicate (bm_width out * bm_height out) (fround (?m MAX_VALUE))"
    using generateDistanceField_empty [OF assms _ _ len, of "SingleChannelConverter_convert ?m"
        "createCombiner True (PerpendicularDistanceSelector (SignedDistance (- MAX_VALUE) 0))"
        "fround (?m MAX_VALUE)" tr]
      writesConstant_single [of ?m "MAX_VALUE" 0] h flipSign_unfilled_sentinel
    by (simp add: generatePSDF_def createCombiner_def OverlappingContourCombiner_new_def Scanline_new_def)
next
  assume h: "bm_channels out = 3 \<and> length (bm_pixels out) = 3 * bm_width out * bm_height out"
  then have len: "length (bm_pixels out) = bm_channels out * bm_width out * bm_height out" by simp
  let ?m = "\<lambda>distance. DistanceMapping_map (distanceMapping tr) (Fin distance)"
  show "bm_pixels (generateMSDF out shp tr False)
      = replicate (3 * bm_width out * bm_height out) (fround (?m (- MAX_VALUE)))"
    using generateDistanceField_empty [OF assms _ _ len, of "MultiChannelConverter_convert ?m"
        "createCombiner False (MultiDistanceSelector (SignedDistance (- MAX_VALUE) 0)
           (SignedDistance (- MAX_VALUE) 0) (SignedDistance (- MAX_VALUE) 0))"
        "fround (?m (- MAX_VALUE))" tr]
      writesConstant_multi [of ?m "- MAX_VALUE"] h
    by (simp add: generateMSDF_def createCombiner_def)
  have "bm_pixels (generateMSDF out shp tr True)
      = replicate (3 * bm_width out * bm_height out) (fround (?m (- MAX_VALUE)))"
    using generateDistanceField_empty [OF assms _ _ len, of "MultiChannelConverter_convert ?m"
        "createCombiner True (MultiDistanceSelector (SignedDistance (- MAX_VALUE) 0)
           (SignedDistance (- MAX_VALUE) 0) (SignedDistance (- MAX_VALUE) 0))"
        "fround (?m (- MAX_VALUE))" tr]
      writesConstant_multi [of ?m "- MAX_VALUE"] h
    by (simp add: generateMSDF_def createCombiner_def OverlappingContourCombiner_new_def Scanline_new_def)
  then show "\<exists>v. bm_pixels (generateMSDF out shp tr True)
      = replicate (3 * bm_width out * bm_height out) v" by (rule exI)
next
  assume h: "bm_channels out = 4 \<and> length (bm_pixels out) = 4 * bm_width out * bm_height out"
  then have len: "length (bm_pixels out) = bm_channels out * bm_width out * bm_height out" by simp
  let ?m = "\<lambda>distance. DistanceMapping_map (distanceMapping tr) (Fin distance)"
  show "bm_pixels (generateMTSDF out shp tr False)
      = replicate (4 * bm_width out * bm_height out) (fround (?m (- MAX_VALUE)))"
    using generateDistanceField_empty [OF assms _ _ len, of "MultiAndTrueChannelConverter_convert ?m"
        "createCombiner False (MultiAndTrueDistanceSelector (SignedDistance (- MAX_VALUE) 0)
           (SignedDistance (- MAX_VALUE) 0) (SignedDistance (- MAX_VALUE) 0) (SignedDistance (- MAX_VALUE) 0))"
        "fround (?m (- MAX_VALUE))" tr]
      writesConstant_multi_true [of ?m "- MAX_VALUE"] h
    by (simp add: generateMTSDF_def createCombiner_def)
  have "bm_pixels (generateMTSDF out shp tr True)
      = replicate (4 * bm_width out * bm_height out) (fround (?m (- MAX_VALUE)))"
    using generateDistanceField_empty [OF assms _ _ len, of "MultiAndTrueChannelConverter_convert ?m"
        "createCombiner True (MultiAndTrueDistanceSelector (SignedDistance (- MAX_VALUE) 0)
           (SignedDistance (- MAX_VALUE) 0) (SignedDistance (- MAX_VALUE) 0) (SignedDistance (- MAX_VALUE) 0))"
        "fround (?m (- MAX_VALUE))" tr]
      writesConstant_multi_true [of ?m "- MAX_VALUE"] h
    by (simp add: generateMTSDF_def createCombiner_def OverlappingContourCombiner_new_def Scanline_new_def)
  then show "\<exists>v. bm_pixels (generateMTSDF out shp tr True)
      = replicate (4 * bm_width out * bm_height out) v" by (rule exI)
qed


theorem generators_empty_shape_witness:
  "contours \<lparr>contours = [], inverseYAxis = False\<rparr> = []
   \<and> bm_pixels (generateSDF \<lparr>bm_width = 2, bm_height = 2, bm_channels = 1,
                               bm_pixels = [Fin 0, Fin 0, Fin 0, Fin 0]\<rparr>
        \<lparr>contours = [], inverseYAxis = False\<rparr>
        \<lparr>projection = Projection (Vector2 1 1) (Vector2 0 0),
         distanceMapping = DistanceMapping_identity\<rparr> False)
      = [NegInf, NegInf, NegInf, NegInf]
   \<and> bm_pixels (generateSDF \<lparr>bm_width = 2, bm_height = 2, bm_channels = 1,
                               bm_pixels = [Fin 0, Fin 0, Fin 0, Fin 0]\<rparr>
        \<lparr>contours = [], inverseYAxis = False\<rparr>
        \<lparr>projection = Projection (Vector2 1 1) (Vector2 0 0),
         distanceMapping = DistanceMapping_identity\<rparr> True)
      = [PosInf, PosInf, PosInf, PosInf]
   \<and> bm_pixels (generateMSDF \<lparr>bm_width = 1, bm_height = 1, bm_channels = 3,
                                bm_pixels = [Fin 0, Fin 0, Fin 0]\<rparr>
        \<lparr>contours = [], inverseYAxis = False\<rparr>
        \<lparr>projection = Projection (Vector2 1 1) (Vector2 0 0),
         distanceMapping = DistanceMapping_identity\<rparr> False)
      = [NegInf, NegInf, NegInf]
   \<and> bm_pixels (generateMTSDF \<lparr>bm_width = 1, bm_height = 1, bm_channels = 4,
                                 bm_pixels = [Fin 0, Fin 0, Fin 0, Fin 0]\<rparr>
        \<lparr>contours = [], inverseYAxis = False\<rparr>
        \<lparr>projection = Projection (Vector2 1 1) (Vector2 0 0),
         distanceMapping = DistanceMapping_identity\<rparr> False)
      = [NegInf, NegInf, NegInf, NegInf]"
  using generators_empty_shape [of "\<lparr>contours = [], inverseYAxis = False\<rparr>"
          "\<lparr>bm_width = 2, bm_height = 2, bm_channels = 1, bm_pixels = [Fin 0, Fin 0, Fin 0, Fin 0]\<rparr>"
          "\<lparr>projection = Projection (Vector2 1 1) (Vector2 0 0),
            distanceMapping = DistanceMapping_identity\<rparr>"]
        generators_empty_shape [of "\<lparr>contours = [], inverseYAxis = False\<rparr>"
          "\<lparr>bm_width = 1, bm_height = 1, bm_channels = 3, bm_pixels = [Fin 0, Fin 0, Fin 0]\<rparr>"
          "\<lparr>projection = Projection (Vector2 1 1) (Vector2 0 0),
            distanceMapping = DistanceMapping_identity\<rparr>"]
        generators_empty_shape [of "\<lparr>contours = [], inverseYAxis = False\<rparr>"
          "\<lparr>bm_width = 1, bm_height = 1, bm_channels = 4, bm_pixels = [Fin 0, Fin 0, Fin 0, Fin 0]\<rparr>"
          "\<lparr>projection = Projection (Vector2 1 1) (Vector2 0 0),
            distanceMapping = DistanceMapping_identity\<rparr>"]
  by (simp add: map_identity_MAX_VALUE map_identity_minus_MAX_VALUE fround_MAX_VALUE [simplified]
      fround_minus_MAX_VALUE [simplified] numeral_eq_Suc)

text \<open>
  C8 as stated fails for \<open>generateSDF\<close> with the default \<open>overlapSupport = true\<close>. With the
  identity mapping the pixels of an empty shape hold \<open>+Infinity\<close>, the mapped \<open>+ MAX_VALUE\<close> as
  single precision, and not \<open>-Infinity\<close>, which is what the mapped reset value \<open>- MAX_VALUE\<close>
  gives.
\<close>

theorem generateSDF_empty_shape_counterexample:
  "bm_pixels (generateSDF \<lparr>bm_width = 2, bm_height = 2, bm_channels = 1,
                            bm_pixels = [Fin 0, Fin 0, Fin 0, Fin 0]\<rparr>
        \<lparr>contours = [], inverseYAxis = False\<rparr>
        \<lparr>projection = Projection (Vector2 1 1) (Vector2 0 0),
         distanceMapping = DistanceMapping_identity\<rparr> True)
      = [PosInf, PosInf, PosInf, PosInf]
   \<and> fround (DistanceMapping_map DistanceMapping_identity (Fin (- MAX_VALUE))) = NegInf"
proof -
  let ?out = "\<lparr>bm_width = 2, bm_height = 2, bm_channels = 1,
                bm_pixels = [Fin 0, Fin 0, Fin 0, Fin 0]\<rparr>"
  let ?tr = "\<lparr>projection = Projection (Vector2 1 1) (Vector2 0 0),
         distanceMapping = DistanceMapping_identity\<rparr>"
  let ?m = "\<lambda>distance. DistanceMapping_map DistanceMapping_identity (Fin distance)"
  have "bm_pixels (generateDistanceField ?out \<lparr>contours = [], inverseYAxis = False\<rparr> ?tr
          (createCombiner True (TrueDistanceSelector (SignedDistance (- MAX_VALUE) 0)))
          (SingleChannelConverter_convert ?m))
        = replicate (bm_channels ?out * bm_width ?out * bm_height ?out) (fround (?m MAX_VALUE))"
  proof (rule generateDistanceField_empty)
    show "writesConstant (SingleChannelConverter_convert ?m)
            (emptyShapeDistance (createCombiner True (TrueDistanceSelector (SignedDistance (- MAX_VALUE) 0))))
            (fround (?m MAX_VALUE)) (bm_channels ?out)"
      using writesConstant_single [of ?m MAX_VALUE 0]
      by (simp add: createCombiner_def OverlappingContourCombiner_new_def flipSign_unfilled_sentinel)
  qed (simp_all add: createCombiner_def OverlappingContourCombiner_new_def Scanline_new_def)
  moreover have "fround (?m MAX_VALUE) = PosInf"
    unfolding map_identity_MAX_VALUE by (rule fround_MAX_VALUE)
  moreover have "fround (?m (- MAX_VALUE)) = NegInf"
    unfolding map_identity_minus_MAX_VALUE by (rule fround_minus_MAX_VALUE)
  ultimately show ?thesis by (simp add: generateSDF_def numeral_eq_Suc)
qed

subsection \<open>Normalizing the orientation of contours\<close>


lemma shoelace_antisym: "shoelace b a = - shoelace a b"
  by (simp add: shoelace_def algebra_simps)

lemma shoelace_self [simp]: "shoelace a a = 0"
  by (simp add: shoelace_def)

lemma point_reverse: "EdgeSegment_point (EdgeSegment_reverse e) t = EdgeSegment_point e (1 - t)"
  by (cases e) (simp_all add: mixv_def Let_def algebra_simps)

lemma chain_snoc: "xs \<noteq> [] \<Longrightarrow> chain (xs @ [a]) = chain xs + shoelace (last xs) a"
  by (induction xs rule: chain.induct) simp_all

lemma chain_Cons: "xs \<noteq> [] \<Longrightarrow> chain (a # xs) = shoelace a (hd xs) + chain xs"
  by (cases xs) simp_all

lemma chain_rev: "chain (rev xs) = - chain xs"
proof (induction xs)
  case Nil
  then show ?case by simp
next
  case (Cons a xs)
  show ?case
  proof (cases "xs = []")
    case True
    then show ?thesis by simp
  next
    case False
    then have "chain (rev (a # xs)) = chain (rev xs) + shoelace (last (rev xs)) a"
      by (simp add: chain_snoc)
    also have "\<dots> = - chain xs + shoelace (hd xs) a"
      using Cons.IH False by (simp add: last_rev)
    also have "\<dots> = - chain (a # xs)"
      using False by (simp add: chain_Cons shoelace_antisym [of a "hd xs"])
    finally show ?thesis .
  qed
qed

lemma chain_cyclic_reverse:
  assumes "S \<noteq> []"
  shows "chain (last (rev (rotate1 S)) # rev (rotate1 S)) = - chain (last S # S)"
proof -
  obtain x T where S: "S = x # T" using assms by (cases S) auto
  show ?thesis
  proof (cases "T = []")
    case True
    then show ?thesis using S by simp
  next
    case False
    have l: "chain (x # rev T @ [x]) = chain (x # rev T) + shoelace (hd T) x"
      using chain_snoc [of "x # rev T" x] False by (simp add: last_rev)
    have r: "chain (x # T @ [x]) = chain (x # T) + shoelace (last T) x"
      using chain_snoc [of "x # T" x] False by simp
    have "chain (rev (x # T @ [x])) = - chain (x # T @ [x])" by (rule chain_rev)
    then have e: "chain (x # rev T) + shoelace (hd T) x = - (chain (x # T) + shoelace (last T) x)"
      using l r by simp
    have "chain (last (rev (rotate1 S)) # rev (rotate1 S)) = chain (hd T # x # rev T)"
      using S False by (simp add: last_rev)
    also have "\<dots> = shoelace (hd T) x + chain (x # rev T)" by simp
    also have "\<dots> = - (chain (x # T) + shoelace (last T) x)" using e by simp
    also have "\<dots> = - chain (last T # x # T)" by simp
    also have "\<dots> = - chain (last S # S)" using S False by simp
    finally show ?thesis .
  qed
qed

lemma winding_loop_Some:
  "winding_loop (map Some es) prev acc
   = Inr (acc + chain (prev # map (\<lambda>e. EdgeSegment_point e 0) es))"
proof (induction es arbitrary: prev acc)
  case Nil
  then show ?case by simp
next
  case (Cons e es)
  then show ?case by (cases es) (simp_all add: EdgeHolder_get_def Let_def)
qed

lemma those_map_Some [simp]: "those (map Some es) = Some es"
  by (induction es) simp_all

lemma those_Some_D: "those c = Some es \<Longrightarrow> c = map Some es"
proof (induction c arbitrary: es)
  case Nil
  then show ?case by simp
next
  case (Cons h c)
  then show ?case by (cases h; cases "those c") auto
qed


lemma closedContour_D:
  assumes "closedContour c"
  obtains es where "c = map Some es"
    "map (\<lambda>e. EdgeSegment_point e 1) es = rotate1 (map (\<lambda>e. EdgeSegment_point e 0) es)"
  using assms those_Some_D unfolding closedContour_def by (auto split: option.splits)

lemma Contour_reverse_Some:
  "Contour_reverse (map Some es) = map Some (rev (map EdgeSegment_reverse es))"
  by (simp add: Contour_reverse_def rev_map)

lemma starts_reversed:
  "map (\<lambda>e. EdgeSegment_point e 0) (rev (map EdgeSegment_reverse es))
   = rev (map (\<lambda>e. EdgeSegment_point e 1) es)"
  by (simp add: rev_map point_reverse o_def)

lemma ends_reversed:
  "map (\<lambda>e. EdgeSegment_point e 1) (rev (map EdgeSegment_reverse es))
   = rev (map (\<lambda>e. EdgeSegment_point e 0) es)"
  by (simp add: rev_map point_reverse o_def)

lemma rotate1_rev_rotate1: "rotate1 (rev (rotate1 S)) = rev S"
  by (cases S) simp_all

lemma closedContour_reverse:
  assumes "closedContour c"
  shows "closedContour (Contour_reverse c)"
proof -
  obtain es where c: "c = map Some es"
    and cl: "map (\<lambda>e. EdgeSegment_point e 1) es = rotate1 (map (\<lambda>e. EdgeSegment_point e 0) es)"
    using assms by (rule closedContour_D)
  show ?thesis
    unfolding c Contour_reverse_Some closedContour_def
    by (simp add: starts_reversed ends_reversed cl rotate1_rev_rotate1)
qed

lemma Contour_winding_many:
  assumes "3 \<le> length es"
  shows "Contour_winding (map Some es)
         = Inr (sgn (chain (last (map (\<lambda>e. EdgeSegment_point e 0) es) # map (\<lambda>e. EdgeSegment_point e 0) es)))"
proof -
  have ne: "es \<noteq> []" using assms by auto
  have "map Some es ! (length es - 1) = Some (last es)"
    using ne by (simp add: last_conv_nth)
  then show ?thesis
    using assms ne
    by (simp add: Contour_winding_def EdgeHolder_get_def winding_loop_Some last_map)
qed

lemma Contour_winding_reverse:
  assumes "closedContour c"
  shows "\<exists>w. Contour_winding c = Inr w \<and> Contour_winding (Contour_reverse c) = Inr (- w)"
proof -
  obtain es where c: "c = map Some es"
    and cl: "map (\<lambda>e. EdgeSegment_point e 1) es = rotate1 (map (\<lambda>e. EdgeSegment_point e 0) es)"
    using assms by (rule closedContour_D)
  consider "length es = 0" | "length es = 1" | "length es = 2" | "3 \<le> length es" by linarith
  then show ?thesis
  proof cases
    case 1
    then show ?thesis unfolding c by (simp add: Contour_winding_def Contour_reverse_def)
  next
    case 2
    then obtain e where es: "es = [e]" by (cases es) auto
    have e10: "EdgeSegment_point e 1 = EdgeSegment_point e 0" using cl es by simp
    let ?a = "EdgeSegment_point e 0" and ?b = "EdgeSegment_point e (1 / 3)"
      and ?c = "EdgeSegment_point e (2 / 3)"
    have w: "Contour_winding c = Inr (sgn (shoelace ?a ?b + shoelace ?b ?c + shoelace ?c ?a))"
      unfolding c es by (simp add: Contour_winding_def EdgeHolder_get_def Let_def)
    have "Contour_winding (Contour_reverse c)
          = Inr (sgn (shoelace ?a ?c + shoelace ?c ?b + shoelace ?b ?a))"
      unfolding c es by (simp add: Contour_winding_def Contour_reverse_def EdgeHolder_get_def Let_def
          point_reverse e10)
    also have "shoelace ?a ?c + shoelace ?c ?b + shoelace ?b ?a
               = - (shoelace ?a ?b + shoelace ?b ?c + shoelace ?c ?a)"
      using shoelace_antisym [of ?c ?a] shoelace_antisym [of ?b ?c] shoelace_antisym [of ?a ?b]
      by simp
    also have "sgn (- (shoelace ?a ?b + shoelace ?b ?c + shoelace ?c ?a))
               = - sgn (shoelace ?a ?b + shoelace ?b ?c + shoelace ?c ?a)"
      by (rule sgn_minus)
    finally show ?thesis using w by blast
  next
    case 3
    then obtain e0 e1 where es: "es = [e0, e1]"
      by (cases es; cases "tl es") auto
    have e01: "EdgeSegment_point e0 1 = EdgeSegment_point e1 0"
      and e10: "EdgeSegment_point e1 1 = EdgeSegment_point e0 0" using cl es by simp_all
    let ?a = "EdgeSegment_point e0 0" and ?b = "EdgeSegment_point e0 (1 / 2)"
      and ?c = "EdgeSegment_point e1 0" and ?d = "EdgeSegment_point e1 (1 / 2)"
    have w: "Contour_winding c
             = Inr (sgn (shoelace ?a ?b + shoelace ?b ?c + shoelace ?c ?d + shoelace ?d ?a))"
      unfolding c es by (simp add: Contour_winding_def EdgeHolder_get_def Let_def)
    have "Contour_winding (Contour_reverse c)
          = Inr (sgn (shoelace ?a ?d + shoelace ?d ?c + shoelace ?c ?b + shoelace ?b ?a))"
      unfolding c es by (simp add: Contour_winding_def Contour_reverse_def EdgeHolder_get_def Let_def
          point_reverse e01 e10)
    also have "shoelace ?a ?d + shoelace ?d ?c + shoelace ?c ?b + shoelace ?b ?a
               = - (shoelace ?a ?b + shoelace ?b ?c + shoelace ?c ?d + shoelace ?d ?a)"
      using shoelace_antisym [of ?d ?a] shoelace_antisym [of ?c ?d] shoelace_antisym [of ?b ?c]
            shoelace_antisym [of ?a ?b]
      by simp
    also have "sgn (- (shoelace ?a ?b + shoelace ?b ?c + shoelace ?c ?d + shoelace ?d ?a))
               = - sgn (shoelace ?a ?b + shoelace ?b ?c + shoelace ?c ?d + shoelace ?d ?a)"
      by (rule sgn_minus)
    finally show ?thesis using w by blast
  next
    case 4
    let ?S = "map (\<lambda>e. EdgeSegment_point e 0) es"
    have ne: "?S \<noteq> []" using 4 by auto
    have w: "Contour_winding c = Inr (sgn (chain (last ?S # ?S)))"
      unfolding c by (rule Contour_winding_many [OF 4])
    have "3 \<le> length (rev (map EdgeSegment_reverse es))" using 4 by simp
    then have "Contour_winding (Contour_reverse c)
          = Inr (sgn (chain (last (map (\<lambda>e. EdgeSegment_point e 0) (rev (map EdgeSegment_reverse es)))
                         # map (\<lambda>e. EdgeSegment_point e 0) (rev (map EdgeSegment_reverse es)))))"
      unfolding c Contour_reverse_Some by (rule Contour_winding_many)
    also have "map (\<lambda>e. EdgeSegment_point e 0) (rev (map EdgeSegment_reverse es)) = rev (rotate1 ?S)"
      unfolding starts_reversed cl ..
    also have "chain (last (rev (rotate1 ?S)) # rev (rotate1 ?S)) = - chain (last ?S # ?S)"
      by (rule chain_cyclic_reverse [OF ne])
    also have "sgn (- chain (last ?S # ?S)) = - sgn (chain (last ?S # ?S))"
      by (rule sgn_minus)
    finally show ?thesis using w by blast
  qed
qed


lemma normalize_loop_closed:
  assumes "\<forall>c \<in> set cs. closedContour c"
  shows "\<exists>cs'. normalize_loop cs = Inr cs'
           \<and> (\<forall>c \<in> set cs'. closedContour c \<and> (\<exists>w. Contour_winding c = Inr w \<and> 0 \<le> w))"
  using assms
proof (induction cs)
  case Nil
  then show ?case by simp
next
  case (Cons c cs)
  then obtain cs' where n: "normalize_loop cs = Inr cs'"
    and g: "\<forall>c \<in> set cs'. closedContour c \<and> (\<exists>w. Contour_winding c = Inr w \<and> 0 \<le> w)"
    by auto
  have cl: "closedContour c" using Cons.prems by simp
  obtain w where w: "Contour_winding c = Inr w" and wr: "Contour_winding (Contour_reverse c) = Inr (- w)"
    using Contour_winding_reverse [OF cl] by blast
  let ?c' = "if w < 0 then Contour_reverse c else c"
  have r: "normalize_loop (c # cs) = Inr (?c' # cs')" using n w by simp
  have "closedContour ?c'" using cl closedContour_reverse by simp
  moreover have "\<exists>v. Contour_winding ?c' = Inr v \<and> 0 \<le> v"
  proof (cases "w < 0")
    case True
    then have "Contour_winding ?c' = Inr (- w) \<and> 0 \<le> - w" using wr by simp
    then show ?thesis by blast
  next
    case False
    then have "Contour_winding ?c' = Inr w \<and> 0 \<le> w" using w by simp
    then show ?thesis by blast
  qed
  ultimately have "\<forall>c \<in> set (?c' # cs'). closedContour c \<and> (\<exists>w. Contour_winding c = Inr w \<and> 0 \<le> w)"
    using g by simp
  then show ?case using r by blast
qed

lemma normalize_loop_fixed:
  assumes "\<forall>c \<in> set cs. \<exists>w. Contour_winding c = Inr w \<and> 0 \<le> w"
  shows "normalize_loop cs = Inr cs"
  using assms
proof (induction cs)
  case Nil
  then show ?case by simp
next
  case (Cons c cs)
  then obtain w where "Contour_winding c = Inr w" "0 \<le> w" by auto
  moreover have "normalize_loop cs = Inr cs" using Cons by simp
  ultimately show ?case by simp
qed

text \<open>
  C6 (amended). For a shape whose contours are closed, \<open>normalize\<close> succeeds, a second
  \<open>normalize\<close> changes nothing, every contour then has winding \<open>\<ge> 0\<close>, and reversing a
  contour negates its winding.
\<close>

theorem Shape_normalize_closed:
  assumes "\<forall>c \<in> set (contours s). closedContour c"
  shows "(\<exists>s'. Shape_normalize s = Inr s' \<and> Shape_normalize s' = Inr s'
            \<and> (\<forall>c \<in> set (contours s'). \<exists>w. Contour_winding c = Inr w \<and> 0 \<le> w))
         \<and> (\<forall>c \<in> set (contours s). \<exists>w. Contour_winding c = Inr w
               \<and> Contour_winding (Contour_reverse c) = Inr (- w))"
proof
  obtain cs' where n: "normalize_loop (contours s) = Inr cs'"
    and g: "\<forall>c \<in> set cs'. closedContour c \<and> (\<exists>w. Contour_winding c = Inr w \<and> 0 \<le> w)"
    using normalize_loop_closed [OF assms] by blast
  have g': "\<forall>c \<in> set cs'. \<exists>w. Contour_winding c = Inr w \<and> 0 \<le> w" using g by blast
  have 1: "Shape_normalize s = Inr (s\<lparr>contours := cs'\<rparr>)" using n by (simp add: Shape_normalize_def)
  have 2: "Shape_normalize (s\<lparr>contours := cs'\<rparr>) = Inr (s\<lparr>contours := cs'\<rparr>)"
    using normalize_loop_fixed [OF g'] by (simp add: Shape_normalize_def)
  have 3: "\<forall>c \<in> set (contours (s\<lparr>contours := cs'\<rparr>)). \<exists>w. Contour_winding c = Inr w \<and> 0 \<le> w"
    using g' by simp
  show "\<exists>s'. Shape_normalize s = Inr s' \<and> Shape_normalize s' = Inr s'
            \<and> (\<forall>c \<in> set (contours s'). \<exists>w. Contour_winding c = Inr w \<and> 0 \<le> w)"
    using 1 2 3 by blast
next
  show "\<forall>c \<in> set (contours s). \<exists>w. Contour_winding c = Inr w
               \<and> Contour_winding (Contour_reverse c) = Inr (- w)"
    using assms Contour_winding_reverse by blast
qed

lemma winding_open_triangle:
  "Contour_winding [Some (LinearSegment (Vector2 0 0) (Vector2 5 6) WHITE),
                    Some (LinearSegment (Vector2 1 0) (Vector2 6 5) WHITE),
                    Some (LinearSegment (Vector2 0 1) (Vector2 5 5) WHITE)] = Inr (- 1)"
  by (simp add: Contour_winding_def EdgeHolder_get_def mixv_def shoelace_def Let_def)

lemma winding_open_triangle_reversed:
  "Contour_winding [Some (LinearSegment (Vector2 5 5) (Vector2 0 1) WHITE),
                    Some (LinearSegment (Vector2 6 5) (Vector2 1 0) WHITE),
                    Some (LinearSegment (Vector2 5 6) (Vector2 0 0) WHITE)] = Inr (- 1)"
  by (simp add: Contour_winding_def EdgeHolder_get_def mixv_def shoelace_def Let_def)

text \<open>
  C6 as stated fails on a contour that is not closed: three lines whose start points and
  whose end points both run the same way round. Its winding is \<open>-1\<close>, so \<open>normalize\<close> reverses
  it; the reversed contour has winding \<open>-1\<close> again, and a second \<open>normalize\<close> reverses it back.
\<close>

theorem Shape_normalize_open_contour_counterexample:
  "Shape_normalize \<lparr>contours = [[Some (LinearSegment (Vector2 0 0) (Vector2 5 6) WHITE),
                                 Some (LinearSegment (Vector2 1 0) (Vector2 6 5) WHITE),
                                 Some (LinearSegment (Vector2 0 1) (Vector2 5 5) WHITE)]],
                    inverseYAxis = False\<rparr>
     = Inr \<lparr>contours = [[Some (LinearSegment (Vector2 5 5) (Vector2 0 1) WHITE),
                         Some (LinearSegment (Vector2 6 5) (Vector2 1 0) WHITE),
                         Some (LinearSegment (Vector2 5 6) (Vector2 0 0) WHITE)]],
            inverseYAxis = False\<rparr>
   \<and> Contour_winding [Some (LinearSegment (Vector2 5 5) (Vector2 0 1) WHITE),
                      Some (LinearSegment (Vector2 6 5) (Vector2 1 0) WHITE),
                      Some (LinearSegment (Vector2 5 6) (Vector2 0 0) WHITE)] = Inr (- 1)
   \<and> Shape_normalize \<lparr>contours = [[Some (LinearSegment (Vector2 5 5) (Vector2 0 1) WHITE),
                                   Some (LinearSegment (Vector2 6 5) (Vector2 1 0) WHITE),
                                   Some (LinearSegment (Vector2 5 6) (Vector2 0 0) WHITE)]],
                      inverseYAxis = False\<rparr>
     = Inr \<lparr>contours = [[Some (LinearSegment (Vector2 0 0) (Vector2 5 6) WHITE),
                         Some (LinearSegment (Vector2 1 0) (Vector2 6 5) WHITE),
                         Some (LinearSegment (Vector2 0 1) (Vector2 5 5) WHITE)]],
            inverseYAxis = False\<rparr>"
  using winding_open_triangle winding_open_triangle_reversed
  by (simp add: Shape_normalize_def Contour_reverse_def)

theorem Shape_normalize_closed_witness:
  "closedContour [Some (LinearSegment (Vector2 0 0) (Vector2 1 0) WHITE),
                  Some (LinearSegment (Vector2 1 0) (Vector2 0 1) WHITE),
                  Some (LinearSegment (Vector2 0 1) (Vector2 0 0) WHITE)]
   \<and> Contour_winding [Some (LinearSegment (Vector2 0 0) (Vector2 1 0) WHITE),
                  Some (LinearSegment (Vector2 1 0) (Vector2 0 1) WHITE),
                  Some (LinearSegment (Vector2 0 1) (Vector2 0 0) WHITE)] = Inr (- 1)
   \<and> Shape_normalize \<lparr>contours = [[Some (LinearSegment (Vector2 0 0) (Vector2 1 0) WHITE),
                  Some (LinearSegment (Vector2 1 0) (Vector2 0 1) WHITE),
                  Some (LinearSegment (Vector2 0 1) (Vector2 0 0) WHITE)]], inverseYAxis = False\<rparr>
     = Inr \<lparr>contours = [[Some (LinearSegment (Vector2 0 0) (Vector2 0 1) WHITE),
                  Some (LinearSegment (Vector2 0 1) (Vector2 1 0) WHITE),
                  Some (LinearSegment (Vector2 1 0) (Vector2 0 0) WHITE)]], inverseYAxis = False\<rparr>
   \<and> Shape_normalize \<lparr>contours = [[Some (LinearSegment (Vector2 0 0) (Vector2 0 1) WHITE),
                  Some (LinearSegment (Vector2 0 1) (Vector2 1 0) WHITE),
                  Some (LinearSegment (Vector2 1 0) (Vector2 0 0) WHITE)]], inverseYAxis = False\<rparr>
     = Inr \<lparr>contours = [[Some (LinearSegment (Vector2 0 0) (Vector2 0 1) WHITE),
                  Some (LinearSegment (Vector2 0 1) (Vector2 1 0) WHITE),
                  Some (LinearSegment (Vector2 1 0) (Vector2 0 0) WHITE)]], inverseYAxis = False\<rparr>
   \<and> Contour_winding [Some (LinearSegment (Vector2 0 0) (Vector2 0 1) WHITE),
                  Some (LinearSegment (Vector2 0 1) (Vector2 1 0) WHITE),
                  Some (LinearSegment (Vector2 1 0) (Vector2 0 0) WHITE)] = Inr 1"
  using Shape_normalize_closed [of "\<lparr>contours = [[Some (LinearSegment (Vector2 0 0) (Vector2 1 0) WHITE),
                  Some (LinearSegment (Vector2 1 0) (Vector2 0 1) WHITE),
                  Some (LinearSegment (Vector2 0 1) (Vector2 0 0) WHITE)]], inverseYAxis = False\<rparr>"]
  by (simp add: closedContour_def Shape_normalize_def Contour_reverse_def Contour_winding_def
       EdgeHolder_get_def mixv_def shoelace_def Let_def)

section \<open>The colors assigned by the simple coloring\<close>


lemma color_setColor [simp]: "EdgeSegment_color (EdgeSegment_setColor e c) = c"
  by (cases e) simp_all

lemma cyc_cover:
  fixes m j s :: nat
  assumes "0 < m" "j < m"
  shows "\<exists>i<m. (s + i) mod m = j"
proof -
  let ?i = "(j + (m - s mod m)) mod m"
  have "s mod m < m" using assms by simp
  have "(s + ?i) mod m = (s mod m + ?i) mod m" by (rule mod_add_left_eq [symmetric])
  also have "\<dots> = (s mod m + (j + (m - s mod m))) mod m" by (rule mod_add_right_eq)
  also have "s mod m + (j + (m - s mod m)) = j + m" using \<open>s mod m < m\<close> by simp
  also have "(j + m) mod m = j" using assms by simp
  finally have "(s + ?i) mod m = j" .
  moreover have "?i < m" using assms by simp
  ultimately show ?thesis by blast
qed


lemma seedExtract2_bit: "fst (seedExtract2 seed) = 0 \<or> fst (seedExtract2 seed) = 1"
proof -
  have "seed AND 1 = seed mod 2" by (simp add: and_one_eq)
  moreover have "seed mod 2 = 0 \<or> seed mod 2 = 1" by auto
  ultimately show ?thesis by (auto simp: seedExtract2_def)
qed

lemma switchColor_twoChannel:
  assumes "twoChannel c" "banned = None \<or> banned = Some BLACK \<or> (\<exists>b. banned = Some b \<and> twoChannel b)"
  shows "twoChannel (fst (switchColor seed (Some c) banned)) \<and> fst (switchColor seed (Some c) banned) \<noteq> c
         \<and> (\<forall>b. banned = Some b \<longrightarrow> fst (switchColor seed (Some c) banned) \<noteq> b)"
proof -
  have v: "fst (seedExtract2 seed) = 0 \<or> fst (seedExtract2 seed) = 1" by (rule seedExtract2_bit)
  obtain v s' where vs: "seedExtract2 seed = (v, s')" by (cases "seedExtract2 seed")
  then have v01: "v = 0 \<or> v = 1" using v by simp
  consider "banned = None" | "banned = Some BLACK" | b where "banned = Some b" "twoChannel b"
    using assms(2) by blast
  then show ?thesis
  proof cases
    case 1
    then show ?thesis using assms(1) v01 vs
      by (auto simp: switchColor_def twoChannel_def toInt32_def Let_def)
  next
    case 2
    then show ?thesis using assms(1) v01 vs
      by (auto simp: switchColor_def twoChannel_def toInt32_def Let_def)
  next
    case 3
    then show ?thesis using assms(1) v01 vs
      by (auto simp: switchColor_def twoChannel_def toInt32_def Let_def)
  qed
qed

lemma smod_3_range: "- 3 < (seed::int) smod 3 \<and> seed smod 3 < 3"
proof -
  have "0 \<le> \<bar>seed\<bar> mod 3 \<and> \<bar>seed\<bar> mod 3 < 3" by simp
  then show ?thesis by (auto simp: signed_modulo_int_def sgn_if)
qed

lemma initColor_twoChannel:
  assumes "0 \<le> seed smod 3"
  shows "\<exists>g. fst (initColor seed) = Some g \<and> twoChannel g"
proof -
  have "seed smod 3 < 3" using smod_3_range [of seed] by simp
  then have "seed smod 3 = 0 \<or> seed smod 3 = 1 \<or> seed smod 3 = 2" using assms by linarith
  then show ?thesis
    by (auto simp: initColor_def seedExtract3_def twoChannel_def Let_def)
qed


lemma fold_cyclic_setColor:
  assumes "length es = m" "\<forall>i<m. P (g i)" "n \<le> m"
  shows "length (fold (\<lambda>i es'. es'[(s + i) mod m :=
                   EdgeSegment_setColor (es' ! ((s + i) mod m)) (g i)]) [0..<n] es) = m
         \<and> (\<forall>j<m. (\<exists>i<n. (s + i) mod m = j) \<longrightarrow>
               P (EdgeSegment_color (fold (\<lambda>i es'. es'[(s + i) mod m :=
                   EdgeSegment_setColor (es' ! ((s + i) mod m)) (g i)]) [0..<n] es ! j)))"
  using assms(3)
proof (induction n)
  case 0
  then show ?case using assms(1) by simp
next
  case (Suc n)
  let ?f = "\<lambda>i es'. es'[(s + i) mod m := EdgeSegment_setColor (es' ! ((s + i) mod m)) (g i)]"
  let ?r = "fold ?f [0..<n] es"
  have l: "length ?r = m"
    and v: "\<forall>j<m. (\<exists>i<n. (s + i) mod m = j) \<longrightarrow> P (EdgeSegment_color (?r ! j))"
    using Suc by simp_all
  have r': "fold ?f [0..<Suc n] es = ?r[(s + n) mod m := EdgeSegment_setColor (?r ! ((s + n) mod m)) (g n)]"
    by simp
  have pn: "P (g n)" using assms(2) Suc.prems by simp
  have "\<forall>j<m. (\<exists>i<Suc n. (s + i) mod m = j) \<longrightarrow>
           P (EdgeSegment_color ((?r[(s + n) mod m := EdgeSegment_setColor (?r ! ((s + n) mod m)) (g n)]) ! j))"
  proof (intro allI impI)
    fix j assume j: "j < m" and ex: "\<exists>i<Suc n. (s + i) mod m = j"
    show "P (EdgeSegment_color ((?r[(s + n) mod m := EdgeSegment_setColor (?r ! ((s + n) mod m)) (g n)]) ! j))"
    proof (cases "(s + n) mod m = j")
      case True
      then show ?thesis using pn l j by simp
    next
      case False
      then have "\<exists>i<n. (s + i) mod m = j" using ex less_Suc_eq by auto
      then have "P (EdgeSegment_color (?r ! j))" using v j by blast
      then show ?thesis using False by simp
    qed
  qed
  then show ?case unfolding r' using l by simp
qed

lemma teardropSpread_colors:
  assumes "3 \<le> length es"
  shows "length (teardropSpread es corner [c0, WHITE, c2]) = length es
         \<and> (\<forall>e \<in> set (teardropSpread es corner [c0, WHITE, c2]).
               EdgeSegment_color e = c0 \<or> EdgeSegment_color e = WHITE \<or> EdgeSegment_color e = c2)"
proof -
  let ?m = "length es"
  let ?g = "\<lambda>i. [c0, WHITE, c2] ! nat (1 + symmetricalTrichotomy (int i) (int ?m))"
  let ?P = "\<lambda>c. c = c0 \<or> c = WHITE \<or> c = c2"
  have g: "\<forall>i<?m. ?P (?g i)"
  proof (intro allI impI)
    fix i assume "i < ?m"
    then have "symmetricalTrichotomy (int i) (int ?m) \<in> {- 1, 0, 1}"
      using assms by (intro symmetricalTrichotomy_range) simp_all
    then show "?P (?g i)" by auto
  qed
  have r: "teardropSpread es corner [c0, WHITE, c2]
        = fold (\<lambda>i es'. es'[(corner + i) mod ?m :=
                   EdgeSegment_setColor (es' ! ((corner + i) mod ?m)) (?g i)]) [0..<?m] es"
    by (simp add: teardropSpread_def Let_def)
  have f: "length (teardropSpread es corner [c0, WHITE, c2]) = ?m
      \<and> (\<forall>j<?m. (\<exists>i<?m. (corner + i) mod ?m = j) \<longrightarrow>
             ?P (EdgeSegment_color (teardropSpread es corner [c0, WHITE, c2] ! j)))"
    unfolding r by (rule fold_cyclic_setColor [where P = ?P]) (use g in simp_all)
  have "\<forall>e \<in> set (teardropSpread es corner [c0, WHITE, c2]). ?P (EdgeSegment_color e)"
  proof
    fix e assume "e \<in> set (teardropSpread es corner [c0, WHITE, c2])"
    then obtain j where j: "j < ?m" "e = teardropSpread es corner [c0, WHITE, c2] ! j"
      using f by (metis in_set_conv_nth)
    have "0 < ?m" using assms by (cases es) simp_all
    then have "\<exists>i<?m. (corner + i) mod ?m = j" using j(1) by (rule cyc_cover)
    then show "?P (EdgeSegment_color e)" using f j by blast
  qed
  then show ?thesis using f by blast
qed

lemma findCorners_bound:
  "k \<in> set (findCorners es d i ct) \<Longrightarrow> i \<le> k \<and> k < i + length es"
proof (induction es arbitrary: d i)
  case Nil
  then show ?case by simp
next
  case (Cons e es)
  then show ?case by (fastforce split: if_splits)
qed

lemma contourCorners_bound:
  "k \<in> set (contourCorners ct es) \<Longrightarrow> k < length es"
  using findCorners_bound [of k es _ 0 ct] by (simp add: contourCorners_def)


lemma teardropSplit_one:
  "teardropSplit [e] 0 [c0, c1, c2] =
     (case EdgeSegment_splitInThirds e of (a0, a1, a2) \<Rightarrow>
        [EdgeSegment_setColor a0 c0, EdgeSegment_setColor a1 c1, EdgeSegment_setColor a2 c2])"
  by (simp add: teardropSplit_def splitParts_def setPartColor_def Let_def numeral_eq_Suc
      split: prod.splits)

lemma teardropSplit_two_0:
  "teardropSplit [e0, e1] 0 [c0, c1, c2] =
     (case EdgeSegment_splitInThirds e0 of (a0, a1, a2) \<Rightarrow>
      case EdgeSegment_splitInThirds e1 of (b0, b1, b2) \<Rightarrow>
        [EdgeSegment_setColor a0 c0, EdgeSegment_setColor a1 c0, EdgeSegment_setColor a2 c1,
         EdgeSegment_setColor b0 c1, EdgeSegment_setColor b1 c2, EdgeSegment_setColor b2 c2])"
  by (simp add: teardropSplit_def splitParts_def setPartColor_def Let_def numeral_eq_Suc
      split: prod.splits)

lemma teardropSplit_two_1:
  "teardropSplit [e0, e1] (Suc 0) [c0, c1, c2] =
     (case EdgeSegment_splitInThirds e0 of (a0, a1, a2) \<Rightarrow>
      case EdgeSegment_splitInThirds e1 of (b0, b1, b2) \<Rightarrow>
        [EdgeSegment_setColor b0 c0, EdgeSegment_setColor b1 c0, EdgeSegment_setColor b2 c1,
         EdgeSegment_setColor a0 c1, EdgeSegment_setColor a1 c2, EdgeSegment_setColor a2 c2])"
  by (simp add: teardropSplit_def splitParts_def setPartColor_def Let_def numeral_eq_Suc
      split: prod.splits)

lemma teardropSplit_colors:
  assumes "length es < 3" "corner < length es"
  shows "\<forall>e \<in> set (teardropSplit es corner [c0, c1, c2]).
           EdgeSegment_color e = c0 \<or> EdgeSegment_color e = c1 \<or> EdgeSegment_color e = c2"
proof -
  consider e where "es = [e]" "corner = 0" | e0 e1 where "es = [e0, e1]" "corner = 0"
    | e0 e1 where "es = [e0, e1]" "corner = 1"
  proof -
    have "length es = 1 \<or> length es = 2" using assms by linarith
    then show ?thesis
    proof
      assume "length es = 1"
      then obtain e where "es = [e]" by (cases es) auto
      then show ?thesis using assms that(1) by simp
    next
      assume l: "length es = 2"
      then obtain e0 e1 where e: "es = [e0, e1]" by (cases es; cases "tl es") auto
      have "corner = 0 \<or> corner = 1" using assms l by linarith
      then show ?thesis using e that(2,3) by blast
    qed
  qed
  then show ?thesis
  proof cases
    case 1
    then show ?thesis by (auto simp: teardropSplit_one split: prod.splits)
  next
    case 2
    then show ?thesis by (auto simp: teardropSplit_two_0 split: prod.splits)
  next
    case 3
    then show ?thesis by (auto simp: teardropSplit_two_1 split: prod.splits)
  qed
qed


lemma multiStep_keep:
  assumes "\<not> (spline + 1 < length corners \<and> corners ! (spline + 1) = (start + i) mod m)"
  shows "multiStep corners start m initialColor i (spline, c, seed, es)
         = (spline, c, seed, es[(start + i) mod m := EdgeSegment_setColor (es ! ((start + i) mod m)) c])"
  unfolding multiStep_def Let_def case_prod_beta if_not_P [OF assms] fst_conv snd_conv ..

lemma multiStep_switch:
  assumes "spline + 1 < length corners \<and> corners ! (spline + 1) = (start + i) mod m"
    and "switchColor seed (Some c)
           (Some (if spline + 1 = length corners - 1 then initialColor else BLACK)) = (c1, seed1)"
  shows "multiStep corners start m initialColor i (spline, c, seed, es)
         = (spline + 1, c1, seed1, es[(start + i) mod m := EdgeSegment_setColor (es ! ((start + i) mod m)) c1])"
  unfolding multiStep_def Let_def case_prod_beta if_P [OF assms(1)] assms(2) fst_conv snd_conv ..

lemma multiStep_invariant:
  assumes "twoChannel initialColor" "twoChannel c" "length es = m" "0 < m"
  shows "case multiStep corners start m initialColor i (spline, c, seed, es) of
           (spline', c', seed', es') \<Rightarrow>
             twoChannel c' \<and> length es' = m
             \<and> es' = es[(start + i) mod m := EdgeSegment_setColor (es ! ((start + i) mod m)) c']"
proof (cases "spline + 1 < length corners \<and> corners ! (spline + 1) = (start + i) mod m")
  case False
  show ?thesis unfolding multiStep_keep [OF False] using assms by simp
next
  case True
  let ?b = "if spline + 1 = length corners - 1 then initialColor else BLACK"
  obtain c1 seed1 where sw: "switchColor seed (Some c) (Some ?b) = (c1, seed1)"
    by (cases "switchColor seed (Some c) (Some ?b)")
  have "?b = BLACK \<or> twoChannel ?b" using assms(1) by simp
  then have "twoChannel (fst (switchColor seed (Some c) (Some ?b)))"
    using switchColor_twoChannel [of c "Some ?b" seed] assms(2) by auto
  then have "twoChannel c1" using sw by simp
  then show ?thesis unfolding multiStep_switch [OF True sw] using assms(3) by simp
qed

lemma multi_fold_colors:
  assumes "twoChannel initialColor" "twoChannel c" "length es = m" "0 < m" "n \<le> m"
  shows "case fold (multiStep corners start m initialColor) [0..<n] (spline, c, seed, es) of
           (spline', c', seed', es') \<Rightarrow>
             twoChannel c' \<and> length es' = m
             \<and> (\<forall>j<m. (\<exists>i<n. (start + i) mod m = j) \<longrightarrow> twoChannel (EdgeSegment_color (es' ! j)))"
  using assms(5)
proof (induction n)
  case 0
  then show ?case using assms by simp
next
  case (Suc n)
  obtain sp1 c1 seed1 es1 where
    f: "fold (multiStep corners start m initialColor) [0..<n] (spline, c, seed, es) = (sp1, c1, seed1, es1)"
    by (metis prod_cases4)
  have g1: "twoChannel c1" and l1: "length es1 = m"
    and v1: "\<forall>j<m. (\<exists>i<n. (start + i) mod m = j) \<longrightarrow> twoChannel (EdgeSegment_color (es1 ! j))"
    using Suc f by simp_all
  obtain sp2 c2 seed2 es2 where
    s: "multiStep corners start m initialColor n (sp1, c1, seed1, es1) = (sp2, c2, seed2, es2)"
    by (metis prod_cases4)
  have g2: "twoChannel c2" and l2: "length es2 = m"
    and e2: "es2 = es1[(start + n) mod m := EdgeSegment_setColor (es1 ! ((start + n) mod m)) c2]"
    using multiStep_invariant [OF assms(1) g1 l1 assms(4), where corners = corners and start = start
        and i = n and spline = sp1 and seed = seed1] s l1 by simp_all
  have "\<forall>j<m. (\<exists>i<Suc n. (start + i) mod m = j) \<longrightarrow> twoChannel (EdgeSegment_color (es2 ! j))"
  proof (intro allI impI)
    fix j assume j: "j < m" and ex: "\<exists>i<Suc n. (start + i) mod m = j"
    show "twoChannel (EdgeSegment_color (es2 ! j))"
    proof (cases "(start + n) mod m = j")
      case True
      then show ?thesis using e2 g2 l1 j by simp
    next
      case False
      then have "\<exists>i<n. (start + i) mod m = j" using ex less_Suc_eq by auto
      then have "twoChannel (EdgeSegment_color (es1 ! j))" using v1 j by blast
      then show ?thesis using e2 False by simp
    qed
  qed
  moreover have "fold (multiStep corners start m initialColor) [0..<Suc n] (spline, c, seed, es)
      = (sp2, c2, seed2, es2)" using f s by simp
  ultimately show ?case using g2 l2 by simp
qed



lemma twoChannel_visible: "twoChannel c \<Longrightarrow> visible c"
  by (auto simp: twoChannel_def visible_def)

lemma switchColor_twoChannel_fst:
  assumes "twoChannel c" "switchColor seed (Some c) None = (c1, seed1)"
  shows "twoChannel c1"
  using switchColor_twoChannel [OF assms(1), of None seed] assms(2) by simp

lemma simpleContour_colors:
  assumes "twoChannel c" "es \<noteq> []"
  shows "case simpleContour ct (seed, Some c) es of
           ((seed', c'), es') \<Rightarrow>
              (\<exists>g. c' = Some g \<and> twoChannel g) \<and> (\<forall>e \<in> set es'. visible (EdgeSegment_color e))"
proof -
  let ?corners = "contourCorners ct es"
  obtain c1 seed1 where sw1: "switchColor seed (Some c) None = (c1, seed1)"
    by (cases "switchColor seed (Some c) None")
  have g1: "twoChannel c1" using assms(1) sw1 by (rule switchColor_twoChannel_fst)
  consider "length ?corners = 0" | "length ?corners = 1" | "2 \<le> length ?corners" by linarith
  then show ?thesis
  proof cases
    case 1
    then show ?thesis using sw1 g1 by (simp add: simpleContour_def Let_def twoChannel_visible)
  next
    case 2
    obtain c2 seed2 where sw2: "switchColor seed1 (Some c1) None = (c2, seed2)"
      by (cases "switchColor seed1 (Some c1) None")
    have g2: "twoChannel c2" using g1 sw2 by (rule switchColor_twoChannel_fst)
    have "?corners ! 0 \<in> set ?corners" using 2 by (intro nth_mem) simp
    then have cb: "?corners ! 0 < length es" by (rule contourCorners_bound)
    have ne: "?corners \<noteq> []" using 2 by auto
    let ?P = "\<lambda>e. EdgeSegment_color e = c1 \<or> EdgeSegment_color e = WHITE \<or> EdgeSegment_color e = c2"
    have v: "\<And>e. ?P e \<Longrightarrow> visible (EdgeSegment_color e)"
      using g1 g2 by (auto simp: twoChannel_def visible_def)
    show ?thesis
    proof (cases "3 \<le> length es")
      case True
      have "\<forall>e \<in> set (teardropSpread es (?corners ! 0) [c1, WHITE, c2]). ?P e"
        using teardropSpread_colors [OF True] by blast
      then have "\<forall>e \<in> set (teardropSpread es (?corners ! 0) [c1, WHITE, c2]). visible (EdgeSegment_color e)"
        using v by blast
      then show ?thesis using 2 ne sw1 sw2 g2 True by (simp add: simpleContour_def Let_def)
    next
      case False
      then have "length es < 3" by simp
      then have "\<forall>e \<in> set (teardropSplit es (?corners ! 0) [c1, WHITE, c2]). ?P e"
        using cb by (rule teardropSplit_colors)
      then have "\<forall>e \<in> set (teardropSplit es (?corners ! 0) [c1, WHITE, c2]). visible (EdgeSegment_color e)"
        using v by blast
      then show ?thesis using 2 ne sw1 sw2 g2 False by (simp add: simpleContour_def Let_def)
    qed
  next
    case 3
    let ?m = "length es"
    have m: "0 < ?m" using assms(2) by simp
    obtain sp c' seed' es' where
      f: "fold (multiStep ?corners (?corners ! 0) ?m c1) [0..<?m] (0, c1, seed1, es) = (sp, c', seed', es')"
      by (metis prod_cases4)
    have inv: "twoChannel c' \<and> length es' = ?m
        \<and> (\<forall>j<?m. (\<exists>i<?m. (?corners ! 0 + i) mod ?m = j) \<longrightarrow> twoChannel (EdgeSegment_color (es' ! j)))"
      using multi_fold_colors [OF g1 g1 refl m le_refl, where corners = ?corners
          and start = "?corners ! 0" and spline = 0 and seed = seed1] f by simp
    have "\<forall>e \<in> set es'. visible (EdgeSegment_color e)"
    proof
      fix e assume "e \<in> set es'"
      then obtain j where j: "j < ?m" "e = es' ! j" using inv by (metis in_set_conv_nth)
      have "\<exists>i<?m. (?corners ! 0 + i) mod ?m = j" using m j(1) by (rule cyc_cover)
      then have "twoChannel (EdgeSegment_color e)" using inv j by blast
      then show "visible (EdgeSegment_color e)" by (rule twoChannel_visible)
    qed
    moreover have "?corners \<noteq> []" "length ?corners \<noteq> Suc 0" using 3 by auto
    ultimately show ?thesis using sw1 f inv
      by (simp add: simpleContour_def Let_def)
  qed
qed

lemma coloringLoop_invariant:
  assumes step: "\<And>st es. I st \<Longrightarrow> es \<noteq> [] \<Longrightarrow>
                   I (fst (f st es)) \<and> (\<forall>e \<in> set (snd (f st es)). Q e)"
  shows "I st \<Longrightarrow>
         (case coloringLoop f st cs of
            Inl err \<Rightarrow> \<exists>c \<in> set cs. None \<in> set c
          | Inr cs' \<Rightarrow> \<forall>c \<in> set cs'. \<forall>h \<in> set c. \<exists>e. h = Some e \<and> Q e)"
proof (induction cs arbitrary: st)
  case Nil
  then show ?case by simp
next
  case (Cons contour rest)
  show ?case
  proof (cases "length contour = 0")
    case True
    then show ?thesis using Cons.IH [OF Cons.prems] by (auto split: sum.splits)
  next
    case False
    show ?thesis
    proof (cases "those contour")
      case None
      then have "None \<in> set contour" by (induction contour) (auto split: option.splits)
      then show ?thesis using False None by simp
    next
      case (Some es)
      then have es: "es \<noteq> []" using False by (cases contour) (auto split: option.splits)
      obtain st' es' where fs: "f st es = (st', es')" by (cases "f st es")
      have i': "I st'" and q: "\<forall>e \<in> set es'. Q e" using step [OF Cons.prems es] fs by simp_all
      show ?thesis using Cons.IH [OF i'] False Some fs q by (auto split: sum.splits)
    qed
  qed
qed

lemma square_corners:
  "contourCorners ct [LinearSegment (Vector2 0 0) (Vector2 1 0) c0,
                    LinearSegment (Vector2 1 0) (Vector2 1 1) c1,
                    LinearSegment (Vector2 1 1) (Vector2 0 1) c2,
                    LinearSegment (Vector2 0 1) (Vector2 0 0) c3] = [0, 1, 2, 3]"
  by (simp add: contourCorners_def isCorner_def Vector2_normalize_def Vector2_length_def
      Vector2_subtract_def dotProduct_def crossProduct_def Let_def)

lemma initColor_minus_one: "initColor (- 1) = (None, 0)"
  by (simp add: initColor_def seedExtract3_def signed_modulo_int_def signed_divide_int_def Let_def)

lemma initColor_zero: "initColor 0 = (Some 6, 0)"
  by (simp add: initColor_def seedExtract3_def signed_modulo_int_def signed_divide_int_def Let_def)

lemma switchColor_undefined: "switchColor 0 None None = (0, 0)"
  by (simp add: switchColor_def seedExtract2_def toInt32_def Let_def)

lemma switchColor_black: "switchColor 0 (Some 0) (Some 0) = (0, 0)"
  by (simp add: switchColor_def seedExtract2_def toInt32_def Let_def)

lemma switchColor_cyan: "switchColor 0 (Some 6) None = (5, 0)"
  by code_simp

lemma switchColor_magenta: "switchColor 0 (Some 5) (Some 0) = (3, 0)"
  by code_simp

lemma switchColor_yellow: "switchColor 0 (Some 3) (Some 0) = (6, 0)"
  by code_simp

lemma switchColor_cyan_banned_magenta: "switchColor 0 (Some 6) (Some 5) = (3, 0)"
  by code_simp


lemma upt_4: "[0..<4] = [0, 1, 2, 3::nat]" by code_simp

lemma simpleContour_square_undefined: "simpleContour ct (0, None) (unitSquare 7 7 7 7) = ((0, Some 0), unitSquare 0 0 0 0)"
  by (simp add: simpleContour_def unitSquare_def square_corners upt_4 multiStep_def Let_def switchColor_undefined switchColor_black)

lemma simpleContour_square_cyan: "simpleContour ct (0, Some 6) (unitSquare 7 7 7 7) = ((0, Some 3), unitSquare 5 3 6 3)"
  by (simp add: simpleContour_def unitSquare_def square_corners upt_4 multiStep_def Let_def switchColor_cyan switchColor_magenta switchColor_yellow
      switchColor_cyan_banned_magenta)


lemma initColor_minus_three: "initColor (- 3) = (Some 6, - 1)"
  by (simp add: initColor_def seedExtract3_def signed_modulo_int_def signed_divide_int_def Let_def)

lemma switchColor_cyan_ones: "switchColor (- 1) (Some 6) None = (3, - 1)"
  by code_simp

lemma switchColor_yellow_ones: "switchColor (- 1) (Some 3) (Some 0) = (5, - 1)"
  by code_simp

lemma switchColor_magenta_ones: "switchColor (- 1) (Some 5) (Some 0) = (6, - 1)"
  by code_simp

lemma switchColor_cyan_banned_yellow: "switchColor (- 1) (Some 6) (Some 3) = (5, - 1)"
  by code_simp

lemma simpleContour_square_minus_one:
  "simpleContour ct (- 1, Some 6) (unitSquare 7 7 7 7) = ((- 1, Some 5), unitSquare 3 5 6 5)"
  by (simp add: simpleContour_def unitSquare_def square_corners upt_4 multiStep_def Let_def
      switchColor_cyan_ones switchColor_yellow_ones switchColor_magenta_ones
      switchColor_cyan_banned_yellow)

lemma visible_numChannels: "visible c \<Longrightarrow> 2 \<le> numChannels c"
  unfolding visible_def by (elim disjE) (simp_all add: numChannels_def)

lemma unitSquare_not_empty [simp]: "unitSquare c0 c1 c2 c3 \<noteq> []"
  by (simp add: unitSquare_def)

text \<open>
  What \<open>edgeColoringSimple\<close> does when the first trit of the seed, \<open>seed % 3n\<close>, is not
  negative (a seed that is not negative, or a multiple of three). It throws only when a
  non-empty contour has an empty edge holder; otherwise, in the colored shape every holder
  of every contour holds an edge whose color is one of \<open>CYAN\<close>, \<open>MAGENTA\<close>, \<open>YELLOW\<close> and
  \<open>WHITE\<close>, that is, a color with at least two channels.
\<close>

theorem edgeColoringSimple_colors:
  assumes "0 \<le> seed smod 3"
  shows "case edgeColoringSimple shp angleThreshold seed of
           Inl err \<Rightarrow> \<exists>c \<in> set (contours shp). None \<in> set c
         | Inr shp' \<Rightarrow>
             \<forall>c \<in> set (contours shp'). \<forall>h \<in> set c.
               \<exists>e. h = Some e \<and> EdgeSegment_color e \<in> {CYAN, MAGENTA, YELLOW, WHITE}
                    \<and> 2 \<le> numChannels (EdgeSegment_color e)"
proof -
  obtain g where g: "fst (initColor seed) = Some g" "twoChannel g" using initColor_twoChannel [OF assms] by blast
  obtain seed1 where i: "initColor seed = (Some g, seed1)" using g(1) by (cases "initColor seed") simp
  let ?I = "\<lambda>st. \<exists>g. snd st = Some g \<and> twoChannel g"
  let ?Q = "\<lambda>e. visible (EdgeSegment_color e) \<and> 2 \<le> numChannels (EdgeSegment_color e)"
  have step: "\<And>st es. ?I st \<Longrightarrow> es \<noteq> [] \<Longrightarrow>
        ?I (fst (simpleContour (sin angleThreshold) st es))
        \<and> (\<forall>e \<in> set (snd (simpleContour (sin angleThreshold) st es)). ?Q e)"
  proof -
    fix st :: "int \<times> nat option" and es :: "edge_segment list"
    assume "?I st" and es: "es \<noteq> []"
    then obtain s c where st: "st = (s, Some c)" and c: "twoChannel c" by (cases st) auto
    show "?I (fst (simpleContour (sin angleThreshold) st es))
        \<and> (\<forall>e \<in> set (snd (simpleContour (sin angleThreshold) st es)). ?Q e)"
      using simpleContour_colors [OF c es, of "sin angleThreshold" s] visible_numChannels
      unfolding st by (auto split: prod.splits)
  qed
  have "case coloringLoop (simpleContour (sin angleThreshold)) (seed1, Some g) (contours shp) of
            Inl err \<Rightarrow> \<exists>c \<in> set (contours shp). None \<in> set c
          | Inr cs' \<Rightarrow> \<forall>c \<in> set cs'. \<forall>h \<in> set c. \<exists>e. h = Some e \<and> ?Q e"
  proof (rule coloringLoop_invariant [where I = ?I and Q = ?Q])
    show "?I (seed1, Some g)" using g(2) by simp
  next
    fix st :: "int \<times> nat option" and es :: "edge_segment list"
    assume "?I st" "es \<noteq> []"
    then show "?I (fst (simpleContour (sin angleThreshold) st es))
        \<and> (\<forall>e \<in> set (snd (simpleContour (sin angleThreshold) st es)). ?Q e)"
      by (rule step)
  qed
  then show ?thesis using i
    by (auto simp: edgeColoringSimple_def Let_def visible_def split: sum.splits)
qed




theorem edgeColoringSimple_colors_witness:
  "0 \<le> (- 3::int) smod 3
   \<and> edgeColoringSimple (unitSquareShape WHITE WHITE WHITE WHITE) 3 (- 3)
       = Inr (unitSquareShape YELLOW MAGENTA CYAN MAGENTA)"
  using edgeColoringSimple_colors [of "- 3" "unitSquareShape WHITE WHITE WHITE WHITE" 3]
  by (simp add: edgeColoringSimple_def unitSquareShape_def initColor_minus_three
      simpleContour_square_minus_one Let_def signed_modulo_int_def)

text \<open>
  C10 fails for the seed \<open>-1n\<close>. The trit is \<open>Number(-1n % 3n) = -1\<close>, against the doc comment
  of \<open>seedExtract3\<close> (a trit 0, 1 or 2), so \<open>initColor\<close> returns \<open>colors[-1]\<close>, which is
  \<open>undefined\<close>; \<open>switchColor\<close> shifts it as \<open>0\<close>, and with the angle threshold \<open>3\<close> every edge of
  the unit square is left \<open>BLACK\<close>.
\<close>

theorem edgeColoringSimple_negative_seed_counterexample:
  "edgeColoringSimple (unitSquareShape WHITE WHITE WHITE WHITE) 3 (- 1)
     = Inr (unitSquareShape BLACK BLACK BLACK BLACK)"
  by (simp add: edgeColoringSimple_def unitSquareShape_def initColor_minus_one
      simpleContour_square_undefined Let_def)

section \<open>Coloring by distance where four splines meet\<close>

lemma clover_corners: "contourCorners ct (cloverLeaves c0 c1 c2 c3) = [0, 1, 2, 3]"
  by (simp add: cloverLeaves_def contourCorners_def isCorner_def Vector2_normalize_def Vector2_length_def
      Vector2_subtract_def dotProduct_def crossProduct_def mixv_def Let_def)


lemma clover_splines:
  "distanceContour ct 0 (cloverLeaves c0 c1 c2 c3) ([], []) =
     (cloverLeaves c0 c1 c2 c3,
      [((0, 0), cloverLeaves c0 c1 c2 c3 ! 0), ((0, 1), cloverLeaves c0 c1 c2 c3 ! 1),
       ((0, 2), cloverLeaves c0 c1 c2 c3 ! 2), ((0, 3), cloverLeaves c0 c1 c2 c3 ! 3)],
      [0, 1, 2, 3])"
proof -
  have l: "length (cloverLeaves c0 c1 c2 c3) = 4" by (simp add: cloverLeaves_def)
  show ?thesis
    by (simp add: distanceContour_def clover_corners l upt_4 splineStep_def Let_def)
       (simp add: cloverLeaves_def numeral_2_eq_2)
qed

lemma clover_touch:
  assumes "i < 4" "j < 4"
  shows "edgeToEdgeDistance (cloverLeaves c0 c1 c2 c3 ! i) (cloverLeaves c0 c1 c2 c3 ! j) n = 0"
proof -
  have "EdgeSegment_point (cloverLeaves c0 c1 c2 c3 ! i) 0 = Vector2 0 0"
    using assms(1) by (auto simp: cloverLeaves_def mixv_def Let_def less_Suc_eq numeral_eq_Suc)
  moreover have "EdgeSegment_point (cloverLeaves c0 c1 c2 c3 ! j) 0 = Vector2 0 0"
    using assms(2) by (auto simp: cloverLeaves_def mixv_def Let_def less_Suc_eq numeral_eq_Suc)
  ultimately show ?thesis by (simp add: edgeToEdgeDistance_def Vector2_equals_def Let_def)
qed


lemma clover_spline_touch:
  assumes "i < 4" "j < 4"
  shows "splineToSplineDistance (cloverLeaves c0 c1 c2 c3) i (Suc i) j (Suc j) n = 0"
  using MAX_VALUE_pos clover_touch [OF assms, of c0 c1 c2 c3 n]
  by (simp add: splineToSplineDistance_def)

lemma upt_rows:
  "[0..<4] = [0, 1, 2, 3::nat]" "[1..<4] = [1, 2, 3::nat]" "[2..<4] = [2, 3::nat]"
  "[3..<4] = [3::nat]" "[4..<4] = ([]::nat list)"
  by code_simp+

lemma clover_graph:
  "graphEdgeDistances (cloverLeaves c0 c1 c2 c3) [0, 1, 2, 3, 4] 4 =
     [(0, 0, 1), (0, 0, 2), (0, 0, 3), (0, 1, 2), (0, 1, 3), (0, 2, 3)]"
  using clover_spline_touch [of 0 1 c0 c1 c2 c3 EDGE_DISTANCE_PRECISION]
    clover_spline_touch [of 0 2 c0 c1 c2 c3 EDGE_DISTANCE_PRECISION]
    clover_spline_touch [of 0 3 c0 c1 c2 c3 EDGE_DISTANCE_PRECISION]
    clover_spline_touch [of 1 2 c0 c1 c2 c3 EDGE_DISTANCE_PRECISION]
    clover_spline_touch [of 1 3 c0 c1 c2 c3 EDGE_DISTANCE_PRECISION]
    clover_spline_touch [of 2 3 c0 c1 c2 c3 EDGE_DISTANCE_PRECISION]
  by (simp add: graphEdgeDistances_def upt_rows numeral_eq_Suc)

lemma clover_matrix:
  "fold addGraphEdge [(0, 0, 1), (0, 0, 2), (0, 0, 3), (0, 1, 2), (0, 1, 3), (0, 2, 3)]
     (replicate 4 (replicate 4 0)) = K4"
  by (simp add: addGraphEdge_def setEdge_def K4_def numeral_eq_Suc)

lemma clover_coloring: "colorSecondDegreeGraph [0, 0, 0, 0] K4 4 0 = ([0, 1, 2, 0], 0)"
  by code_simp


lemma replicate_4: "replicate 4 x = [x, x, x, x]"
  by (simp add: numeral_eq_Suc)

lemma clover_sorted:
  "sort_key fst [(0::real, 0::nat, 1::nat), (0, 0, 2), (0, 0, 3), (0, 1, 2), (0, 1, 3), (0, 2, 3)]
     = [(0, 0, 1), (0, 0, 2), (0, 0, 3), (0, 1, 2), (0, 1, 3), (0, 2, 3)]"
  by simp

lemma clover_apply:
  "applyColors [((0, 0), e0), ((0, 1), e1), ((0, 2), e2), ((0, 3), e3)] 0 [0, 1, 2, 3, 4]
     [0, 1, 2, 0] (- 1) [map Some (cloverLeaves c0 c1 c2 c3)]
   = Inr [map Some (cloverLeaves YELLOW CYAN MAGENTA YELLOW)]"
  by (simp add: splineColor_def setEdgeColor_def cloverLeaves_def Let_def)

lemma edgeColoringByDistance_run:
  assumes "distanceContours (sin a) 0 (contours shp) ([], []) = Inr (cs, segs, starts0)"
    and "starts = starts0 @ [length segs]"
    and "n = length starts - 1"
    and "n \<noteq> 0"
    and "sort_key fst (graphEdgeDistances (map snd segs) starts n) = ge"
    and "fold addGraphEdge (takeWhile (\<lambda>e. fst e = 0) ge) (replicate n (replicate n 0)) = M"
    and "colorSecondDegreeGraph (replicate n 0) M n seed = (col, seed')"
    and "tryAddEdges (dropWhile (\<lambda>e. fst e = 0) ge) n (col, M, replicate n 0) = Some (col', M', buf')"
    and "applyColors segs 0 starts col' (- 1) cs = Inr cs'"
  shows "edgeColoringByDistance shp a seed = Some (Inr (shp\<lparr>contours := cs'\<rparr>))"
  using assms by (simp add: edgeColoringByDistance_def Let_def)

text \<open>On the same contour \<open>edgeColoringSimple\<close> gives adjacent edges different colors.\<close>

lemma simpleContour_clover:
  "simpleContour ct (0, Some 6) (cloverLeaves 7 7 7 7) = ((0, Some 3), cloverLeaves 5 3 6 3)"
proof -
  have l: "length (cloverLeaves 7 7 7 7) = 4" by (simp add: cloverLeaves_def)
  show ?thesis
    by (simp add: simpleContour_def clover_corners l upt_4 multiStep_def Let_def
        switchColor_cyan switchColor_magenta switchColor_yellow switchColor_cyan_banned_magenta)
      (simp add: cloverLeaves_def)
qed

lemma edgeColoringSimple_clover:
  "edgeColoringSimple (cloverShape WHITE WHITE WHITE WHITE) 3 0
     = Inr (cloverShape MAGENTA YELLOW CYAN YELLOW)"
proof -
  have ne: "cloverLeaves 7 7 7 7 \<noteq> []" by (simp add: cloverLeaves_def)
  show ?thesis using ne
    by (simp add: edgeColoringSimple_def cloverShape_def initColor_zero simpleContour_clover Let_def)
qed

text \<open>
  C3 fails for \<open>edgeColoringByDistance\<close> on the clover, with the angle threshold \<open>3\<close> and the
  seed \<open>0\<close>. Every edge starts at a detected corner, and the four splines touch each other
  in the origin, so that the graph of zero distances is complete. The greedy coloring gives
  the first three splines the colors 0, 1 and 2; for the fourth no color is possible, the
  \<open>switch\<close> has no case for that, and the color stays 0. The last edge and the first, which
  are adjacent across the corner at index 0, are both \<open>YELLOW\<close>: their colors share two
  channels.
\<close>

theorem edgeColoringByDistance_clover:
  "contourCorners (sin 3) (cloverLeaves WHITE WHITE WHITE WHITE) = [0, 1, 2, 3]
   \<and> edgeColoringByDistance (cloverShape WHITE WHITE WHITE WHITE) 3 0
       = Some (Inr (cloverShape YELLOW CYAN MAGENTA YELLOW))
   \<and> numChannels (EdgeSegment_color (cloverLeaves YELLOW CYAN MAGENTA YELLOW ! 3)
                    AND EdgeSegment_color (cloverLeaves YELLOW CYAN MAGENTA YELLOW ! 0)) = 2"
proof -
  let ?es = "cloverLeaves WHITE WHITE WHITE WHITE"
  let ?segs = "[((0::nat, 0::nat), ?es ! 0), ((0, 1), ?es ! 1), ((0, 2), ?es ! 2), ((0, 3), ?es ! 3)]"
  let ?ge = "[(0::real, 0::nat, 1::nat), (0, 0, 2), (0, 0, 3), (0, 1, 2), (0, 1, 3), (0, 2, 3)]"
  have ne: "?es \<noteq> []" by (simp add: cloverLeaves_def)
  have 1: "distanceContours (sin 3) 0 (contours (cloverShape WHITE WHITE WHITE WHITE)) ([], [])
      = Inr ([map Some ?es], ?segs, [0, 1, 2, 3])"
    using ne by (simp add: cloverShape_def clover_splines)
  have 2: "[0, 1, 2, 3, 4] = [0, 1, 2, 3] @ [length ?segs]" by simp
  have 3: "(4::nat) = length [0::nat, 1, 2, 3, 4] - 1" by simp
  have m: "map snd ?segs = ?es" by (simp add: cloverLeaves_def)
  have 4: "sort_key fst (graphEdgeDistances (map snd ?segs) [0, 1, 2, 3, 4] 4) = ?ge"
    unfolding m clover_graph by (rule clover_sorted)
  have 5: "fold addGraphEdge (takeWhile (\<lambda>e. fst e = 0) ?ge) (replicate 4 (replicate 4 0)) = K4"
    using clover_matrix by simp
  have 6: "colorSecondDegreeGraph (replicate 4 0) K4 4 0 = ([0, 1, 2, 0], 0)"
    unfolding replicate_4 by (rule clover_coloring)
  have 7: "tryAddEdges (dropWhile (\<lambda>e. fst e = 0) ?ge) 4 ([0, 1, 2, 0], K4, replicate 4 0)
      = Some ([0, 1, 2, 0], K4, replicate 4 0)" by simp
  have 8: "applyColors ?segs 0 [0, 1, 2, 3, 4] [0, 1, 2, 0] (- 1) [map Some ?es]
      = Inr [map Some (cloverLeaves YELLOW CYAN MAGENTA YELLOW)]"
    by (rule clover_apply)
  have "edgeColoringByDistance (cloverShape WHITE WHITE WHITE WHITE) 3 0
      = Some (Inr ((cloverShape WHITE WHITE WHITE WHITE)
           \<lparr>contours := [map Some (cloverLeaves YELLOW CYAN MAGENTA YELLOW)]\<rparr>))"
    by (rule edgeColoringByDistance_run [OF 1 2 3 _ 4 5 6 7 8]) simp
  then have "edgeColoringByDistance (cloverShape WHITE WHITE WHITE WHITE) 3 0
       = Some (Inr (cloverShape YELLOW CYAN MAGENTA YELLOW))"
    by (simp add: cloverShape_def)
  moreover have "numChannels (EdgeSegment_color (cloverLeaves YELLOW CYAN MAGENTA YELLOW ! 3)
                    AND EdgeSegment_color (cloverLeaves YELLOW CYAN MAGENTA YELLOW ! 0)) = 2"
    by (simp add: cloverLeaves_def numChannels_def)
  ultimately show ?thesis using clover_corners [of "sin 3"] by simp
qed


end
